theory Spec2Isabelle
  imports Main "HOL-Library.Multiset"
begin

section \<open>Strings\<close>

text \<open>
  Go strings are modelled as byte lists (\<open>string\<close>). The helpers below follow the
  standard-library functions the repository calls, on ASCII input: \<open>strings.Join\<close>,
  \<open>strings.Split\<close> with a one-byte separator, \<open>strings.ToLower\<close>, \<open>strings.ToUpper\<close>,
  \<open>strings.Title\<close>, \<open>strings.Replace(s, old, new, -1)\<close> with a one-byte \<open>old\<close>, and the
  \<open>%d\<close> verb of \<open>fmt.Sprintf\<close>.
\<close>

definition dq :: char where
  "dq = CHR 0x22"

definition bq :: char where
  "bq = CHR 0x60"

fun join :: "string \<Rightarrow> string list \<Rightarrow> string" where
  "join sep [] = []"
| "join sep [x] = x"
| "join sep (x # y # ys) = x @ sep @ join sep (y # ys)"

fun split_on :: "char \<Rightarrow> string \<Rightarrow> string list" where
  "split_on c [] = [[]]"
| "split_on c (x # xs) =
     (if x = c then [] # split_on c xs
      else (case split_on c xs of
              [] \<Rightarrow> [[x]]
            | p # ps \<Rightarrow> (x # p) # ps))"

definition is_upper :: "char \<Rightarrow> bool" where
  "is_upper c = (c \<in> set ''ABCDEFGHIJKLMNOPQRSTUVWXYZ'')"

definition is_lower :: "char \<Rightarrow> bool" where
  "is_lower c = (c \<in> set ''abcdefghijklmnopqrstuvwxyz'')"

definition is_digit :: "char \<Rightarrow> bool" where
  "is_digit c = (c \<in> set ''0123456789'')"

definition lower_char :: "char \<Rightarrow> char" where
  "lower_char c =
     (case map_of (zip ''ABCDEFGHIJKLMNOPQRSTUVWXYZ'' ''abcdefghijklmnopqrstuvwxyz'') c of
        Some d \<Rightarrow> d
      | None \<Rightarrow> c)"

definition upper_char :: "char \<Rightarrow> char" where
  "upper_char c =
     (case map_of (zip ''abcdefghijklmnopqrstuvwxyz'' ''ABCDEFGHIJKLMNOPQRSTUVWXYZ'') c of
        Some d \<Rightarrow> d
      | None \<Rightarrow> c)"

definition ToLower :: "string \<Rightarrow> string" where
  "ToLower s = map lower_char s"

definition ToUpper :: "string \<Rightarrow> string" where
  "ToUpper s = map upper_char s"

text \<open>\<open>strings.EqualFold\<close> on ASCII: equality up to letter case.\<close>

definition EqualFold :: "string \<Rightarrow> string \<Rightarrow> bool" where
  "EqualFold s t = (ToLower s = ToLower t)"

text \<open>
  \<open>strings.Title\<close>: a letter is upper-cased when the previous byte is a separator; ASCII
  letters, digits and the underscore are not separators, and the string starts after a
  blank.
\<close>

definition isSeparator :: "char \<Rightarrow> bool" where
  "isSeparator c = (\<not> (is_digit c \<or> is_lower c \<or> is_upper c \<or> c = CHR ''_''))"

fun title_from :: "char \<Rightarrow> string \<Rightarrow> string" where
  "title_from prev [] = []"
| "title_from prev (c # cs) =
     (if isSeparator prev then upper_char c else c) # title_from c cs"

definition Title :: "string \<Rightarrow> string" where
  "Title s = title_from CHR '' '' s"

definition replace_char :: "char \<Rightarrow> string \<Rightarrow> string \<Rightarrow> string" where
  "replace_char old new s = concat (map (\<lambda>c. if c = old then new else [c]) s)"

definition digit_char :: "nat \<Rightarrow> char" where
  "digit_char n = hd (drop n ''0123456789'')"

function itoa_nat :: "nat \<Rightarrow> string" where
  "itoa_nat n =
     (if n < 10 then [digit_char n] else itoa_nat (n div 10) @ [digit_char (n mod 10)])"
  by pat_completeness auto
termination
  by (relation "measure id") auto

declare itoa_nat.simps [simp del]

definition itoa :: "int \<Rightarrow> string" where
  "itoa i = (if i < 0 then CHR ''-'' # itoa_nat (nat (- i)) else itoa_nat (nat i))"

text \<open>
  \<open>toSnakeCase\<close> (model.go): an underscore before every upper-case letter that is not the
  first byte, then lower-casing.
\<close>

fun snake_from :: "bool \<Rightarrow> string \<Rightarrow> string" where
  "snake_from first [] = []"
| "snake_from first (c # cs) =
     (if \<not> first \<and> is_upper c then [CHR ''_'', c] else [c]) @ snake_from False cs"

definition toSnakeCase :: "string \<Rightarrow> string" where
  "toSnakeCase s = ToLower (snake_from True s)"

text \<open>
  \<open>toFieldName\<close> (relationship.go): split at underscores, \<open>strings.Title\<close> each part, join
  without a separator.
\<close>

definition toFieldName :: "string \<Rightarrow> string" where
  "toFieldName columnName = join [] (map Title (split_on CHR ''_'' columnName))"

section \<open>Go values as seen through reflection\<close>

text \<open>
  The repository reads and writes records through \<open>reflect\<close>. A value carries what the
  code inspects: its kind, for a struct its type name, whether the type implements the
  \<open>Model\<close> interface (and with which receiver), and per field the name, the declared
  type, the value of the \<open>db\<close> struct tag and the current value. \<open>VNil\<close> is the nil
  interface value; a typed nil pointer (\<open>VNilPtr\<close>) and a nil slice (\<open>VNilSlice\<close>) are
  different values, as in Go. Integer kinds are not distinguished by width, and embedded
  (anonymous) struct fields are not modelled.
\<close>

datatype gtype =
    TInt
  | TString
  | TBool
  | TTime
  | TIface
  | TPtr gtype
  | TSlice gtype
  | TStruct string

text \<open>
  \<open>Model\<close> interface of a struct type: the receiver kind of its \<open>TableName\<close> and
  \<open>PrimaryKey\<close> methods (\<open>True\<close> for a pointer receiver) and what they return.
\<close>

datatype sinfo = SInfo (s_name: string) (s_model: "(bool \<times> string \<times> string) option")

datatype gval =
    VNil
  | VInt int
  | VStr string
  | VBool bool
  | VTime int
  | VNilPtr gtype
  | VPtr gval
  | VNilSlice gtype
  | VSlice gtype "gval list"
  | VStruct sinfo "gfield list"
and gfield =
    Field (f_name: string) (f_type: gtype) (f_tag: string) (f_val: gval)

section \<open>The query builder of the root package (query.go)\<close>

record QueryBuilder =
  qb_table :: string
  qb_columns :: "string list"
  qb_whereClause :: "string list"
  qb_whereArgs :: "gval list"
  qb_orderBy :: "string list"
  qb_limit :: int
  qb_offset :: int
  qb_joins :: "string list"
  qb_groupBy :: "string list"
  qb_havingClause :: "string list"
  qb_havingArgs :: "gval list"
  qb_operation :: string
  qb_values :: "(string \<times> gval) list"

definition NewQueryBuilder :: "string \<Rightarrow> QueryBuilder" where
  "NewQueryBuilder table =
     \<lparr> qb_table = table, qb_columns = [], qb_whereClause = [], qb_whereArgs = [],
       qb_orderBy = [], qb_limit = 0, qb_offset = 0, qb_joins = [], qb_groupBy = [],
       qb_havingClause = [], qb_havingArgs = [], qb_operation = [], qb_values = [] \<rparr>"

definition qb_Select :: "string list \<Rightarrow> QueryBuilder \<Rightarrow> QueryBuilder" where
  "qb_Select columns qb = qb\<lparr> qb_operation := ''SELECT'', qb_columns := columns \<rparr>"

definition qb_Insert :: "QueryBuilder \<Rightarrow> QueryBuilder" where
  "qb_Insert qb = qb\<lparr> qb_operation := ''INSERT'' \<rparr>"

definition qb_Update :: "QueryBuilder \<Rightarrow> QueryBuilder" where
  "qb_Update qb = qb\<lparr> qb_operation := ''UPDATE'' \<rparr>"

definition qb_Delete :: "QueryBuilder \<Rightarrow> QueryBuilder" where
  "qb_Delete qb = qb\<lparr> qb_operation := ''DELETE'' \<rparr>"

definition qb_Where :: "string \<Rightarrow> gval list \<Rightarrow> QueryBuilder \<Rightarrow> QueryBuilder" where
  "qb_Where condition args qb =
     qb\<lparr> qb_whereClause := qb_whereClause qb @ [condition],
         qb_whereArgs := qb_whereArgs qb @ args \<rparr>"

definition qb_OrderBy :: "string list \<Rightarrow> QueryBuilder \<Rightarrow> QueryBuilder" where
  "qb_OrderBy columns qb = qb\<lparr> qb_orderBy := qb_orderBy qb @ columns \<rparr>"

definition qb_Limit :: "int \<Rightarrow> QueryBuilder \<Rightarrow> QueryBuilder" where
  "qb_Limit n qb = qb\<lparr> qb_limit := n \<rparr>"

definition qb_Offset :: "int \<Rightarrow> QueryBuilder \<Rightarrow> QueryBuilder" where
  "qb_Offset n qb = qb\<lparr> qb_offset := n \<rparr>"

definition qb_Join :: "string \<Rightarrow> QueryBuilder \<Rightarrow> QueryBuilder" where
  "qb_Join j qb = qb\<lparr> qb_joins := qb_joins qb @ [j] \<rparr>"

definition qb_GroupBy :: "string list \<Rightarrow> QueryBuilder \<Rightarrow> QueryBuilder" where
  "qb_GroupBy columns qb = qb\<lparr> qb_groupBy := qb_groupBy qb @ columns \<rparr>"

definition qb_Having :: "string \<Rightarrow> gval list \<Rightarrow> QueryBuilder \<Rightarrow> QueryBuilder" where
  "qb_Having condition args qb =
     qb\<lparr> qb_havingClause := qb_havingClause qb @ [condition],
         qb_havingArgs := qb_havingArgs qb @ args \<rparr>"

text \<open>
  \<open>values\<close> is a Go map. It is kept as an association list with distinct keys:
  \<open>map_set\<close> is the assignment \<open>m[k] = v\<close>.
\<close>

fun map_set :: "string \<Rightarrow> gval \<Rightarrow> (string \<times> gval) list \<Rightarrow> (string \<times> gval) list" where
  "map_set k v [] = [(k, v)]"
| "map_set k v ((k', v') # m) = (if k = k' then (k, v) # m else (k', v') # map_set k v m)"

definition qb_Set :: "string \<Rightarrow> gval \<Rightarrow> QueryBuilder \<Rightarrow> QueryBuilder" where
  "qb_Set column v qb = qb\<lparr> qb_values := map_set column v (qb_values qb) \<rparr>"

text \<open>
  Go leaves the order of \<open>for k, v := range m\<close> over a map unspecified and the runtime
  varies it from one loop to the next. A function that ranges over a map therefore takes
  the enumeration the runtime produced as an argument; \<open>enumerates kvs m\<close> says that
  \<open>kvs\<close> is such an enumeration of \<open>m\<close>: every entry once.
\<close>

definition enumerates :: "('k \<times> 'v) list \<Rightarrow> ('k \<times> 'v) list \<Rightarrow> bool" where
  "enumerates kvs m = (mset kvs = mset m)"

definition where_part :: "string list \<Rightarrow> string" where
  "where_part ws = (if length ws > 0 then '' WHERE '' @ join '' AND '' ws else [])"

definition qb_Build :: "(string \<times> gval) list \<Rightarrow> QueryBuilder \<Rightarrow> string \<times> gval list" where
  "qb_Build kvs qb =
     (if qb_operation qb = ''SELECT'' then
        (''SELECT ''
           @ (if length (qb_columns qb) = 0 then ''*'' else join '', '' (qb_columns qb))
           @ '' FROM '' @ qb_table qb
           @ concat (map (\<lambda>j. '' '' @ j) (qb_joins qb))
           @ where_part (qb_whereClause qb)
           @ (if length (qb_groupBy qb) > 0 then '' GROUP BY '' @ join '', '' (qb_groupBy qb) else [])
           @ (if length (qb_havingClause qb) > 0
              then '' HAVING '' @ join '' AND '' (qb_havingClause qb) else [])
           @ (if length (qb_orderBy qb) > 0 then '' ORDER BY '' @ join '', '' (qb_orderBy qb) else [])
           @ (if qb_limit qb > 0 then '' LIMIT '' @ itoa (qb_limit qb) else [])
           @ (if qb_offset qb > 0 then '' OFFSET '' @ itoa (qb_offset qb) else []),
         (if length (qb_whereClause qb) > 0 then qb_whereArgs qb else [])
           @ (if length (qb_havingClause qb) > 0 then qb_havingArgs qb else []))
      else if qb_operation qb = ''INSERT'' then
        (''INSERT INTO '' @ qb_table qb
           @ '' ('' @ join '', '' (map fst kvs)
           @ '') VALUES ('' @ join '', '' (map (\<lambda>_. ''?'') kvs) @ '')'',
         map snd kvs)
      else if qb_operation qb = ''UPDATE'' then
        (''UPDATE '' @ qb_table qb @ '' SET ''
           @ join '', '' (map (\<lambda>(column, _). column @ '' = ?'') kvs)
           @ where_part (qb_whereClause qb),
         map snd kvs @ (if length (qb_whereClause qb) > 0 then qb_whereArgs qb else []))
      else if qb_operation qb = ''DELETE'' then
        (''DELETE FROM '' @ qb_table qb @ where_part (qb_whereClause qb),
         (if length (qb_whereClause qb) > 0 then qb_whereArgs qb else []))
      else ([], []))"

section \<open>Dialects (internal/dialect)\<close>

text \<open>
  \<open>Dialect\<close> is an interface; the query builder calls \<open>Name\<close>, \<open>Quote\<close> and
  \<open>Placeholder\<close>. A dialect is the record of these three methods, and the three
  implementations of the repository are constants of that type.
\<close>

record Dialect =
  d_Name :: string
  d_Quote :: "string \<Rightarrow> string"
  d_Placeholder :: "int \<Rightarrow> string"

definition PostgresDialect :: Dialect where
  "PostgresDialect =
     \<lparr> d_Name = ''postgres'',
       d_Quote = (\<lambda>identifier. [dq] @ replace_char dq [dq, dq] identifier @ [dq]),
       d_Placeholder = (\<lambda>position. ''$'' @ itoa position) \<rparr>"

definition MySQLDialect :: Dialect where
  "MySQLDialect =
     \<lparr> d_Name = ''mysql'',
       d_Quote = (\<lambda>identifier. [bq] @ replace_char bq [bq, bq] identifier @ [bq]),
       d_Placeholder = (\<lambda>position. ''?'') \<rparr>"

definition SQLiteDialect :: Dialect where
  "SQLiteDialect =
     \<lparr> d_Name = ''sqlite'',
       d_Quote = (\<lambda>identifier. [dq] @ replace_char dq [dq, dq] identifier @ [dq]),
       d_Placeholder = (\<lambda>position. ''?'') \<rparr>"

definition GetDialect :: "string \<Rightarrow> Dialect option" where
  "GetDialect name =
     (if name = ''postgres'' then Some PostgresDialect
      else if name = ''mysql'' then Some MySQLDialect
      else if name = ''sqlite'' then Some SQLiteDialect
      else None)"

section \<open>The dialect-aware builder (internal/query/builder.go)\<close>

record Builder =
  b_dialect :: Dialect
  b_table :: string
  b_columns :: "string list"
  b_where :: "string list"
  b_whereArgs :: "gval list"
  b_orderBy :: "string list"
  b_limit :: int
  b_offset :: int
  b_joins :: "string list"
  b_groupBy :: "string list"
  b_having :: "string list"
  b_havingArgs :: "gval list"
  b_operation :: string
  b_values :: "(string \<times> gval) list"
  b_returning :: "string list"

definition NewBuilder :: "Dialect \<Rightarrow> string \<Rightarrow> Builder" where
  "NewBuilder d table =
     \<lparr> b_dialect = d, b_table = table, b_columns = [], b_where = [], b_whereArgs = [],
       b_orderBy = [], b_limit = 0, b_offset = 0, b_joins = [], b_groupBy = [],
       b_having = [], b_havingArgs = [], b_operation = [], b_values = [],
       b_returning = [] \<rparr>"

definition b_Select :: "string list \<Rightarrow> Builder \<Rightarrow> Builder" where
  "b_Select columns b =
     b\<lparr> b_operation := ''SELECT'',
        b_columns := map (\<lambda>col. if col = ''*'' then col else d_Quote (b_dialect b) col) columns \<rparr>"

definition b_Insert :: "Builder \<Rightarrow> Builder" where
  "b_Insert b = b\<lparr> b_operation := ''INSERT'' \<rparr>"

definition b_Update :: "Builder \<Rightarrow> Builder" where
  "b_Update b = b\<lparr> b_operation := ''UPDATE'' \<rparr>"

definition b_Delete :: "Builder \<Rightarrow> Builder" where
  "b_Delete b = b\<lparr> b_operation := ''DELETE'' \<rparr>"

text \<open>
  The loop of \<open>Where\<close> and \<open>Having\<close> over \<open>strings.Split(condition, "?")\<close>: part \<open>i\<close>
  (from 1) is preceded by the placeholder of position \<open>n + i\<close>, \<open>n\<close> the number of
  arguments already held.
\<close>

fun placeholder_parts :: "Dialect \<Rightarrow> int \<Rightarrow> int \<Rightarrow> string list \<Rightarrow> string" where
  "placeholder_parts d n i [] = []"
| "placeholder_parts d n i (p # ps) =
     d_Placeholder d (n + i) @ p @ placeholder_parts d n (i + 1) ps"

definition rewrite_condition :: "Dialect \<Rightarrow> int \<Rightarrow> string \<Rightarrow> string" where
  "rewrite_condition d n condition =
     (if CHR ''?'' \<in> set condition then
        (case split_on CHR ''?'' condition of
           [] \<Rightarrow> condition
         | p # ps \<Rightarrow> p @ placeholder_parts d n 1 ps)
      else condition)"

definition b_Where :: "string \<Rightarrow> gval list \<Rightarrow> Builder \<Rightarrow> Builder" where
  "b_Where condition args b =
     b\<lparr> b_where := b_where b
          @ [rewrite_condition (b_dialect b) (int (length (b_whereArgs b))) condition],
        b_whereArgs := b_whereArgs b @ args \<rparr>"

definition b_OrderBy :: "string \<Rightarrow> string \<Rightarrow> Builder \<Rightarrow> Builder" where
  "b_OrderBy column direction b =
     b\<lparr> b_orderBy := b_orderBy b
          @ [d_Quote (b_dialect b) column
               @ (if ToUpper direction = ''DESC'' then '' DESC'' else '' ASC'')] \<rparr>"

definition b_Limit :: "int \<Rightarrow> Builder \<Rightarrow> Builder" where
  "b_Limit n b = b\<lparr> b_limit := n \<rparr>"

definition b_Offset :: "int \<Rightarrow> Builder \<Rightarrow> Builder" where
  "b_Offset n b = b\<lparr> b_offset := n \<rparr>"

definition b_Join :: "string \<Rightarrow> string \<Rightarrow> Builder \<Rightarrow> Builder" where
  "b_Join table condition b =
     b\<lparr> b_joins := b_joins b
          @ [''JOIN '' @ d_Quote (b_dialect b) table @ '' ON '' @ condition] \<rparr>"

definition b_LeftJoin :: "string \<Rightarrow> string \<Rightarrow> Builder \<Rightarrow> Builder" where
  "b_LeftJoin table condition b =
     b\<lparr> b_joins := b_joins b
          @ [''LEFT JOIN '' @ d_Quote (b_dialect b) table @ '' ON '' @ condition] \<rparr>"

definition b_RightJoin :: "string \<Rightarrow> string \<Rightarrow> Builder \<Rightarrow> Builder" where
  "b_RightJoin table condition b =
     b\<lparr> b_joins := b_joins b
          @ [''RIGHT JOIN '' @ d_Quote (b_dialect b) table @ '' ON '' @ condition] \<rparr>"

definition b_GroupBy :: "string list \<Rightarrow> Builder \<Rightarrow> Builder" where
  "b_GroupBy columns b =
     b\<lparr> b_groupBy := b_groupBy b @ map (d_Quote (b_dialect b)) columns \<rparr>"

definition b_Having :: "string \<Rightarrow> gval list \<Rightarrow> Builder \<Rightarrow> Builder" where
  "b_Having condition args b =
     b\<lparr> b_having := b_having b
          @ [rewrite_condition (b_dialect b) (int (length (b_havingArgs b))) condition],
        b_havingArgs := b_havingArgs b @ args \<rparr>"

definition b_Set :: "string \<Rightarrow> gval \<Rightarrow> Builder \<Rightarrow> Builder" where
  "b_Set column v b = b\<lparr> b_values := map_set column v (b_values b) \<rparr>"

definition b_Returning :: "string list \<Rightarrow> Builder \<Rightarrow> Builder" where
  "b_Returning columns b = b\<lparr> b_returning := map (d_Quote (b_dialect b)) columns \<rparr>"

text \<open>Positions \<open>1, 2, ...\<close> of the loop counter \<open>i\<close> over the enumerated entries.\<close>

definition positions :: "'a list \<Rightarrow> int list" where
  "positions xs = map (\<lambda>k. int k + 1) [0..<length xs]"

definition returning_part :: "Builder \<Rightarrow> string" where
  "returning_part b =
     (if length (b_returning b) > 0 \<and> d_Name (b_dialect b) = ''postgres''
      then '' RETURNING '' @ join '', '' (b_returning b) else [])"

definition b_Build :: "(string \<times> gval) list \<Rightarrow> Builder \<Rightarrow> string \<times> gval list" where
  "b_Build kvs b =
     (let quotedTable = d_Quote (b_dialect b) (b_table b) in
      if b_operation b = ''SELECT'' then
        (''SELECT ''
           @ (if length (b_columns b) = 0 then ''*'' else join '', '' (b_columns b))
           @ '' FROM '' @ quotedTable
           @ concat (map (\<lambda>j. '' '' @ j) (b_joins b))
           @ where_part (b_where b)
           @ (if length (b_groupBy b) > 0 then '' GROUP BY '' @ join '', '' (b_groupBy b) else [])
           @ (if length (b_having b) > 0 then '' HAVING '' @ join '' AND '' (b_having b) else [])
           @ (if length (b_orderBy b) > 0 then '' ORDER BY '' @ join '', '' (b_orderBy b) else [])
           @ (if b_limit b > 0 then '' LIMIT '' @ itoa (b_limit b) else [])
           @ (if b_offset b > 0 then '' OFFSET '' @ itoa (b_offset b) else []),
         (if length (b_where b) > 0 then b_whereArgs b else [])
           @ (if length (b_having b) > 0 then b_havingArgs b else []))
      else if b_operation b = ''INSERT'' then
        (''INSERT INTO '' @ quotedTable
           @ '' ('' @ join '', '' (map (\<lambda>(column, _). d_Quote (b_dialect b) column) kvs)
           @ '') VALUES ('' @ join '', '' (map (d_Placeholder (b_dialect b)) (positions kvs))
           @ '')'' @ returning_part b,
         map snd kvs)
      else if b_operation b = ''UPDATE'' then
        (''UPDATE '' @ quotedTable @ '' SET ''
           @ join '', ''
               (map (\<lambda>((column, _), i).
                       d_Quote (b_dialect b) column @ '' = '' @ d_Placeholder (b_dialect b) i)
                    (zip kvs (positions kvs)))
           @ where_part (b_where b) @ returning_part b,
         map snd kvs @ b_whereArgs b)
      else if b_operation b = ''DELETE'' then
        (''DELETE FROM '' @ quotedTable @ where_part (b_where b) @ returning_part b,
         b_whereArgs b)
      else ([], []))"

section \<open>Errors, the database handle, and the trace of calls\<close>

text \<open>
  Errors are values. \<open>ErrNew\<close> is an error made by \<open>errors.New\<close> or by \<open>fmt.Errorf\<close>
  without \<open>%w\<close>; \<open>ErrWrap msg e\<close> is \<open>fmt.Errorf(msg + ": %w", e)\<close>; \<open>ErrDriver\<close> is an
  error of the driver; \<open>ErrNoRows\<close> is \<open>sql.ErrNoRows\<close>. A panic of \<open>reflect\<close> is the
  value \<open>Panic\<close>: every caller in the repository returns at once on a non-nil error, so a
  panic travels up through the same branches as an error does.
\<close>

datatype error =
    ErrNotFound
  | ErrNotAStruct
  | ErrNoID
  | ErrNoRows
  | ErrNew string
  | ErrWrap string error
  | ErrDriver string
  | Panic string

fun Error_text :: "error \<Rightarrow> string" where
  "Error_text ErrNotFound = ''record not found''"
| "Error_text ErrNotAStruct = ''model must be a struct''"
| "Error_text ErrNoID = ''model does not have an ID field''"
| "Error_text ErrNoRows = ''sql: no rows in result set''"
| "Error_text (ErrNew m) = m"
| "Error_text (ErrWrap m e) = m @ '': '' @ Error_text e"
| "Error_text (ErrDriver m) = m"
| "Error_text (Panic m) = m"

text \<open>\<open>sql.Result\<close> and \<open>sql.Rows\<close> as the code reads them.\<close>

record Result =
  LastInsertId :: "error + int"
  RowsAffected :: "error + int"

record Rows =
  Columns :: "error + string list"
  Scans :: "(error + gval list) list"
  RowsErr :: "error option"

text \<open>
  A relationship (relationship.go). \<open>RelationshipType\<close> is an integer type with four
  named values; \<open>Model\<close> is an instance of the related record (a struct or a pointer to
  one). Relationships are passed in a Go map from field names; the map is an association
  list here and the runtime's enumeration of it comes from the environment.
\<close>

definition HasOne :: int where
  "HasOne = 0"

definition BelongsTo :: int where
  "BelongsTo = 1"

definition HasMany :: int where
  "HasMany = 2"

definition ManyToMany :: int where
  "ManyToMany = 3"

record Relationship =
  rel_Type :: int
  rel_Model :: gval
  rel_ForeignKey :: string
  rel_ReferenceKey :: string
  rel_JoinTable :: string
  rel_JoinForeignKey :: string
  rel_JoinRefKey :: string
  rel_Preload :: bool

text \<open>
  The storage is an external collaborator. A call to it is recorded, with its answer, as
  an event; the state of the world is the trace of events so far, and the answers come
  from the environment, which may look at the whole trace. \<open>driver\<close> is
  \<open>ConnectionOptions.Driver\<close>, the name the connection was opened with. The environment
  also holds
  what the Go runtime and libraries decide: the order in which a map (of values, of
  relationships) is enumerated, the zero value of a declared struct type (by name), \<open>reflect\<close>'s conversions, the
  conversions of \<open>Scan\<close>, and the clock.
\<close>

datatype event =
    EvExec string "gval list" "error + Result"
  | EvQuery string "gval list" "error + Rows"
  | EvQueryRow string "gval list" "error + gval list"
  | EvBegin "error option"
  | EvTxExec string "gval list" "error + Result"
  | EvCommit "error option"
  | EvRollback "error option"

record env =
  driver :: string
  db_exec :: "event list \<Rightarrow> string \<Rightarrow> gval list \<Rightarrow> error + Result"
  db_query :: "event list \<Rightarrow> string \<Rightarrow> gval list \<Rightarrow> error + Rows"
  db_query_row :: "event list \<Rightarrow> string \<Rightarrow> gval list \<Rightarrow> error + gval list"
  db_begin :: "event list \<Rightarrow> error option"
  tx_exec :: "event list \<Rightarrow> string \<Rightarrow> gval list \<Rightarrow> error + Result"
  tx_commit :: "event list \<Rightarrow> error option"
  tx_rollback :: "event list \<Rightarrow> error option"
  map_range :: "event list \<Rightarrow> (string \<times> gval) list \<Rightarrow> (string \<times> gval) list"
  rel_range :: "event list \<Rightarrow> (string \<times> Relationship) list \<Rightarrow> (string \<times> Relationship) list"
  struct_zero :: "string \<Rightarrow> gval"
  convert :: "gtype \<Rightarrow> gval \<Rightarrow> gval option"
  scan_assign :: "gtype \<Rightarrow> gval \<Rightarrow> error + gval"
  clock :: "event list \<Rightarrow> int"

definition ExecContext ::
  "env \<Rightarrow> string \<Rightarrow> gval list \<Rightarrow> event list \<Rightarrow> (error + Result) \<times> event list" where
  "ExecContext e q args tr = (let r = db_exec e tr q args in (r, tr @ [EvExec q args r]))"

definition QueryContext ::
  "env \<Rightarrow> string \<Rightarrow> gval list \<Rightarrow> event list \<Rightarrow> (error + Rows) \<times> event list" where
  "QueryContext e q args tr = (let r = db_query e tr q args in (r, tr @ [EvQuery q args r]))"

definition QueryRowContext ::
  "env \<Rightarrow> string \<Rightarrow> gval list \<Rightarrow> event list \<Rightarrow> (error + gval list) \<times> event list" where
  "QueryRowContext e q args tr =
     (let r = db_query_row e tr q args in (r, tr @ [EvQueryRow q args r]))"

definition BeginTx :: "env \<Rightarrow> event list \<Rightarrow> error option \<times> event list" where
  "BeginTx e tr = (let r = db_begin e tr in (r, tr @ [EvBegin r]))"

definition TxExecContext ::
  "env \<Rightarrow> string \<Rightarrow> gval list \<Rightarrow> event list \<Rightarrow> (error + Result) \<times> event list" where
  "TxExecContext e q args tr = (let r = tx_exec e tr q args in (r, tr @ [EvTxExec q args r]))"

definition Commit :: "env \<Rightarrow> event list \<Rightarrow> error option \<times> event list" where
  "Commit e tr = (let r = tx_commit e tr in (r, tr @ [EvCommit r]))"

definition Rollback :: "env \<Rightarrow> event list \<Rightarrow> error option \<times> event list" where
  "Rollback e tr = (let r = tx_rollback e tr in (r, tr @ [EvRollback r]))"

section \<open>Reflection helpers\<close>

primrec type_of :: "gval \<Rightarrow> gtype option" where
  "type_of VNil = None"
| "type_of (VInt i) = Some TInt"
| "type_of (VStr s) = Some TString"
| "type_of (VBool b) = Some TBool"
| "type_of (VTime t) = Some TTime"
| "type_of (VNilPtr t) = Some (TPtr t)"
| "type_of (VPtr v) = map_option TPtr (type_of v)"
| "type_of (VNilSlice t) = Some (TSlice t)"
| "type_of (VSlice t vs) = Some (TSlice t)"
| "type_of (VStruct si fs) = Some (TStruct (s_name si))"

text \<open>
  \<open>if v.Kind() == reflect.Ptr { v = v.Elem() }\<close>: \<open>Elem\<close> of a nil pointer is the invalid
  \<open>Value\<close>, which has no kind; it is \<open>VNil\<close> here.
\<close>

fun deref :: "gval \<Rightarrow> gval" where
  "deref (VPtr v) = v"
| "deref (VNilPtr t) = VNil"
| "deref v = v"

fun is_ptr :: "gval \<Rightarrow> bool" where
  "is_ptr (VPtr v) = True"
| "is_ptr (VNilPtr t) = True"
| "is_ptr v = False"

fun struct_fields :: "gval \<Rightarrow> gfield list option" where
  "struct_fields (VStruct si fs) = Some fs"
| "struct_fields v = None"

definition IsExported :: "string \<Rightarrow> bool" where
  "IsExported name = (case name of [] \<Rightarrow> False | c # cs \<Rightarrow> is_upper c)"

text \<open>\<open>v.FieldByName(name)\<close>: the field, or nothing (the invalid \<open>Value\<close>).\<close>

fun find_field :: "string \<Rightarrow> gfield list \<Rightarrow> gfield option" where
  "find_field name [] = None"
| "find_field name (f # fs) = (if f_name f = name then Some f else find_field name fs)"

definition FieldByName :: "gval \<Rightarrow> string \<Rightarrow> gfield option" where
  "FieldByName v name = (case struct_fields v of None \<Rightarrow> None | Some fs \<Rightarrow> find_field name fs)"

fun set_field :: "string \<Rightarrow> gval \<Rightarrow> gfield list \<Rightarrow> gfield list" where
  "set_field name x [] = []"
| "set_field name x (f # fs) =
     (if f_name f = name then Field (f_name f) (f_type f) (f_tag f) x # fs
      else f # set_field name x fs)"

text \<open>Writing a field of the struct a value is or points to.\<close>

fun with_field :: "string \<Rightarrow> gval \<Rightarrow> gval \<Rightarrow> gval" where
  "with_field name x (VStruct si fs) = VStruct si (set_field name x fs)"
| "with_field name x (VPtr (VStruct si fs)) = VPtr (VStruct si (set_field name x fs))"
| "with_field name x v = v"

text \<open>
  \<open>Value.Convert\<close>: the identity on a value of the target type, otherwise what
  \<open>reflect\<close> decides; it panics when the conversion does not exist.
\<close>

definition Convert :: "env \<Rightarrow> gtype \<Rightarrow> gval \<Rightarrow> gval option" where
  "Convert e t v = (if type_of v = Some t then Some v else convert e t v)"

section \<open>Model metadata (model.go)\<close>

record FieldInfo =
  fi_Name :: string
  fi_DBName :: string
  fi_Type :: gtype
  fi_IsKey :: bool
  fi_IsAuto :: bool
  fi_Nullable :: bool
  fi_Unique :: bool
  fi_Index :: bool
  fi_Size :: int
  fi_Precision :: int
  fi_Scale :: int

record ModelInfo =
  TableName :: string
  PrimaryKey :: string
  Fields :: "FieldInfo list"

text \<open>
  \<open>strconv.Atoi\<close> on a decimal numeral with an optional sign; the code drops its error,
  so a string that does not parse gives 0. (Values beyond 64 bits are not modelled.)
\<close>

definition digit_val :: "char \<Rightarrow> nat option" where
  "digit_val c = map_of (zip ''0123456789'' [0, 1, 2, 3, 4, 5, 6, 7, 8, 9]) c"

fun parse_digits :: "nat \<Rightarrow> string \<Rightarrow> nat option" where
  "parse_digits acc [] = Some acc"
| "parse_digits acc (c # cs) =
     (case digit_val c of None \<Rightarrow> None | Some d \<Rightarrow> parse_digits (10 * acc + d) cs)"

definition Atoi_or_zero :: "string \<Rightarrow> int" where
  "Atoi_or_zero s =
     (case s of
        [] \<Rightarrow> 0
      | c # cs \<Rightarrow>
          if c = CHR ''-'' \<or> c = CHR ''+'' then
            (if cs = [] then 0
             else (case parse_digits 0 cs of
                     None \<Rightarrow> 0
                   | Some n \<Rightarrow> if c = CHR ''-'' then - int n else int n))
          else (case parse_digits 0 s of None \<Rightarrow> 0 | Some n \<Rightarrow> int n))"

definition HasPrefix :: "string \<Rightarrow> string \<Rightarrow> bool" where
  "HasPrefix s p = (take (length p) s = p)"

definition TrimPrefix :: "string \<Rightarrow> string \<Rightarrow> string" where
  "TrimPrefix s p = (if HasPrefix s p then drop (length p) s else s)"

text \<open>
  One tag option: the \<open>switch\<close> and the three \<open>HasPrefix\<close> tests of the loop over
  \<open>tagParts[1:]\<close>. The state is the field's info and the model's primary key name.
\<close>

definition tag_option :: "string \<Rightarrow> FieldInfo \<times> string \<Rightarrow> FieldInfo \<times> string" where
  "tag_option opt st =
     (let (fi, pk) = st;
          (fi1, pk1) =
            (if opt = ''pk'' then (fi\<lparr> fi_IsKey := True \<rparr>, fi_DBName fi)
             else if opt = ''auto'' then (fi\<lparr> fi_IsAuto := True \<rparr>, pk)
             else if opt = ''nullable'' then (fi\<lparr> fi_Nullable := True \<rparr>, pk)
             else if opt = ''unique'' then (fi\<lparr> fi_Unique := True \<rparr>, pk)
             else if opt = ''index'' then (fi\<lparr> fi_Index := True \<rparr>, pk)
             else (fi, pk));
          fi2 = (if HasPrefix opt ''size:''
                 then fi1\<lparr> fi_Size := Atoi_or_zero (TrimPrefix opt ''size:'') \<rparr> else fi1);
          fi3 = (if HasPrefix opt ''precision:''
                 then fi2\<lparr> fi_Precision := Atoi_or_zero (TrimPrefix opt ''precision:'') \<rparr>
                 else fi2);
          fi4 = (if HasPrefix opt ''scale:''
                 then fi3\<lparr> fi_Scale := Atoi_or_zero (TrimPrefix opt ''scale:'') \<rparr> else fi3)
      in (fi4, pk1))"

fun tag_options :: "string list \<Rightarrow> FieldInfo \<times> string \<Rightarrow> FieldInfo \<times> string" where
  "tag_options [] st = st"
| "tag_options (opt # opts) st = tag_options opts (tag_option opt st)"

text \<open>The loop over the struct's fields; \<open>info\<close> is updated field by field.\<close>

fun process_fields :: "gfield list \<Rightarrow> ModelInfo \<Rightarrow> ModelInfo" where
  "process_fields [] info = info"
| "process_fields (field # rest) info =
     (if \<not> IsExported (f_name field) then process_fields rest info
      else if f_tag field = ''-'' then process_fields rest info
      else
        (let tagParts = split_on CHR '','' (f_tag field);
             fieldInfo0 =
               \<lparr> fi_Name = f_name field,
                 fi_DBName = (if hd tagParts \<noteq> [] then hd tagParts
                              else toSnakeCase (f_name field)),
                 fi_Type = f_type field, fi_IsKey = False, fi_IsAuto = False,
                 fi_Nullable = False, fi_Unique = False, fi_Index = False,
                 fi_Size = 0, fi_Precision = 0, fi_Scale = 0 \<rparr>;
             (fieldInfo, pk) = tag_options (tl tagParts) (fieldInfo0, PrimaryKey info)
         in process_fields rest
              (info\<lparr> PrimaryKey := pk, Fields := Fields info @ [fieldInfo] \<rparr>)))"

text \<open>
  The type assertion \<open>model.(Model)\<close>: a pointer to a struct has the methods of both
  receiver kinds, a struct value only those with a value receiver.
\<close>

fun as_Model :: "gval \<Rightarrow> (string \<times> string) option" where
  "as_Model (VPtr (VStruct si fs)) = map_option snd (s_model si)"
| "as_Model (VStruct si fs) =
     (case s_model si of
        Some (ptr_receiver, names) \<Rightarrow> if ptr_receiver then None else Some names
      | None \<Rightarrow> None)"
| "as_Model v = None"

definition extractModelInfo :: "gval \<Rightarrow> error + ModelInfo" where
  "extractModelInfo model =
     (case deref model of
        VStruct si fs \<Rightarrow>
          (let (tableName, primaryKey) =
                 (case as_Model model of
                    Some names \<Rightarrow> names
                  | None \<Rightarrow> (toSnakeCase (s_name si), ''id''))
           in Inr (process_fields fs
                     \<lparr> TableName = tableName, PrimaryKey = primaryKey, Fields = [] \<rparr>))
      | _ \<Rightarrow> Inl ErrNotAStruct)"

section \<open>CRUD on a connection (execute.go)\<close>

text \<open>
  An operation takes the environment, the model (as the caller passes it: a struct or a
  pointer to one) and the trace, and returns its error, the model as the caller sees it
  afterwards (where it can change), and the new trace.
\<close>

definition zero_Value_panic :: error where
  "zero_Value_panic = Panic ''reflect: call of reflect.Value.Interface on zero Value''"

fun create_set_loop :: "gval \<Rightarrow> FieldInfo list \<Rightarrow> QueryBuilder \<Rightarrow> error + QueryBuilder" where
  "create_set_loop v [] qb = Inr qb"
| "create_set_loop v (field # rest) qb =
     (if fi_IsKey field \<and> fi_IsAuto field then create_set_loop v rest qb
      else (case FieldByName v (fi_Name field) of
              None \<Rightarrow> Inl zero_Value_panic
            | Some f \<Rightarrow> create_set_loop v rest (qb_Set (fi_DBName field) (f_val f) qb)))"

fun first_auto_key :: "FieldInfo list \<Rightarrow> FieldInfo option" where
  "first_auto_key [] = None"
| "first_auto_key (field # rest) =
     (if fi_IsKey field \<and> fi_IsAuto field then Some field else first_auto_key rest)"

text \<open>
  \<open>CanSet\<close>: the field was reached through a pointer (it is addressable) and is exported.
\<close>

definition CanSet :: "gval \<Rightarrow> string \<Rightarrow> bool" where
  "CanSet holder name = ((case holder of VPtr v \<Rightarrow> True | _ \<Rightarrow> False) \<and> IsExported name)"

definition set_generated_id :: "env \<Rightarrow> gval \<Rightarrow> int \<Rightarrow> ModelInfo \<Rightarrow> error + gval" where
  "set_generated_id e model ident info =
     (case first_auto_key (Fields info) of
        None \<Rightarrow> Inr model
      | Some field \<Rightarrow>
          (case FieldByName (deref model) (fi_Name field) of
             None \<Rightarrow> Inr model
           | Some idField \<Rightarrow>
               if CanSet model (fi_Name field) then
                 (case Convert e (f_type idField) (VInt ident) of
                    None \<Rightarrow> Inl (Panic ''reflect.Value.Convert: value cannot be converted'')
                  | Some x \<Rightarrow> Inr (with_field (fi_Name field) x model))
               else Inr model))"

definition Create :: "env \<Rightarrow> gval \<Rightarrow> event list \<Rightarrow> error option \<times> gval \<times> event list" where
  "Create e model tr =
     (case extractModelInfo model of
        Inl err \<Rightarrow> (Some err, model, tr)
      | Inr info \<Rightarrow>
          (case create_set_loop (deref model) (Fields info)
                  (qb_Insert (NewQueryBuilder (TableName info))) of
             Inl err \<Rightarrow> (Some err, model, tr)
           | Inr qb \<Rightarrow>
               (let (query, args) = qb_Build (map_range e tr (qb_values qb)) qb;
                    (r, tr') = ExecContext e query args tr
                in case r of
                     Inl err \<Rightarrow> (Some err, model, tr')
                   | Inr result \<Rightarrow>
                       (case LastInsertId result of
                          Inl err \<Rightarrow> (None, model, tr')
                        | Inr ident \<Rightarrow>
                            (case set_generated_id e model ident info of
                               Inl err \<Rightarrow> (Some err, model, tr')
                             | Inr model' \<Rightarrow> (None, model', tr'))))))"

text \<open>\<open>scanFields\<close>: the settable fields of the struct, in order (by name here).\<close>

definition scanFields :: "gval \<Rightarrow> error + string list" where
  "scanFields v =
     (case struct_fields v of
        None \<Rightarrow> Inl ErrNotAStruct
      | Some fs \<Rightarrow> Inr (filter IsExported (map f_name fs)))"

text \<open>
  \<open>row.Scan(fields...)\<close> on a row that exists: the number of destinations must be the
  number of columns, then the columns are assigned from left to right, each through the
  conversion of \<open>database/sql\<close>; an earlier destination keeps its new value when a later
  one fails.
\<close>

fun scan_into :: "env \<Rightarrow> string list \<Rightarrow> gval list \<Rightarrow> gval \<Rightarrow> error option \<times> gval" where
  "scan_into e (n # ns) (x # xs) model =
     (case FieldByName (deref model) n of
        None \<Rightarrow> (Some zero_Value_panic, model)
      | Some f \<Rightarrow>
          (case scan_assign e (f_type f) x of
             Inl err \<Rightarrow> (Some err, model)
           | Inr y \<Rightarrow> scan_into e ns xs (with_field n y model)))"
| "scan_into e ns xs model = (None, model)"

definition Scan :: "env \<Rightarrow> string list \<Rightarrow> gval list \<Rightarrow> gval \<Rightarrow> error option \<times> gval" where
  "Scan e dests vals model =
     (if length dests \<noteq> length vals
      then (Some (ErrNew (''sql: expected '' @ itoa (int (length vals))
                           @ '' destination arguments in Scan, not ''
                           @ itoa (int (length dests)))), model)
      else scan_into e dests vals model)"

definition scanRow ::
  "env \<Rightarrow> gval \<Rightarrow> string \<Rightarrow> gval list \<Rightarrow> event list \<Rightarrow> error option \<times> gval \<times> event list" where
  "scanRow e model query args tr =
     (case model of
        VPtr v \<Rightarrow>
          (let (r, tr') = QueryRowContext e query args tr in
           case scanFields v of
             Inl err \<Rightarrow> (Some err, model, tr')
           | Inr dests \<Rightarrow>
               (case r of
                  Inl err \<Rightarrow> (Some (if err = ErrNoRows then ErrNotFound else err), model, tr')
                | Inr vals \<Rightarrow>
                    (let (err, model') = Scan e dests vals model in (err, model', tr'))))
      | _ \<Rightarrow> (Some (ErrNew ''model must be a non-nil pointer''), model, tr))"

definition Find ::
  "env \<Rightarrow> gval \<Rightarrow> gval \<Rightarrow> event list \<Rightarrow> error option \<times> gval \<times> event list" where
  "Find e model ident tr =
     (case extractModelInfo model of
        Inl err \<Rightarrow> (Some err, model, tr)
      | Inr info \<Rightarrow>
          (let qb = qb_Where (PrimaryKey info @ '' = ?'') [ident]
                      (qb_Select [] (NewQueryBuilder (TableName info)));
               (query, args) = qb_Build (map_range e tr (qb_values qb)) qb
           in scanRow e model query args tr))"

text \<open>
  The loop of \<open>Update\<close>: a key field gives \<open>idValue\<close> (the last one wins), every other
  field is \<open>Set\<close>. \<open>idValue\<close> starts as the nil interface.
\<close>

fun update_set_loop ::
  "gval \<Rightarrow> FieldInfo list \<Rightarrow> QueryBuilder \<times> gval \<Rightarrow> error + QueryBuilder \<times> gval" where
  "update_set_loop v [] st = Inr st"
| "update_set_loop v (field # rest) (qb, idValue) =
     (case FieldByName v (fi_Name field) of
        None \<Rightarrow> Inl zero_Value_panic
      | Some f \<Rightarrow>
          if fi_IsKey field then update_set_loop v rest (qb, f_val f)
          else update_set_loop v rest (qb_Set (fi_DBName field) (f_val f) qb, idValue))"

text \<open>The tail shared by \<open>Update\<close> and \<open>Delete\<close>: execute, then read the affected rows.\<close>

definition exec_affected ::
  "env \<Rightarrow> string \<Rightarrow> gval list \<Rightarrow> event list \<Rightarrow> error option \<times> event list" where
  "exec_affected e query args tr =
     (let (r, tr') = ExecContext e query args tr in
      case r of
        Inl err \<Rightarrow> (Some err, tr')
      | Inr result \<Rightarrow>
          (case RowsAffected result of
             Inl err \<Rightarrow> (Some err, tr')
           | Inr affected \<Rightarrow> if affected = 0 then (Some ErrNotFound, tr') else (None, tr')))"

definition Update :: "env \<Rightarrow> gval \<Rightarrow> event list \<Rightarrow> error option \<times> event list" where
  "Update e model tr =
     (case extractModelInfo model of
        Inl err \<Rightarrow> (Some err, tr)
      | Inr info \<Rightarrow>
          (case update_set_loop (deref model) (Fields info)
                  (qb_Update (NewQueryBuilder (TableName info)), VNil) of
             Inl err \<Rightarrow> (Some err, tr)
           | Inr (qb, idValue) \<Rightarrow>
               if idValue = VNil then (Some ErrNoID, tr)
               else
                 (let qb' = qb_Where (PrimaryKey info @ '' = ?'') [idValue] qb;
                      (query, args) = qb_Build (map_range e tr (qb_values qb')) qb'
                  in exec_affected e query args tr)))"

fun delete_key_loop :: "gval \<Rightarrow> FieldInfo list \<Rightarrow> error + gval" where
  "delete_key_loop v [] = Inr VNil"
| "delete_key_loop v (field # rest) =
     (if fi_IsKey field then
        (case FieldByName v (fi_Name field) of
           None \<Rightarrow> Inl zero_Value_panic
         | Some f \<Rightarrow> Inr (f_val f))
      else delete_key_loop v rest)"

definition Delete :: "env \<Rightarrow> gval \<Rightarrow> event list \<Rightarrow> error option \<times> event list" where
  "Delete e model tr =
     (case extractModelInfo model of
        Inl err \<Rightarrow> (Some err, tr)
      | Inr info \<Rightarrow>
          (case delete_key_loop (deref model) (Fields info) of
             Inl err \<Rightarrow> (Some err, tr)
           | Inr idValue \<Rightarrow>
               if idValue = VNil then (Some ErrNoID, tr)
               else
                 (let qb = qb_Where (PrimaryKey info @ '' = ?'') [idValue]
                             (qb_Delete (NewQueryBuilder (TableName info)));
                      (query, args) = qb_Build (map_range e tr (qb_values qb)) qb
                  in exec_affected e query args tr)))"

section \<open>Example records and environments\<close>

text \<open>
  The model of the README: \<open>type User struct { ID int64 `db:"id,pk,auto"`; Username string
  `db:"username"` }\<close> with \<open>TableName() = "users"\<close> and \<open>PrimaryKey() = "id"\<close> on the
  pointer receiver.
\<close>

definition User :: "int \<Rightarrow> string \<Rightarrow> gval" where
  "User i u =
     VStruct (SInfo ''User'' (Some (True, ''users'', ''id'')))
       [Field ''ID'' TInt ''id,pk,auto'' (VInt i),
        Field ''Username'' TString ''username'' (VStr u)]"

text \<open>The same record type with an optional key, \<open>ID *int64\<close>, holding the value given.\<close>

definition OptUser :: "gval \<Rightarrow> string \<Rightarrow> gval" where
  "OptUser k u =
     VStruct (SInfo ''User'' (Some (True, ''users'', ''id'')))
       [Field ''ID'' (TPtr TInt) ''id,pk'' k,
        Field ''Username'' TString ''username'' (VStr u)]"

text \<open>
  An environment opened with the postgres driver whose storage gives the same answers
  whatever it is asked, that enumerates a map in insertion order, converts nothing and scans values unchanged.
\<close>

definition fixed_env :: "(error + Result) \<Rightarrow> (error + Rows) \<Rightarrow> (error + gval list) \<Rightarrow> env" where
  "fixed_env res rows row =
     \<lparr> driver = ''postgres'',
       db_exec = (\<lambda>tr q args. res),
       db_query = (\<lambda>tr q args. rows),
       db_query_row = (\<lambda>tr q args. row),
       db_begin = (\<lambda>tr. None),
       tx_exec = (\<lambda>tr q args. res),
       tx_commit = (\<lambda>tr. None),
       tx_rollback = (\<lambda>tr. None),
       map_range = (\<lambda>tr m. m),
       rel_range = (\<lambda>tr m. m),
       struct_zero = (\<lambda>n. VStruct (SInfo n None) []),
       convert = (\<lambda>t v. None),
       scan_assign = (\<lambda>t v. Inr v),
       clock = (\<lambda>tr. int (length tr)) \<rparr>"

definition result_of :: "int \<Rightarrow> int \<Rightarrow> Result" where
  "result_of ident affected = \<lparr> LastInsertId = Inr ident, RowsAffected = Inr affected \<rparr>"

definition no_rows :: Rows where
  "no_rows = \<lparr> Columns = Inr [''id''], Scans = [], RowsErr = None \<rparr>"

text \<open>A record whose key field has interface type, \<open>ID interface{}\<close>.\<close>

definition IfaceUser :: "gval \<Rightarrow> string \<Rightarrow> gval" where
  "IfaceUser k u =
     VStruct (SInfo ''User'' (Some (True, ''users'', ''id'')))
       [Field ''ID'' TIface ''id,pk'' k,
        Field ''Username'' TString ''username'' (VStr u)]"

text \<open>
  The insert of the README's query-building section, on the root builder and on the
  dialect-aware builder under the postgres dialect.
\<close>

definition readme_insert :: QueryBuilder where
  "readme_insert =
     qb_Set ''email'' (VStr ''jane@example.com'')
       (qb_Set ''username'' (VStr ''janedoe'') (qb_Insert (NewQueryBuilder ''users'')))"

definition postgres_insert :: Builder where
  "postgres_insert =
     b_Set ''email'' (VStr ''jane@example.com'')
       (b_Set ''username'' (VStr ''janedoe'') (b_Insert (NewBuilder PostgresDialect ''users'')))"

text \<open>
  The statements of the specification's example, as the postgres dialect writes them:
  quoted identifiers and the placeholder \<open>$1\<close>.
\<close>

definition postgres_insert_users :: string where
  "postgres_insert_users =
     ''INSERT INTO '' @ [dq] @ ''users'' @ [dq] @ '' ('' @ [dq] @ ''username'' @ [dq]
       @ '') VALUES ($1)''"

definition postgres_select_users :: string where
  "postgres_select_users =
     ''SELECT * FROM '' @ [dq] @ ''users'' @ [dq] @ '' WHERE '' @ [dq] @ ''id'' @ [dq]
       @ '' = $1''"

section \<open>Transactions\<close>

text \<open>
  A caller-supplied function either returns (with an error or without) or panics, and it
  may talk to the storage: it maps the trace to its outcome and the new trace. The same
  type describes how a call of \<open>WithTransaction\<close> ends.
\<close>

datatype outcome = Returned "error option" | Panicked string

text \<open>
  \<open>Connection.WithTransaction\<close> (transaction.go). The deferred function recovers a panic,
  rolls back and panics again; otherwise it rolls back when the variable \<open>err\<close> is not
  nil. \<open>return tx.Commit()\<close> does not assign \<open>err\<close>, so no rollback follows a commit.
\<close>

definition WithTransaction ::
  "env \<Rightarrow> (event list \<Rightarrow> outcome \<times> event list) \<Rightarrow> event list \<Rightarrow> outcome \<times> event list" where
  "WithTransaction e fn tr =
     (case BeginTx e tr of
        (Some err, tr1) \<Rightarrow> (Returned (Some err), tr1)
      | (None, tr1) \<Rightarrow>
          (case fn tr1 of
             (Panicked p, tr2) \<Rightarrow> (Panicked p, snd (Rollback e tr2))
           | (Returned (Some err), tr2) \<Rightarrow> (Returned (Some err), snd (Rollback e tr2))
           | (Returned None, tr2) \<Rightarrow> (let (c, tr3) = Commit e tr2 in (Returned c, tr3))))"

text \<open>
  \<open>Executor.WithTransaction\<close> (internal/query/executor.go): no deferred function; the
  rollback is in the branch \<open>if err != nil\<close> after \<open>fn\<close> has returned.
\<close>

definition Executor_WithTransaction ::
  "env \<Rightarrow> (event list \<Rightarrow> outcome \<times> event list) \<Rightarrow> event list \<Rightarrow> outcome \<times> event list" where
  "Executor_WithTransaction e fn tr =
     (case BeginTx e tr of
        (Some err, tr1) \<Rightarrow> (Returned (Some err), tr1)
      | (None, tr1) \<Rightarrow>
          (case fn tr1 of
             (Panicked p, tr2) \<Rightarrow> (Panicked p, tr2)
           | (Returned (Some err), tr2) \<Rightarrow> (Returned (Some err), snd (Rollback e tr2))
           | (Returned None, tr2) \<Rightarrow> (let (c, tr3) = Commit e tr2 in (Returned c, tr3))))"

text \<open>
  What the storage keeps of a trace, by the contract of transactions: a statement executed
  outside a transaction is kept when it succeeds; the successful statements of a
  transaction are kept when its commit succeeds and dropped by a rollback or a failed
  commit. The state is the statements of the open transaction, if one is open, and the
  statements kept so far.
\<close>

fun tx_step ::
  "(string \<times> gval list) list option \<times> (string \<times> gval list) list \<Rightarrow> event
   \<Rightarrow> (string \<times> gval list) list option \<times> (string \<times> gval list) list" where
  "tx_step (buf, kept) (EvExec q a (Inr r)) = (buf, kept @ [(q, a)])"
| "tx_step (buf, kept) (EvBegin None) = (Some [], kept)"
| "tx_step (Some b, kept) (EvTxExec q a (Inr r)) = (Some (b @ [(q, a)]), kept)"
| "tx_step (Some b, kept) (EvCommit None) = (None, kept @ b)"
| "tx_step (buf, kept) (EvCommit c) = (None, kept)"
| "tx_step (buf, kept) (EvRollback r) = (None, kept)"
| "tx_step (buf, kept) ev = (buf, kept)"

definition retained :: "event list \<Rightarrow> (string \<times> gval list) list" where
  "retained tr = snd (foldl tx_step (None, []) tr)"

section \<open>Migrations (internal/schema/migration.go)\<close>

record Migration =
  mg_ID :: int
  mg_Name :: string
  mg_Description :: string
  mg_Up :: string
  mg_Down :: string
  mg_CreatedAt :: int
  mg_AppliedAt :: "int option"

record MigrationManager =
  tableName :: string

definition NewMigrationManager :: "string \<Rightarrow> MigrationManager" where
  "NewMigrationManager tn = \<lparr> tableName = (if tn = [] then ''migrations'' else tn) \<rparr>"

text \<open>The line breaks of the raw string literals: a newline and the tabs that follow.\<close>

definition nl1 :: string where
  "nl1 = [CHR 0x0A, CHR 0x09]"

definition nl2 :: string where
  "nl2 = [CHR 0x0A, CHR 0x09, CHR 0x09]"

definition create_table_query :: "string \<Rightarrow> string" where
  "create_table_query tn =
     ''CREATE TABLE IF NOT EXISTS '' @ tn @ '' ('' @ nl2
       @ ''id SERIAL PRIMARY KEY,'' @ nl2
       @ ''name VARCHAR(255) NOT NULL UNIQUE,'' @ nl2
       @ ''description TEXT,'' @ nl2
       @ ''up TEXT NOT NULL,'' @ nl2
       @ ''down TEXT,'' @ nl2
       @ ''created_at TIMESTAMP NOT NULL DEFAULT CURRENT_TIMESTAMP,'' @ nl2
       @ ''applied_at TIMESTAMP'' @ nl1 @ '')''"

definition pending_query :: "string \<Rightarrow> string" where
  "pending_query tn =
     ''SELECT id, name, description, up, down, created_at, applied_at'' @ nl2
       @ ''FROM '' @ tn @ nl2
       @ ''WHERE applied_at IS NULL'' @ nl2
       @ ''ORDER BY id ASC''"

definition applied_query :: "string \<Rightarrow> string" where
  "applied_query tn =
     ''SELECT id, name, description, up, down, created_at, applied_at'' @ nl2
       @ ''FROM '' @ tn @ nl2
       @ ''WHERE applied_at IS NOT NULL'' @ nl2
       @ ''ORDER BY id DESC''"

definition mark_applied_query :: "string \<Rightarrow> string" where
  "mark_applied_query tn = ''UPDATE '' @ tn @ '' SET applied_at = $1 WHERE id = $2''"

definition mark_unapplied_query :: "string \<Rightarrow> string" where
  "mark_unapplied_query tn = ''UPDATE '' @ tn @ '' SET applied_at = NULL WHERE id = $1''"

definition CreateMigrationsTable ::
  "env \<Rightarrow> MigrationManager \<Rightarrow> event list \<Rightarrow> error option \<times> event list" where
  "CreateMigrationsTable e m tr =
     (let (r, tr') = ExecContext e (create_table_query (tableName m)) [] tr in
      case r of Inl err \<Rightarrow> (Some err, tr') | Inr res \<Rightarrow> (None, tr'))"

text \<open>
  \<open>rows.Scan\<close> into the seven fields of a \<open>Migration\<close>: an integer, four strings, a time
  and an optional time (NULL gives the nil pointer). Any other row is a scan error.
\<close>

fun as_int :: "gval \<Rightarrow> int option" where
  "as_int (VInt i) = Some i"
| "as_int v = None"

fun as_string :: "gval \<Rightarrow> string option" where
  "as_string (VStr s) = Some s"
| "as_string v = None"

fun as_time :: "gval \<Rightarrow> int option" where
  "as_time (VTime t) = Some t"
| "as_time v = None"

fun as_optional_time :: "gval \<Rightarrow> int option option" where
  "as_optional_time VNil = Some None"
| "as_optional_time (VTime t) = Some (Some t)"
| "as_optional_time v = None"

definition scan_error :: error where
  "scan_error = ErrDriver ''sql: Scan error''"

definition scan_migration :: "gval list \<Rightarrow> error + Migration" where
  "scan_migration vs =
     (case vs of
        [v1, v2, v3, v4, v5, v6, v7] \<Rightarrow>
          (case (as_int v1, as_string v2, as_string v3, as_string v4, as_string v5,
                 as_time v6, as_optional_time v7) of
             (Some i, Some n, Some d, Some u, Some w, Some c, Some a) \<Rightarrow>
               Inr \<lparr> mg_ID = i, mg_Name = n, mg_Description = d, mg_Up = u, mg_Down = w,
                     mg_CreatedAt = c, mg_AppliedAt = a \<rparr>
           | _ \<Rightarrow> Inl scan_error)
      | _ \<Rightarrow> Inl scan_error)"

text \<open>The loop \<open>for rows.Next()\<close>: it returns at the first row that does not scan.\<close>

fun scan_migrations :: "(error + gval list) list \<Rightarrow> error + Migration list" where
  "scan_migrations [] = Inr []"
| "scan_migrations (row # rest) =
     (case row of
        Inl err \<Rightarrow> Inl err
      | Inr vals \<Rightarrow>
          (case scan_migration vals of
             Inl err \<Rightarrow> Inl err
           | Inr mig \<Rightarrow>
               (case scan_migrations rest of
                  Inl err \<Rightarrow> Inl err
                | Inr migs \<Rightarrow> Inr (mig # migs))))"

definition query_migrations ::
  "env \<Rightarrow> string \<Rightarrow> event list \<Rightarrow> (error + Migration list) \<times> event list" where
  "query_migrations e query tr =
     (let (r, tr') = QueryContext e query [] tr in
      case r of
        Inl err \<Rightarrow> (Inl err, tr')
      | Inr rows \<Rightarrow>
          (case scan_migrations (Scans rows) of
             Inl err \<Rightarrow> (Inl err, tr')
           | Inr migs \<Rightarrow>
               (case RowsErr rows of
                  Some err \<Rightarrow> (Inl err, tr')
                | None \<Rightarrow> (Inr migs, tr'))))"

definition GetPendingMigrations ::
  "env \<Rightarrow> MigrationManager \<Rightarrow> event list \<Rightarrow> (error + Migration list) \<times> event list" where
  "GetPendingMigrations e m tr = query_migrations e (pending_query (tableName m)) tr"

definition GetAppliedMigrations ::
  "env \<Rightarrow> MigrationManager \<Rightarrow> event list \<Rightarrow> (error + Migration list) \<times> event list" where
  "GetAppliedMigrations e m tr = query_migrations e (applied_query (tableName m)) tr"

text \<open>
  The loop of \<open>MigrateUp\<close> over the pending migrations, inside the transaction: the up
  script, then the update that marks the migration as applied at \<open>time.Now()\<close>.
\<close>

fun apply_migrations ::
  "env \<Rightarrow> MigrationManager \<Rightarrow> Migration list \<Rightarrow> event list \<Rightarrow> error option \<times> event list" where
  "apply_migrations e m [] tr = (None, tr)"
| "apply_migrations e m (migration # rest) tr =
     (case TxExecContext e (mg_Up migration) [] tr of
        (Inl err, tr1) \<Rightarrow>
          (Some (ErrWrap (''failed to apply migration '' @ mg_Name migration) err), tr1)
      | (Inr res, tr1) \<Rightarrow>
          (case TxExecContext e (mark_applied_query (tableName m))
                  [VTime (clock e tr1), VInt (mg_ID migration)] tr1 of
             (Inl err, tr2) \<Rightarrow>
               (Some (ErrWrap (''failed to mark migration '' @ mg_Name migration
                                 @ '' as applied'') err), tr2)
           | (Inr res', tr2) \<Rightarrow> apply_migrations e m rest tr2))"

text \<open>
  \<open>MigrateUp\<close>. \<open>defer tx.Rollback()\<close> runs on every return after \<open>BeginTx\<close>, also after
  the commit (where the driver answers that the transaction is done).
\<close>

definition MigrateUp ::
  "env \<Rightarrow> MigrationManager \<Rightarrow> event list \<Rightarrow> error option \<times> event list" where
  "MigrateUp e m tr =
     (case CreateMigrationsTable e m tr of
        (Some err, tr1) \<Rightarrow> (Some err, tr1)
      | (None, tr1) \<Rightarrow>
          (case GetPendingMigrations e m tr1 of
             (Inl err, tr2) \<Rightarrow> (Some err, tr2)
           | (Inr migrations, tr2) \<Rightarrow>
               (case BeginTx e tr2 of
                  (Some err, tr3) \<Rightarrow> (Some err, tr3)
                | (None, tr3) \<Rightarrow>
                    (case apply_migrations e m migrations tr3 of
                       (Some err, tr4) \<Rightarrow> (Some err, snd (Rollback e tr4))
                     | (None, tr4) \<Rightarrow>
                         (let (c, tr5) = Commit e tr4 in (c, snd (Rollback e tr5)))))))"

definition MigrateDown ::
  "env \<Rightarrow> MigrationManager \<Rightarrow> event list \<Rightarrow> error option \<times> event list" where
  "MigrateDown e m tr =
     (case GetAppliedMigrations e m tr of
        (Inl err, tr1) \<Rightarrow> (Some err, tr1)
      | (Inr [], tr1) \<Rightarrow> (Some (ErrNew ''no migrations to revert''), tr1)
      | (Inr (lastMigration # others), tr1) \<Rightarrow>
          (case BeginTx e tr1 of
             (Some err, tr2) \<Rightarrow> (Some err, tr2)
           | (None, tr2) \<Rightarrow>
               (case TxExecContext e (mg_Down lastMigration) [] tr2 of
                  (Inl err, tr3) \<Rightarrow>
                    (Some (ErrWrap (''failed to revert migration '' @ mg_Name lastMigration) err),
                     snd (Rollback e tr3))
                | (Inr res, tr3) \<Rightarrow>
                    (case TxExecContext e (mark_unapplied_query (tableName m))
                            [VInt (mg_ID lastMigration)] tr3 of
                       (Inl err, tr4) \<Rightarrow>
                         (Some (ErrWrap (''failed to mark migration '' @ mg_Name lastMigration
                                           @ '' as unapplied'') err),
                          snd (Rollback e tr4))
                     | (Inr res', tr4) \<Rightarrow>
                         (let (c, tr5) = Commit e tr4 in (c, snd (Rollback e tr5)))))))"

text \<open>
  A storage for the examples: two pending migrations, the second with an up script the
  storage rejects.
\<close>

definition two_pending :: Rows where
  "two_pending =
     \<lparr> Columns = Inr [''id'', ''name'', ''description'', ''up'', ''down'', ''created_at'',
                        ''applied_at''],
       Scans = [Inr [VInt 1, VStr ''create_users'', VStr '''', VStr ''CREATE TABLE users (id INT)'',
                     VStr ''DROP TABLE users'', VTime 10, VNil],
                Inr [VInt 2, VStr ''add_index'', VStr '''', VStr ''CREATE INDEX'',
                     VStr ''DROP INDEX'', VTime 20, VNil]],
       RowsErr = None \<rparr>"

definition migration_env :: env where
  "migration_env =
     (fixed_env (Inr (result_of 0 0)) (Inr two_pending) (Inl ErrNoRows))
       \<lparr> tx_exec := (\<lambda>tr q args. if q = ''CREATE INDEX''
                                    then Inl (ErrDriver ''syntax error'')
                                    else Inr (result_of 0 1)) \<rparr>"

text \<open>
  A second storage for the examples: three pending migrations, of which the storage
  rejects the up script of the second.
\<close>

definition three_pending :: Rows where
  "three_pending =
     \<lparr> Columns = Inr [''id'', ''name'', ''description'', ''up'', ''down'', ''created_at'',
                        ''applied_at''],
       Scans = [Inr [VInt 1, VStr ''create_users'', VStr '''', VStr ''CREATE TABLE users (id INT)'',
                     VStr ''DROP TABLE users'', VTime 10, VNil],
                Inr [VInt 2, VStr ''add_index'', VStr '''', VStr ''CREATE INDEX'',
                     VStr ''DROP INDEX'', VTime 20, VNil],
                Inr [VInt 3, VStr ''create_posts'', VStr '''', VStr ''CREATE TABLE posts (id INT)'',
                     VStr ''DROP TABLE posts'', VTime 30, VNil]],
       RowsErr = None \<rparr>"

definition three_migrations_env :: env where
  "three_migrations_env = migration_env \<lparr> db_query := (\<lambda>tr q args. Inr three_pending) \<rparr>"

text \<open>Callbacks for the examples: one that panics, one that fails, one that succeeds.\<close>

definition panicking_fn :: "env \<Rightarrow> event list \<Rightarrow> outcome \<times> event list" where
  "panicking_fn e tr =
     (let (r, tr') = TxExecContext e ''INSERT INTO posts (title) VALUES (?)'' [VStr ''x''] tr
      in (Panicked ''boom'', tr'))"

definition failing_fn :: "env \<Rightarrow> event list \<Rightarrow> outcome \<times> event list" where
  "failing_fn e tr =
     (let (r, tr') = TxExecContext e ''INSERT INTO posts (title) VALUES (?)'' [VStr ''x''] tr
      in (Returned (Some (ErrNew ''validation failed'')), tr'))"

text \<open>
  Reading a trace: the statements executed on a transaction (\<open>tx_calls\<close>), whether an
  event is such a statement (\<open>is_tx_exec\<close>) and whether it succeeded (\<open>is_tx_ok\<close>).
  \<open>planned tn\<close> lists, for migrations paired with the times of their marking, the two
  statements of each: the up script, then the update that marks it applied.
\<close>

fun is_tx_exec :: "event \<Rightarrow> bool" where
  "is_tx_exec (EvTxExec q a r) = True"
| "is_tx_exec ev = False"

fun is_tx_ok :: "event \<Rightarrow> bool" where
  "is_tx_ok (EvTxExec q a (Inr r)) = True"
| "is_tx_ok ev = False"

fun tx_calls :: "event list \<Rightarrow> (string \<times> gval list) list" where
  "tx_calls [] = []"
| "tx_calls (EvTxExec q a r # evs) = (q, a) # tx_calls evs"
| "tx_calls (ev # evs) = tx_calls evs"

definition planned :: "string \<Rightarrow> (Migration \<times> int) list \<Rightarrow> (string \<times> gval list) list" where
  "planned tn mts =
     concat (map (\<lambda>(mg, t). [(mg_Up mg, []),
                               (mark_applied_query tn, [VTime t, VInt (mg_ID mg)])]) mts)"

section \<open>Preloading relationships (relationship.go)\<close>

definition validateRelationship :: "Relationship \<Rightarrow> error option" where
  "validateRelationship rel =
     (if rel_Model rel = VNil then Some (ErrNew ''model is required for relationship'')
      else if rel_Type rel = HasOne \<or> rel_Type rel = BelongsTo \<or> rel_Type rel = HasMany then
        (if rel_ForeignKey rel = [] then
           Some (ErrNew ''foreign key is required for HasOne, BelongsTo, and HasMany relationships'')
         else if rel_ReferenceKey rel = [] then
           Some (ErrNew ''reference key is required for HasOne, BelongsTo, and HasMany relationships'')
         else None)
      else if rel_Type rel = ManyToMany then
        (if rel_JoinTable rel = [] then
           Some (ErrNew ''join table is required for ManyToMany relationship'')
         else if rel_JoinForeignKey rel = [] then
           Some (ErrNew ''join foreign key is required for ManyToMany relationship'')
         else if rel_JoinRefKey rel = [] then
           Some (ErrNew ''join reference key is required for ManyToMany relationship'')
         else None)
      else Some (ErrNew (''invalid relationship type: '' @ itoa (rel_Type rel))))"

text \<open>
  Zero values. \<open>zero_of_type\<close> is the zero value of a type that is not a struct;
  \<open>zero_val v\<close> is the zero value of the type of \<open>v\<close> (for a struct: every field zeroed);
  the zero value of a struct type known by name only comes from the environment.
\<close>

fun zero_of_type :: "gtype \<Rightarrow> gval" where
  "zero_of_type TInt = VInt 0"
| "zero_of_type TString = VStr []"
| "zero_of_type TBool = VBool False"
| "zero_of_type TTime = VTime 0"
| "zero_of_type TIface = VNil"
| "zero_of_type (TPtr t) = VNilPtr t"
| "zero_of_type (TSlice t) = VNilSlice t"
| "zero_of_type (TStruct n) = VNil"

definition static_type :: "gval \<Rightarrow> gtype" where
  "static_type v = (case type_of v of Some t \<Rightarrow> t | None \<Rightarrow> TIface)"

fun is_struct_type :: "gtype \<Rightarrow> bool" where
  "is_struct_type (TStruct n) = True"
| "is_struct_type t = False"

primrec zero_val :: "gval \<Rightarrow> gval" and zero_field :: "gfield \<Rightarrow> gfield" where
  "zero_val VNil = VNil"
| "zero_val (VInt i) = VInt 0"
| "zero_val (VStr s) = VStr []"
| "zero_val (VBool b) = VBool False"
| "zero_val (VTime t) = VTime 0"
| "zero_val (VNilPtr t) = VNilPtr t"
| "zero_val (VPtr v) = VNilPtr (static_type v)"
| "zero_val (VNilSlice t) = VNilSlice t"
| "zero_val (VSlice t vs) = VNilSlice t"
| "zero_val (VStruct si fs) = VStruct si (map zero_field fs)"
| "zero_field (Field n t tag v) =
     Field n t tag (if is_struct_type t then zero_val v else zero_of_type t)"

definition zero_of :: "env \<Rightarrow> gtype \<Rightarrow> gval" where
  "zero_of e t = (case t of TStruct n \<Rightarrow> struct_zero e n | _ \<Rightarrow> zero_of_type t)"

text \<open>
  \<open>relType := reflect.TypeOf(rel.Model)\<close>, dereferenced when it is a pointer type, and
  \<open>reflect.New(relType).Elem()\<close>: the related type with its zero value. \<open>TypeOf(nil)\<close> is
  the nil \<open>Type\<close>, and calling \<open>Kind\<close> on it panics.
\<close>

definition new_related :: "env \<Rightarrow> gval \<Rightarrow> error + gtype \<times> gval" where
  "new_related e model =
     (case model of
        VNil \<Rightarrow> Inl (Panic ''runtime error: invalid memory address or nil pointer dereference'')
      | VPtr v \<Rightarrow> Inr (static_type v, zero_val v)
      | VNilPtr t \<Rightarrow> Inr (t, zero_of e t)
      | v \<Rightarrow> Inr (static_type v, zero_val v))"

text \<open>\<open>Value.Interface\<close> panics on a value reached through an unexported field.\<close>

definition Interface :: "gfield \<Rightarrow> error + gval" where
  "Interface f =
     (if IsExported (f_name f) then Inr (f_val f)
      else Inl (Panic ''reflect.Value.Interface: cannot return value obtained from unexported field or method''))"

definition not_settable :: "string \<Rightarrow> error" where
  "not_settable field = ErrNew (''field '' @ field @ '' is not settable'')"

definition key_not_found :: "string \<Rightarrow> string \<Rightarrow> error" where
  "key_not_found pk what = ErrNew (''primary key field '' @ pk @ '' not found in '' @ what @ '' model'')"

text \<open>
  The opening shared by \<open>preloadHasOne\<close>, \<open>preloadHasMany\<close> and \<open>preloadManyToMany\<close>: the
  source must be a struct, its key field is looked up under \<open>toFieldName\<close> of the key
  column, and the metadata of the related type is extracted from a new instance. The
  result is the key value, the related type, its zero value and its metadata.
\<close>

definition preload_prelude ::
  "env \<Rightarrow> gval \<Rightarrow> Relationship \<Rightarrow> error + gval \<times> gtype \<times> gval \<times> ModelInfo" where
  "preload_prelude e source rel =
     (case struct_fields (deref source) of
        None \<Rightarrow> Inl (ErrNew ''source must be a struct or pointer to struct'')
      | Some fs \<Rightarrow>
          (case extractModelInfo source of
             Inl err \<Rightarrow> Inl err
           | Inr sourceInfo \<Rightarrow>
               (case find_field (toFieldName (PrimaryKey sourceInfo)) fs of
                  None \<Rightarrow> Inl (key_not_found (PrimaryKey sourceInfo) ''source'')
                | Some pkField \<Rightarrow>
                    (case new_related e (rel_Model rel) of
                       Inl err \<Rightarrow> Inl err
                     | Inr (relType, relZero) \<Rightarrow>
                         (case extractModelInfo (VPtr relZero) of
                            Inl err \<Rightarrow> Inl err
                          | Inr relInfo \<Rightarrow>
                              (case Interface pkField of
                                 Inl err \<Rightarrow> Inl err
                               | Inr pk \<Rightarrow> Inr (pk, relType, relZero, relInfo)))))))"

text \<open>
  One row: \<open>rows.Scan\<close> into as many \<open>interface{}\<close> cells as there are columns, then
  every column is given to the first field whose column name matches it up to case.
  \<open>reflect.ValueOf\<close> of a NULL cell is the invalid \<open>Value\<close>, whose \<open>Type\<close> panics.
\<close>

definition scan_cells :: "string list \<Rightarrow> error + gval list \<Rightarrow> error + gval list" where
  "scan_cells columns row =
     (case row of
        Inl err \<Rightarrow> Inl err
      | Inr vals \<Rightarrow>
          if length vals \<noteq> length columns
          then Inl (ErrNew (''sql: expected '' @ itoa (int (length vals))
                             @ '' destination arguments in Scan, not ''
                             @ itoa (int (length columns))))
          else Inr vals)"

fun column_field :: "string \<Rightarrow> FieldInfo list \<Rightarrow> FieldInfo option" where
  "column_field col [] = None"
| "column_field col (fi # fis) =
     (if EqualFold (fi_DBName fi) col then Some fi else column_field col fis)"

fun map_columns :: "env \<Rightarrow> FieldInfo list \<Rightarrow> string list \<Rightarrow> gval list \<Rightarrow> gval \<Rightarrow> error + gval" where
  "map_columns e fis (col # cols) (v # vs) relValue =
     (case column_field col fis of
        None \<Rightarrow> map_columns e fis cols vs relValue
      | Some fi \<Rightarrow>
          (case FieldByName relValue (fi_Name fi) of
             None \<Rightarrow> map_columns e fis cols vs relValue
           | Some f \<Rightarrow>
               if \<not> IsExported (fi_Name fi) then map_columns e fis cols vs relValue
               else if type_of v = None
               then Inl (Panic ''reflect: call of reflect.Value.Type on zero Value'')
               else (case Convert e (f_type f) v of
                       None \<Rightarrow> map_columns e fis cols vs relValue
                     | Some x \<Rightarrow> map_columns e fis cols vs (with_field (fi_Name fi) x relValue))))"
| "map_columns e fis cols vs relValue = Inr relValue"

text \<open>
  A value can be stored where its own type or an interface is expected; \<open>reflect\<close> panics
  otherwise.
\<close>

definition assignable :: "gval \<Rightarrow> gtype \<Rightarrow> bool" where
  "assignable v t = (t = TIface \<or> type_of v = Some t)"

definition not_assignable :: error where
  "not_assignable = Panic ''reflect: value is not assignable to type''"

text \<open>
  The loop \<open>for rows.Next()\<close> of \<open>preloadHasMany\<close> and \<open>preloadManyToMany\<close>: a new related
  record per row, appended to the new slice as a pointer when the slice holds pointers.
\<close>

fun collect_rows ::
  "env \<Rightarrow> gval \<Rightarrow> FieldInfo list \<Rightarrow> string list \<Rightarrow> gtype \<Rightarrow> (error + gval list) list
   \<Rightarrow> error + gval list" where
  "collect_rows e relZero fis columns elemT [] = Inr []"
| "collect_rows e relZero fis columns elemT (row # rest) =
     (case scan_cells columns row of
        Inl err \<Rightarrow> Inl err
      | Inr vals \<Rightarrow>
          (case map_columns e fis columns vals relZero of
             Inl err \<Rightarrow> Inl err
           | Inr relValue \<Rightarrow>
               (let item = (case elemT of TPtr t \<Rightarrow> VPtr relValue | _ \<Rightarrow> relValue) in
                if \<not> assignable item elemT then Inl not_assignable
                else (case collect_rows e relZero fis columns elemT rest of
                        Inl err \<Rightarrow> Inl err
                      | Inr items \<Rightarrow> Inr (item # items)))))"

text \<open>
  The part of \<open>preloadHasMany\<close> and \<open>preloadManyToMany\<close> after the query: the columns, the
  destination field (which must be settable and of a slice type), the new slice made by
  \<open>reflect.MakeSlice(sliceType, 0, 0)\<close>, the rows, and the assignment of the new slice to
  the field; the error returned is \<open>rows.Err()\<close>.
\<close>

definition collect_many ::
  "env \<Rightarrow> gval \<Rightarrow> string \<Rightarrow> gval \<Rightarrow> ModelInfo \<Rightarrow> Rows \<Rightarrow> error option \<times> gval" where
  "collect_many e source field relZero relInfo rows =
     (case Columns rows of
        Inl err \<Rightarrow> (Some err, source)
      | Inr columns \<Rightarrow>
          (case FieldByName (deref source) field of
             None \<Rightarrow> (Some (not_settable field), source)
           | Some f \<Rightarrow>
               if \<not> CanSet source field then (Some (not_settable field), source)
               else
                 (case f_type f of
                    TSlice elemT \<Rightarrow>
                      (case collect_rows e relZero (Fields relInfo) columns elemT (Scans rows) of
                         Inl err \<Rightarrow> (Some err, source)
                       | Inr items \<Rightarrow> (RowsErr rows, with_field field (VSlice elemT items) source))
                  | _ \<Rightarrow> (Some (Panic ''reflect.MakeSlice of non-slice type''), source))))"

definition preloadHasMany ::
  "env \<Rightarrow> gval \<Rightarrow> string \<Rightarrow> Relationship \<Rightarrow> event list \<Rightarrow> error option \<times> gval \<times> event list" where
  "preloadHasMany e source field rel tr =
     (case preload_prelude e source rel of
        Inl err \<Rightarrow> (Some err, source, tr)
      | Inr (pk, relType, relZero, relInfo) \<Rightarrow>
          (let builder = qb_Where (rel_ForeignKey rel @ '' = ?'') [pk]
                           (qb_Select [] (NewQueryBuilder (TableName relInfo)));
               (query, args) = qb_Build (map_range e tr (qb_values builder)) builder;
               (r, tr') = QueryContext e query args tr
           in case r of
                Inl err \<Rightarrow> (Some err, source, tr')
              | Inr rows \<Rightarrow>
                  (let (err, source') = collect_many e source field relZero relInfo rows
                   in (err, source', tr'))))"

definition join_query :: "ModelInfo \<Rightarrow> Relationship \<Rightarrow> string" where
  "join_query relInfo rel =
     ''SELECT r.* FROM '' @ TableName relInfo @ '' r INNER JOIN '' @ rel_JoinTable rel
       @ '' j ON r.'' @ rel_ReferenceKey rel @ '' = j.'' @ rel_JoinRefKey rel
       @ '' WHERE j.'' @ rel_JoinForeignKey rel @ '' = ?''"

definition preloadManyToMany ::
  "env \<Rightarrow> gval \<Rightarrow> string \<Rightarrow> Relationship \<Rightarrow> event list \<Rightarrow> error option \<times> gval \<times> event list" where
  "preloadManyToMany e source field rel tr =
     (case preload_prelude e source rel of
        Inl err \<Rightarrow> (Some err, source, tr)
      | Inr (pk, relType, relZero, relInfo) \<Rightarrow>
          (let (r, tr') = QueryContext e (join_query relInfo rel) [pk] tr
           in case r of
                Inl err \<Rightarrow> (Some err, source, tr')
              | Inr rows \<Rightarrow>
                  (let (err, source') = collect_many e source field relZero relInfo rows
                   in (err, source', tr'))))"

text \<open>
  The part of \<open>preloadHasOne\<close> and \<open>preloadBelongsTo\<close> after the query: no row leaves the
  source untouched; otherwise the first row is mapped to a new related record and the
  destination field is set to a pointer to it.
\<close>

definition collect_one ::
  "env \<Rightarrow> gval \<Rightarrow> string \<Rightarrow> gval \<Rightarrow> ModelInfo \<Rightarrow> Rows \<Rightarrow> error option \<times> gval" where
  "collect_one e source field relZero relInfo rows =
     (case Scans rows of
        [] \<Rightarrow> (None, source)
      | row # rest \<Rightarrow>
          (case Columns rows of
             Inl err \<Rightarrow> (Some err, source)
           | Inr columns \<Rightarrow>
               (case scan_cells columns row of
                  Inl err \<Rightarrow> (Some err, source)
                | Inr vals \<Rightarrow>
                    (case map_columns e (Fields relInfo) columns vals relZero of
                       Inl err \<Rightarrow> (Some err, source)
                     | Inr relValue \<Rightarrow>
                         (case FieldByName (deref source) field of
                            None \<Rightarrow> (Some (not_settable field), source)
                          | Some f \<Rightarrow>
                              if \<not> CanSet source field then (Some (not_settable field), source)
                              else if \<not> assignable (VPtr relValue) (f_type f)
                              then (Some not_assignable, source)
                              else (RowsErr rows, with_field field (VPtr relValue) source))))))"

definition preloadHasOne ::
  "env \<Rightarrow> gval \<Rightarrow> string \<Rightarrow> Relationship \<Rightarrow> event list \<Rightarrow> error option \<times> gval \<times> event list" where
  "preloadHasOne e source field rel tr =
     (case preload_prelude e source rel of
        Inl err \<Rightarrow> (Some err, source, tr)
      | Inr (pk, relType, relZero, relInfo) \<Rightarrow>
          (let builder = qb_Where (rel_ForeignKey rel @ '' = ?'') [pk]
                           (qb_Select [] (NewQueryBuilder (TableName relInfo)));
               (query, args) = qb_Build (map_range e tr (qb_values builder)) builder;
               (r, tr') = QueryContext e query args tr
           in case r of
                Inl err \<Rightarrow> (Some err, source, tr')
              | Inr rows \<Rightarrow>
                  (let (err, source') = collect_one e source field relZero relInfo rows
                   in (err, source', tr'))))"

definition preloadBelongsTo ::
  "env \<Rightarrow> gval \<Rightarrow> string \<Rightarrow> Relationship \<Rightarrow> event list \<Rightarrow> error option \<times> gval \<times> event list" where
  "preloadBelongsTo e source field rel tr =
     (case struct_fields (deref source) of
        None \<Rightarrow> (Some (ErrNew ''source must be a struct or pointer to struct''), source, tr)
      | Some fs \<Rightarrow>
          (case find_field (toFieldName (rel_ForeignKey rel)) fs of
             None \<Rightarrow>
               (Some (ErrNew (''foreign key field '' @ rel_ForeignKey rel
                               @ '' not found in source model'')), source, tr)
           | Some fkField \<Rightarrow>
               (case new_related e (rel_Model rel) of
                  Inl err \<Rightarrow> (Some err, source, tr)
                | Inr (relType, relZero) \<Rightarrow>
                    (case extractModelInfo (VPtr relZero) of
                       Inl err \<Rightarrow> (Some err, source, tr)
                     | Inr relInfo \<Rightarrow>
                         (case Interface fkField of
                            Inl err \<Rightarrow> (Some err, source, tr)
                          | Inr fk \<Rightarrow>
                              (let builder = qb_Where (rel_ReferenceKey rel @ '' = ?'') [fk]
                                               (qb_Select [] (NewQueryBuilder (TableName relInfo)));
                                   (query, args) =
                                     qb_Build (map_range e tr (qb_values builder)) builder;
                                   (r, tr') = QueryContext e query args tr
                               in case r of
                                    Inl err \<Rightarrow> (Some err, source, tr')
                                  | Inr rows \<Rightarrow>
                                      (let (err, source') =
                                             collect_one e source field relZero relInfo rows
                                       in (err, source', tr'))))))))"

text \<open>
  \<open>Preload\<close>, second branch: the loop over the relationships of one record. A
  relationship is validated, the field must exist, and the loader of its kind runs; the
  record changes through the pointer the caller passed.
\<close>

definition FieldByName_panic :: error where
  "FieldByName_panic = Panic ''reflect: call of reflect.Value.FieldByName on a Value that is not a struct''"

definition no_such_field :: "string \<Rightarrow> error" where
  "no_such_field field = ErrNew (''field '' @ field @ '' does not exist in model'')"

definition unsupported_relationship :: "int \<Rightarrow> error" where
  "unsupported_relationship t = ErrNew (''unsupported relationship type: '' @ itoa t)"

fun preload_rels ::
  "env \<Rightarrow> gval \<Rightarrow> (string \<times> Relationship) list \<Rightarrow> event list
   \<Rightarrow> error option \<times> gval \<times> event list" where
  "preload_rels e source [] tr = (None, source, tr)"
| "preload_rels e source ((field, rel) # rest) tr =
     (case validateRelationship rel of
        Some err \<Rightarrow> (Some err, source, tr)
      | None \<Rightarrow>
          (case struct_fields (deref source) of
             None \<Rightarrow> (Some FieldByName_panic, source, tr)
           | Some fs \<Rightarrow>
               (case find_field field fs of
                  None \<Rightarrow> (Some (no_such_field field), source, tr)
                | Some f \<Rightarrow>
                    (case (if rel_Type rel = HasOne then preloadHasOne e source field rel tr
                           else if rel_Type rel = BelongsTo then preloadBelongsTo e source field rel tr
                           else if rel_Type rel = HasMany then preloadHasMany e source field rel tr
                           else if rel_Type rel = ManyToMany then preloadManyToMany e source field rel tr
                           else (Some (unsupported_relationship (rel_Type rel)), source, tr)) of
                       (Some err, source', tr') \<Rightarrow> (Some err, source', tr')
                     | (None, source', tr') \<Rightarrow> preload_rels e source' rest tr'))))"

definition preload_record ::
  "env \<Rightarrow> gval \<Rightarrow> (string \<times> Relationship) list \<Rightarrow> event list
   \<Rightarrow> error option \<times> gval \<times> event list" where
  "preload_record e source relationships tr =
     preload_rels e source (rel_range e tr relationships) tr"

text \<open>
  \<open>Preload\<close>, first branch: the loop over the elements of a slice. An element that is a
  pointer is preloaded itself; an element that is a struct is copied into a new pointer,
  the copy is preloaded, and the loop goes on with the next element. The recursive call
  of \<open>Preload\<close> is on a pointer to a struct (the element type was checked), which is never
  the nil interface and takes the second branch: it is \<open>preload_record\<close>.
\<close>

fun preload_elems ::
  "env \<Rightarrow> gval list \<Rightarrow> (string \<times> Relationship) list \<Rightarrow> event list
   \<Rightarrow> error option \<times> gval list \<times> event list" where
  "preload_elems e [] relationships tr = (None, [], tr)"
| "preload_elems e (elem # rest) relationships tr =
     (if is_ptr elem then
        (case preload_record e elem relationships tr of
           (Some err, elem', tr') \<Rightarrow> (Some err, elem' # rest, tr')
         | (None, elem', tr') \<Rightarrow>
             (case preload_elems e rest relationships tr' of
                (err, rest', tr'') \<Rightarrow> (err, elem' # rest', tr'')))
      else
        (case preload_record e (VPtr elem) relationships tr of
           (Some err, copy', tr') \<Rightarrow> (Some err, elem # rest, tr')
         | (None, copy', tr') \<Rightarrow>
             (case preload_elems e rest relationships tr' of
                (err, rest', tr'') \<Rightarrow> (err, elem # rest', tr''))))"

text \<open>The type and the value of the source after \<open>if sourceType.Kind() == reflect.Ptr\<close>.\<close>

fun source_type :: "gval \<Rightarrow> gtype" where
  "source_type (VPtr v) = static_type v"
| "source_type (VNilPtr t) = t"
| "source_type v = static_type v"

fun with_elems :: "gval list \<Rightarrow> gval \<Rightarrow> gval" where
  "with_elems vs (VSlice t old) = VSlice t vs"
| "with_elems vs (VPtr (VSlice t old)) = VPtr (VSlice t vs)"
| "with_elems vs v = v"

definition Preload ::
  "env \<Rightarrow> gval \<Rightarrow> (string \<times> Relationship) list \<Rightarrow> event list
   \<Rightarrow> error option \<times> gval \<times> event list" where
  "Preload e source relationships tr =
     (if source = VNil then (Some (ErrNew ''source cannot be nil''), source, tr)
      else
        (case source_type source of
           TSlice elemT \<Rightarrow>
             if \<not> is_struct_type (case elemT of TPtr t \<Rightarrow> t | _ \<Rightarrow> elemT)
             then (Some (ErrNew ''source slice must contain structs or pointers to structs''),
                   source, tr)
             else
               (case deref source of
                  VSlice t elems \<Rightarrow>
                    (case preload_elems e elems relationships tr of
                       (err, elems', tr') \<Rightarrow> (err, with_elems elems' source, tr'))
                | VNilSlice t \<Rightarrow> (None, source, tr)
                | _ \<Rightarrow> (Some (Panic ''reflect: call of reflect.Value.Len on zero Value''),
                         source, tr))
         | _ \<Rightarrow> preload_record e source relationships tr))"

section \<open>Nested persistence (nested.go)\<close>

record NestedOption =
  AutoSave :: bool
  AutoDelete :: bool
  SkipValidation :: bool
  NullifyOnDelete :: bool
  opt_Preload :: bool

definition DefaultNestedOption :: NestedOption where
  "DefaultNestedOption =
     \<lparr> AutoSave = True, AutoDelete = False, SkipValidation = False,
       NullifyOnDelete = False, opt_Preload = False \<rparr>"

text \<open>
  \<open>sourceValue.FieldByName(field)\<close> on a value that need not be a struct, and
  \<open>Value.IsNil\<close>, which panics unless the kind is a pointer, a slice or an interface (of
  the kinds modelled).
\<close>

definition field_of :: "gval \<Rightarrow> string \<Rightarrow> error + gfield option" where
  "field_of v name =
     (case struct_fields v of
        None \<Rightarrow> Inl FieldByName_panic
      | Some fs \<Rightarrow> Inr (find_field name fs))"

fun value_is_nil :: "gval \<Rightarrow> bool" where
  "value_is_nil VNil = True"
| "value_is_nil (VNilPtr t) = True"
| "value_is_nil (VNilSlice t) = True"
| "value_is_nil v = False"

definition IsNil :: "gfield \<Rightarrow> error + bool" where
  "IsNil f =
     (case f_type f of
        TPtr t \<Rightarrow> Inr (value_is_nil (f_val f))
      | TSlice t \<Rightarrow> Inr (value_is_nil (f_val f))
      | TIface \<Rightarrow> Inr (value_is_nil (f_val f))
      | _ \<Rightarrow> Inl (Panic ''reflect: call of reflect.Value.IsNil on a Value that cannot be nil''))"

text \<open>
  \<open>fieldValue.Elem()\<close>: the struct a pointer field points to, or the value an interface
  field holds; it panics for every other kind.
\<close>

definition Elem :: "gfield \<Rightarrow> gval \<Rightarrow> error + gval" where
  "Elem f v =
     (case f_type f of
        TPtr t \<Rightarrow> Inr (deref v)
      | TIface \<Rightarrow> Inr v
      | _ \<Rightarrow> Inl (Panic ''reflect: call of reflect.Value.Elem on a Value that is no pointer''))"

text \<open>
  \<open>if fkField.IsValid() && fkField.CanSet() { fkField.Set(pkField) }\<close> on the struct
  \<open>holder\<close> is or points to: skipped when the field is missing or cannot be set, a panic
  when the key's type cannot be assigned to the field's.
\<close>

definition set_foreign_key :: "gval \<Rightarrow> string \<Rightarrow> gfield \<Rightarrow> error + gval" where
  "set_foreign_key holder fkName pkField =
     (case FieldByName (deref holder) fkName of
        None \<Rightarrow> Inr holder
      | Some fkField \<Rightarrow>
          if \<not> CanSet holder fkName then Inr holder
          else if f_type fkField = f_type pkField \<or> f_type fkField = TIface
          then Inr (with_field fkName (f_val pkField) holder)
          else Inl not_assignable)"

definition nestedCreateBelongsTo ::
  "env \<Rightarrow> gval \<Rightarrow> string \<Rightarrow> Relationship \<Rightarrow> NestedOption \<Rightarrow> event list
   \<Rightarrow> error option \<times> gval \<times> event list" where
  "nestedCreateBelongsTo e source field rel opts tr =
     (case field_of (deref source) field of
        Inl err \<Rightarrow> (Some err, source, tr)
      | Inr None \<Rightarrow> (Some (no_such_field field), source, tr)
      | Inr (Some fieldValue) \<Rightarrow>
          (case IsNil fieldValue of
             Inl err \<Rightarrow> (Some err, source, tr)
           | Inr True \<Rightarrow> (None, source, tr)
           | Inr False \<Rightarrow>
               (case Interface fieldValue of
                  Inl err \<Rightarrow> (Some err, source, tr)
                | Inr child \<Rightarrow>
                    (case Create e child tr of
                       (Some err, child', tr1) \<Rightarrow> (Some err, with_field field child' source, tr1)
                     | (None, child', tr1) \<Rightarrow>
                         (let source1 = with_field field child' source in
                          case Elem fieldValue child' of
                            Inl err \<Rightarrow> (Some err, source1, tr1)
                          | Inr relValue \<Rightarrow>
                              (case extractModelInfo child' of
                                 Inl err \<Rightarrow> (Some err, source1, tr1)
                               | Inr relInfo \<Rightarrow>
                                   (case field_of relValue (toFieldName (PrimaryKey relInfo)) of
                                      Inl err \<Rightarrow> (Some err, source1, tr1)
                                    | Inr None \<Rightarrow>
                                        (Some (key_not_found (PrimaryKey relInfo) ''related''),
                                         source1, tr1)
                                    | Inr (Some pkField) \<Rightarrow>
                                        (case set_foreign_key source1
                                                (toFieldName (rel_ForeignKey rel)) pkField of
                                           Inl err \<Rightarrow> (Some err, source1, tr1)
                                         | Inr source2 \<Rightarrow>
                                             (let (err, tr2) = Update e source2 tr1
                                              in (err, source2, tr2))))))))))"

definition nestedCreateHasOne ::
  "env \<Rightarrow> gval \<Rightarrow> string \<Rightarrow> Relationship \<Rightarrow> NestedOption \<Rightarrow> event list
   \<Rightarrow> error option \<times> gval \<times> event list" where
  "nestedCreateHasOne e source field rel opts tr =
     (case field_of (deref source) field of
        Inl err \<Rightarrow> (Some err, source, tr)
      | Inr None \<Rightarrow> (Some (no_such_field field), source, tr)
      | Inr (Some fieldValue) \<Rightarrow>
          (case IsNil fieldValue of
             Inl err \<Rightarrow> (Some err, source, tr)
           | Inr True \<Rightarrow> (None, source, tr)
           | Inr False \<Rightarrow>
               (case extractModelInfo source of
                  Inl err \<Rightarrow> (Some err, source, tr)
                | Inr sourceInfo \<Rightarrow>
                    (case FieldByName (deref source) (toFieldName (PrimaryKey sourceInfo)) of
                       None \<Rightarrow> (Some (key_not_found (PrimaryKey sourceInfo) ''source''), source, tr)
                     | Some pkField \<Rightarrow>
                         (case Elem fieldValue (f_val fieldValue) of
                            Inl err \<Rightarrow> (Some err, source, tr)
                          | Inr relValue \<Rightarrow>
                              (case field_of relValue (toFieldName (rel_ForeignKey rel)) of
                                 Inl err \<Rightarrow> (Some err, source, tr)
                               | Inr fk \<Rightarrow>
                                   (case (if IsExported field
                                          then set_foreign_key (f_val fieldValue)
                                                 (toFieldName (rel_ForeignKey rel)) pkField
                                          else Inr (f_val fieldValue)) of
                                      Inl err \<Rightarrow> (Some err, source, tr)
                                    | Inr child1 \<Rightarrow>
                                        (case Interface fieldValue of
                                           Inl err \<Rightarrow> (Some err, with_field field child1 source, tr)
                                         | Inr unused \<Rightarrow>
                                             (case Create e child1 tr of
                                                (err, child2, tr1) \<Rightarrow>
                                                  (err, with_field field child2 source, tr1))))))))))"

text \<open>
  The loop of \<open>nestedCreateHasMany\<close> over the elements of the slice. An element is read
  with \<open>fieldValue.Index(i)\<close>: its kind is the slice's element type, and it is read-only
  when the field is unexported. A nil element is skipped, the foreign key is set and the
  element created.
\<close>

fun create_many ::
  "env \<Rightarrow> string \<Rightarrow> gtype \<Rightarrow> string \<Rightarrow> gfield \<Rightarrow> gval list \<Rightarrow> event list
   \<Rightarrow> error option \<times> gval list \<times> event list" where
  "create_many e field elemT fkName pkField [] tr = (None, [], tr)"
| "create_many e field elemT fkName pkField (relModel # rest) tr =
     (let cell = Field field elemT [] relModel in
      case IsNil cell of
        Inl err \<Rightarrow> (Some err, relModel # rest, tr)
      | Inr True \<Rightarrow>
          (case create_many e field elemT fkName pkField rest tr of
             (err, rest', tr') \<Rightarrow> (err, relModel # rest', tr'))
      | Inr False \<Rightarrow>
          (case Elem cell relModel of
             Inl err \<Rightarrow> (Some err, relModel # rest, tr)
           | Inr relValue \<Rightarrow>
               (case field_of relValue fkName of
                  Inl err \<Rightarrow> (Some err, relModel # rest, tr)
                | Inr fk \<Rightarrow>
                    (case (if IsExported field then set_foreign_key relModel fkName pkField
                           else Inr relModel) of
                       Inl err \<Rightarrow> (Some err, relModel # rest, tr)
                     | Inr child1 \<Rightarrow>
                         (case Interface cell of
                            Inl err \<Rightarrow> (Some err, child1 # rest, tr)
                          | Inr unused \<Rightarrow>
                              (case Create e child1 tr of
                                 (Some err, child2, tr1) \<Rightarrow> (Some err, child2 # rest, tr1)
                               | (None, child2, tr1) \<Rightarrow>
                                   (case create_many e field elemT fkName pkField rest tr1 of
                                      (err, rest', tr') \<Rightarrow> (err, child2 # rest', tr'))))))))"

text \<open>
  The opening shared by \<open>nestedCreateHasMany\<close> and \<open>nestedCreateManyToMany\<close>: the field,
  \<open>fieldValue.IsNil() || fieldValue.Len() == 0\<close> (\<open>Len\<close> panics on a value that is not a
  slice), and the key field of the source. The result is the element type, the elements
  and the key field, or nothing when there is nothing to do.
\<close>

definition many_prelude :: "gval \<Rightarrow> string \<Rightarrow> error + (gtype \<times> gval list \<times> gfield) option" where
  "many_prelude source field =
     (case field_of (deref source) field of
        Inl err \<Rightarrow> Inl err
      | Inr None \<Rightarrow> Inl (no_such_field field)
      | Inr (Some fieldValue) \<Rightarrow>
          (case IsNil fieldValue of
             Inl err \<Rightarrow> Inl err
           | Inr True \<Rightarrow> Inr None
           | Inr False \<Rightarrow>
               (case (f_type fieldValue, f_val fieldValue) of
                  (TSlice elemT, VSlice t elems) \<Rightarrow>
                    if elems = [] then Inr None
                    else
                      (case extractModelInfo source of
                         Inl err \<Rightarrow> Inl err
                       | Inr sourceInfo \<Rightarrow>
                           (case FieldByName (deref source)
                                   (toFieldName (PrimaryKey sourceInfo)) of
                              None \<Rightarrow> Inl (key_not_found (PrimaryKey sourceInfo) ''source'')
                            | Some pkField \<Rightarrow> Inr (Some (elemT, elems, pkField))))
                | _ \<Rightarrow> Inl (Panic ''reflect: call of reflect.Value.Len on a Value that has no length''))))"

definition with_field_elems :: "string \<Rightarrow> gval list \<Rightarrow> gval \<Rightarrow> gval" where
  "with_field_elems field vs source =
     (case FieldByName (deref source) field of
        Some f \<Rightarrow> with_field field (with_elems vs (f_val f)) source
      | None \<Rightarrow> source)"

definition nestedCreateHasMany ::
  "env \<Rightarrow> gval \<Rightarrow> string \<Rightarrow> Relationship \<Rightarrow> NestedOption \<Rightarrow> event list
   \<Rightarrow> error option \<times> gval \<times> event list" where
  "nestedCreateHasMany e source field rel opts tr =
     (case many_prelude source field of
        Inl err \<Rightarrow> (Some err, source, tr)
      | Inr None \<Rightarrow> (None, source, tr)
      | Inr (Some (elemT, elems, pkField)) \<Rightarrow>
          (case create_many e field elemT (toFieldName (rel_ForeignKey rel)) pkField elems tr of
             (err, elems', tr') \<Rightarrow> (err, with_field_elems field elems' source, tr')))"

definition Associate ::
  "env \<Rightarrow> gval \<Rightarrow> string \<Rightarrow> gval \<Rightarrow> Relationship \<Rightarrow> event list \<Rightarrow> error option \<times> event list" where
  "Associate e source field target rel tr =
     (if rel_Type rel \<noteq> ManyToMany
      then (Some (ErrNew ''associate can only be used with ManyToMany relationships''), tr)
      else
        (case extractModelInfo source of
           Inl err \<Rightarrow> (Some err, tr)
         | Inr sourceInfo \<Rightarrow>
             (case extractModelInfo target of
                Inl err \<Rightarrow> (Some err, tr)
              | Inr targetInfo \<Rightarrow>
                  (case FieldByName (deref source) (toFieldName (PrimaryKey sourceInfo)) of
                     None \<Rightarrow> (Some (key_not_found (PrimaryKey sourceInfo) ''source''), tr)
                   | Some sourcePkField \<Rightarrow>
                       (case FieldByName (deref target) (toFieldName (PrimaryKey targetInfo)) of
                          None \<Rightarrow> (Some (key_not_found (PrimaryKey targetInfo) ''target''), tr)
                        | Some targetPkField \<Rightarrow>
                            (case Interface sourcePkField of
                               Inl err \<Rightarrow> (Some err, tr)
                             | Inr spk \<Rightarrow>
                                 (case Interface targetPkField of
                                    Inl err \<Rightarrow> (Some err, tr)
                                  | Inr tpk \<Rightarrow>
                                      (let (r, tr') =
                                             ExecContext e
                                               (''INSERT INTO '' @ rel_JoinTable rel @ '' (''
                                                  @ rel_JoinForeignKey rel @ '', ''
                                                  @ rel_JoinRefKey rel @ '') VALUES (?, ?)'')
                                               [spk, tpk] tr
                                       in (case r of Inl err \<Rightarrow> (Some err, tr')
                                           | Inr res \<Rightarrow> (None, tr'))))))))))"

text \<open>\<open>isZeroValue\<close>: \<open>reflect.DeepEqual\<close> with the zero value of the field's type.\<close>

definition isZeroValue :: "gfield \<Rightarrow> bool" where
  "isZeroValue f =
     (f_val f = (if is_struct_type (f_type f) then zero_val (f_val f)
                 else zero_of_type (f_type f)))"

fun associate_many ::
  "env \<Rightarrow> gval \<Rightarrow> string \<Rightarrow> gtype \<Rightarrow> Relationship \<Rightarrow> gval list \<Rightarrow> event list
   \<Rightarrow> error option \<times> gval list \<times> event list" where
  "associate_many e source field elemT rel [] tr = (None, [], tr)"
| "associate_many e source field elemT rel (relModel # rest) tr =
     (let cell = Field field elemT [] relModel in
      case IsNil cell of
        Inl err \<Rightarrow> (Some err, relModel # rest, tr)
      | Inr True \<Rightarrow>
          (case associate_many e source field elemT rel rest tr of
             (err, rest', tr') \<Rightarrow> (err, relModel # rest', tr'))
      | Inr False \<Rightarrow>
          (case Elem cell relModel of
             Inl err \<Rightarrow> (Some err, relModel # rest, tr)
           | Inr relValue \<Rightarrow>
               (case Interface cell of
                  Inl err \<Rightarrow> (Some err, relModel # rest, tr)
                | Inr unused \<Rightarrow>
                    (case extractModelInfo relModel of
                       Inl err \<Rightarrow> (Some err, relModel # rest, tr)
                     | Inr relInfo \<Rightarrow>
                         (case field_of relValue (toFieldName (PrimaryKey relInfo)) of
                            Inl err \<Rightarrow> (Some err, relModel # rest, tr)
                          | Inr None \<Rightarrow>
                              (Some (key_not_found (PrimaryKey relInfo) ''related''),
                               relModel # rest, tr)
                          | Inr (Some pkRelField) \<Rightarrow>
                              (case (if isZeroValue pkRelField then Create e relModel tr
                                     else (None, relModel, tr)) of
                                 (Some err, child, tr1) \<Rightarrow> (Some err, child # rest, tr1)
                               | (None, child, tr1) \<Rightarrow>
                                   (case Associate e source field child rel tr1 of
                                      (Some err, tr2) \<Rightarrow> (Some err, child # rest, tr2)
                                    | (None, tr2) \<Rightarrow>
                                        (case associate_many e source field elemT rel rest tr2 of
                                           (err, rest', tr') \<Rightarrow> (err, child # rest', tr')))))))))"

definition nestedCreateManyToMany ::
  "env \<Rightarrow> gval \<Rightarrow> string \<Rightarrow> Relationship \<Rightarrow> NestedOption \<Rightarrow> event list
   \<Rightarrow> error option \<times> gval \<times> event list" where
  "nestedCreateManyToMany e source field rel opts tr =
     (case many_prelude source field of
        Inl err \<Rightarrow> (Some err, source, tr)
      | Inr None \<Rightarrow> (None, source, tr)
      | Inr (Some (elemT, elems, pkField)) \<Rightarrow>
          (case associate_many e source field elemT rel elems tr of
             (err, elems', tr') \<Rightarrow> (err, with_field_elems field elems' source, tr')))"

text \<open>The loop of \<open>CreateNested\<close> over the relationships, and \<open>CreateNested\<close>.\<close>

fun create_rels ::
  "env \<Rightarrow> gval \<Rightarrow> (string \<times> Relationship) list \<Rightarrow> NestedOption \<Rightarrow> event list
   \<Rightarrow> error option \<times> gval \<times> event list" where
  "create_rels e model [] opts tr = (None, model, tr)"
| "create_rels e model ((field, rel) # rest) opts tr =
     (if \<not> AutoSave opts then create_rels e model rest opts tr
      else
        (case (if rel_Type rel = HasOne then nestedCreateHasOne e model field rel opts tr
               else if rel_Type rel = BelongsTo then nestedCreateBelongsTo e model field rel opts tr
               else if rel_Type rel = HasMany then nestedCreateHasMany e model field rel opts tr
               else if rel_Type rel = ManyToMany then nestedCreateManyToMany e model field rel opts tr
               else (Some (unsupported_relationship (rel_Type rel)), model, tr)) of
           (Some err, model', tr') \<Rightarrow> (Some err, model', tr')
         | (None, model', tr') \<Rightarrow> create_rels e model' rest opts tr'))"

definition CreateNested ::
  "env \<Rightarrow> gval \<Rightarrow> (string \<times> Relationship) list \<Rightarrow> NestedOption \<Rightarrow> event list
   \<Rightarrow> error option \<times> gval \<times> event list" where
  "CreateNested e model relationships opts tr =
     (case Create e model tr of
        (Some err, model1, tr1) \<Rightarrow> (Some err, model1, tr1)
      | (None, model1, tr1) \<Rightarrow> create_rels e model1 (rel_range e tr1 relationships) opts tr1)"

text \<open>
  Deleting: \<open>nestedDeleteHasOne\<close> and \<open>nestedDeleteHasMany\<close> have the same body. Without
  \<open>AutoDelete\<close> they do nothing; otherwise they null the children's foreign key or delete
  the children, by the parent's key.
\<close>

definition nestedDeleteChildren ::
  "env \<Rightarrow> gval \<Rightarrow> string \<Rightarrow> Relationship \<Rightarrow> NestedOption \<Rightarrow> event list
   \<Rightarrow> error option \<times> event list" where
  "nestedDeleteChildren e source field rel opts tr =
     (if \<not> AutoDelete opts then (None, tr)
      else
        (case extractModelInfo source of
           Inl err \<Rightarrow> (Some err, tr)
         | Inr sourceInfo \<Rightarrow>
             (case FieldByName (deref source) (toFieldName (PrimaryKey sourceInfo)) of
                None \<Rightarrow> (Some (key_not_found (PrimaryKey sourceInfo) ''source''), tr)
              | Some pkField \<Rightarrow>
                  (case new_related e (rel_Model rel) of
                     Inl err \<Rightarrow> (Some err, tr)
                   | Inr (relType, relZero) \<Rightarrow>
                       (case extractModelInfo (VPtr relZero) of
                          Inl err \<Rightarrow> (Some err, tr)
                        | Inr relInfo \<Rightarrow>
                            (case Interface pkField of
                               Inl err \<Rightarrow> (Some err, tr)
                             | Inr pk \<Rightarrow>
                                 (let query =
                                        (if NullifyOnDelete opts
                                         then ''UPDATE '' @ TableName relInfo @ '' SET ''
                                                @ rel_ForeignKey rel @ '' = NULL WHERE ''
                                                @ rel_ForeignKey rel @ '' = ?''
                                         else ''DELETE FROM '' @ TableName relInfo @ '' WHERE ''
                                                @ rel_ForeignKey rel @ '' = ?'');
                                      (r, tr') = ExecContext e query [pk] tr
                                  in (case r of Inl err \<Rightarrow> (Some err, tr')
                                      | Inr res \<Rightarrow> (None, tr')))))))))"

definition nestedDeleteHasOne ::
  "env \<Rightarrow> gval \<Rightarrow> string \<Rightarrow> Relationship \<Rightarrow> NestedOption \<Rightarrow> event list
   \<Rightarrow> error option \<times> event list" where
  "nestedDeleteHasOne = nestedDeleteChildren"

definition nestedDeleteHasMany ::
  "env \<Rightarrow> gval \<Rightarrow> string \<Rightarrow> Relationship \<Rightarrow> NestedOption \<Rightarrow> event list
   \<Rightarrow> error option \<times> event list" where
  "nestedDeleteHasMany = nestedDeleteChildren"

text \<open>
  \<open>nestedDeleteManyToMany\<close>. The three statements, in the order of the source: the delete
  of the join rows, then (under \<open>AutoDelete\<close>) the select of the related ids from the join
  table, then the delete of the related rows when the select returned ids.
\<close>

definition delete_join_query :: "Relationship \<Rightarrow> string" where
  "delete_join_query rel =
     ''DELETE FROM '' @ rel_JoinTable rel @ '' WHERE '' @ rel_JoinForeignKey rel @ '' = ?''"

definition select_ids_query :: "Relationship \<Rightarrow> string" where
  "select_ids_query rel =
     ''SELECT '' @ rel_JoinRefKey rel @ '' FROM '' @ rel_JoinTable rel @ '' WHERE ''
       @ rel_JoinForeignKey rel @ '' = ?''"

definition delete_related_query :: "ModelInfo \<Rightarrow> nat \<Rightarrow> string" where
  "delete_related_query relInfo n =
     ''DELETE FROM '' @ TableName relInfo @ '' WHERE '' @ PrimaryKey relInfo @ '' IN (''
       @ join '', '' (replicate n ''?'') @ '')''"

text \<open>\<open>rows.Scan(&id)\<close> for every row: one cell per row.\<close>

fun scan_ids :: "(error + gval list) list \<Rightarrow> error + gval list" where
  "scan_ids [] = Inr []"
| "scan_ids (row # rest) =
     (case scan_cells [''id''] row of
        Inl err \<Rightarrow> Inl err
      | Inr vals \<Rightarrow>
          (case scan_ids rest of
             Inl err \<Rightarrow> Inl err
           | Inr ids \<Rightarrow> Inr (vals @ ids)))"

definition delete_related ::
  "env \<Rightarrow> Relationship \<Rightarrow> gval list \<Rightarrow> event list \<Rightarrow> error option \<times> event list" where
  "delete_related e rel ids tr =
     (if length ids > 0 then
        (case new_related e (rel_Model rel) of
           Inl err \<Rightarrow> (Some err, tr)
         | Inr (relType, relZero) \<Rightarrow>
             (case extractModelInfo (VPtr relZero) of
                Inl err \<Rightarrow> (Some err, tr)
              | Inr relInfo \<Rightarrow>
                  (let (r, tr') = ExecContext e (delete_related_query relInfo (length ids)) ids tr
                   in (case r of Inl err \<Rightarrow> (Some err, tr') | Inr res \<Rightarrow> (None, tr')))))
      else (None, tr))"

definition nestedDeleteManyToMany ::
  "env \<Rightarrow> gval \<Rightarrow> string \<Rightarrow> Relationship \<Rightarrow> NestedOption \<Rightarrow> event list
   \<Rightarrow> error option \<times> event list" where
  "nestedDeleteManyToMany e source field rel opts tr =
     (case extractModelInfo source of
        Inl err \<Rightarrow> (Some err, tr)
      | Inr sourceInfo \<Rightarrow>
          (case FieldByName (deref source) (toFieldName (PrimaryKey sourceInfo)) of
             None \<Rightarrow> (Some (key_not_found (PrimaryKey sourceInfo) ''source''), tr)
           | Some pkField \<Rightarrow>
               (case Interface pkField of
                  Inl err \<Rightarrow> (Some err, tr)
                | Inr pk \<Rightarrow>
                    (let (r, tr1) = ExecContext e (delete_join_query rel) [pk] tr in
                     case r of
                       Inl err \<Rightarrow> (Some err, tr1)
                     | Inr res \<Rightarrow>
                         if AutoDelete opts then
                           (let (q, tr2) = QueryContext e (select_ids_query rel) [pk] tr1 in
                            case q of
                              Inl err \<Rightarrow> (Some err, tr2)
                            | Inr rows \<Rightarrow>
                                (case scan_ids (Scans rows) of
                                   Inl err \<Rightarrow> (Some err, tr2)
                                 | Inr ids \<Rightarrow> delete_related e rel ids tr2))
                         else (None, tr1)))))"

text \<open>
  The loop of \<open>DeleteNested\<close> over the relationships (a \<open>BelongsTo\<close> and any other type
  are passed over), and \<open>DeleteNested\<close>, which deletes the record itself last.
\<close>

fun delete_rels ::
  "env \<Rightarrow> gval \<Rightarrow> (string \<times> Relationship) list \<Rightarrow> NestedOption \<Rightarrow> event list
   \<Rightarrow> error option \<times> event list" where
  "delete_rels e model [] opts tr = (None, tr)"
| "delete_rels e model ((field, rel) # rest) opts tr =
     (case (if rel_Type rel = HasOne then nestedDeleteHasOne e model field rel opts tr
            else if rel_Type rel = HasMany then nestedDeleteHasMany e model field rel opts tr
            else if rel_Type rel = ManyToMany then nestedDeleteManyToMany e model field rel opts tr
            else (None, tr)) of
        (Some err, tr') \<Rightarrow> (Some err, tr')
      | (None, tr') \<Rightarrow> delete_rels e model rest opts tr')"

definition DeleteNested ::
  "env \<Rightarrow> gval \<Rightarrow> (string \<times> Relationship) list \<Rightarrow> NestedOption \<Rightarrow> event list
   \<Rightarrow> error option \<times> event list" where
  "DeleteNested e model relationships opts tr =
     (case delete_rels e model (rel_range e tr relationships) opts tr of
        (Some err, tr') \<Rightarrow> (Some err, tr')
      | (None, tr') \<Rightarrow> Delete e model tr')"

section \<open>Example records with relationships\<close>

text \<open>
  \<open>type Author struct { Id int64 `db:"id,pk,auto"`; Name string `db:"name"`;
  Posts []Post `db:"-"` }\<close> and \<open>type Post struct { Id int64 `db:"id,pk,auto"`; Title string
  `db:"title"`; AuthorId int64 `db:"author_id"`; Author *Author `db:"-"`;
  Tags []*Tag `db:"-"` }\<close>, \<open>type Tag struct { Id int64 `db:"id,pk,auto"`; Label string
  `db:"label"` }\<close>, each with \<open>TableName\<close> and \<open>PrimaryKey\<close> on the pointer receiver.
\<close>

definition Author :: "int \<Rightarrow> string \<Rightarrow> gval \<Rightarrow> gval" where
  "Author i n posts =
     VStruct (SInfo ''Author'' (Some (True, ''authors'', ''id'')))
       [Field ''Id'' TInt ''id,pk,auto'' (VInt i),
        Field ''Name'' TString ''name'' (VStr n),
        Field ''Posts'' (TSlice (TStruct ''Post'')) ''-'' posts]"

definition Post :: "int \<Rightarrow> string \<Rightarrow> int \<Rightarrow> gval \<Rightarrow> gval \<Rightarrow> gval" where
  "Post i t a author tags =
     VStruct (SInfo ''Post'' (Some (True, ''posts'', ''id'')))
       [Field ''Id'' TInt ''id,pk,auto'' (VInt i),
        Field ''Title'' TString ''title'' (VStr t),
        Field ''AuthorId'' TInt ''author_id'' (VInt a),
        Field ''Author'' (TPtr (TStruct ''Author'')) ''-'' author,
        Field ''Tags'' (TSlice (TPtr (TStruct ''Tag''))) ''-'' tags]"

definition Tag :: "int \<Rightarrow> string \<Rightarrow> gval" where
  "Tag i l =
     VStruct (SInfo ''Tag'' (Some (True, ''tags'', ''id'')))
       [Field ''Id'' TInt ''id,pk,auto'' (VInt i),
        Field ''Label'' TString ''label'' (VStr l)]"

definition no_author :: gval where
  "no_author = VNilPtr (TStruct ''Author'')"

definition no_posts :: gval where
  "no_posts = VNilSlice (TStruct ''Post'')"

definition no_tags :: gval where
  "no_tags = VNilSlice (TPtr (TStruct ''Tag''))"

definition posts_of_author :: Relationship where
  "posts_of_author =
     \<lparr> rel_Type = HasMany, rel_Model = VPtr (Post 0 [] 0 no_author no_tags),
       rel_ForeignKey = ''author_id'', rel_ReferenceKey = ''id'', rel_JoinTable = [],
       rel_JoinForeignKey = [], rel_JoinRefKey = [], rel_Preload = False \<rparr>"

definition author_of_post :: Relationship where
  "author_of_post =
     \<lparr> rel_Type = BelongsTo, rel_Model = VPtr (Author 0 [] no_posts),
       rel_ForeignKey = ''author_id'', rel_ReferenceKey = ''id'', rel_JoinTable = [],
       rel_JoinForeignKey = [], rel_JoinRefKey = [], rel_Preload = False \<rparr>"

definition tags_of_post :: Relationship where
  "tags_of_post =
     \<lparr> rel_Type = ManyToMany, rel_Model = VPtr (Tag 0 []),
       rel_ForeignKey = [], rel_ReferenceKey = ''id'', rel_JoinTable = ''post_tags'',
       rel_JoinForeignKey = ''post_id'', rel_JoinRefKey = ''tag_id'', rel_Preload = False \<rparr>"

text \<open>A storage that returns one post for every query.\<close>

definition one_post :: Rows where
  "one_post =
     \<lparr> Columns = Inr [''id'', ''title'', ''author_id''],
       Scans = [Inr [VInt 5, VStr ''Hello'', VInt 1]],
       RowsErr = None \<rparr>"

text \<open>A struct passed or stored by value.\<close>

fun is_struct :: "gval \<Rightarrow> bool" where
  "is_struct (VStruct si fs) = True"
| "is_struct v = False"

text \<open>
  Records named the way the README names its fields, with the key in a field \<open>ID\<close>:
  \<open>type Writer struct { ID int64 `db:"id,pk,auto"`; Name string `db:"name"`;
  Articles []Article `db:"-"` }\<close> and \<open>type Article struct { ID int64 `db:"id,pk,auto"`;
  Title string `db:"title"`; WriterID int64 `db:"writer_id"`; Writer *Writer `db:"-"`;
  Tags []*Tag `db:"-"` }\<close>; and \<open>type Entry struct { Id int64 `db:"id,pk,auto"`;
  Title string `db:"title"`; AuthorID int64 `db:"author_id"`; Author *Author `db:"-"` }\<close>,
  whose key field is \<open>Id\<close> and whose foreign key field is \<open>AuthorID\<close>. Each has
  \<open>TableName\<close> and \<open>PrimaryKey\<close> on the pointer receiver.
\<close>

definition Writer :: "int \<Rightarrow> string \<Rightarrow> gval \<Rightarrow> gval" where
  "Writer i n articles =
     VStruct (SInfo ''Writer'' (Some (True, ''writers'', ''id'')))
       [Field ''ID'' TInt ''id,pk,auto'' (VInt i),
        Field ''Name'' TString ''name'' (VStr n),
        Field ''Articles'' (TSlice (TStruct ''Article'')) ''-'' articles]"

definition Article :: "int \<Rightarrow> string \<Rightarrow> int \<Rightarrow> gval \<Rightarrow> gval \<Rightarrow> gval" where
  "Article i t w writer tags =
     VStruct (SInfo ''Article'' (Some (True, ''articles'', ''id'')))
       [Field ''ID'' TInt ''id,pk,auto'' (VInt i),
        Field ''Title'' TString ''title'' (VStr t),
        Field ''WriterID'' TInt ''writer_id'' (VInt w),
        Field ''Writer'' (TPtr (TStruct ''Writer'')) ''-'' writer,
        Field ''Tags'' (TSlice (TPtr (TStruct ''Tag''))) ''-'' tags]"

definition Entry :: "int \<Rightarrow> string \<Rightarrow> int \<Rightarrow> gval \<Rightarrow> gval" where
  "Entry i t a author =
     VStruct (SInfo ''Entry'' (Some (True, ''entries'', ''id'')))
       [Field ''Id'' TInt ''id,pk,auto'' (VInt i),
        Field ''Title'' TString ''title'' (VStr t),
        Field ''AuthorID'' TInt ''author_id'' (VInt a),
        Field ''Author'' (TPtr (TStruct ''Author'')) ''-'' author]"

definition no_writer :: gval where
  "no_writer = VNilPtr (TStruct ''Writer'')"

definition no_articles :: gval where
  "no_articles = VNilSlice (TStruct ''Article'')"

definition articles_of_writer :: Relationship where
  "articles_of_writer =
     \<lparr> rel_Type = HasMany, rel_Model = VPtr (Article 0 [] 0 no_writer no_tags),
       rel_ForeignKey = ''writer_id'', rel_ReferenceKey = ''id'', rel_JoinTable = [],
       rel_JoinForeignKey = [], rel_JoinRefKey = [], rel_Preload = False \<rparr>"

definition writer_of_article :: Relationship where
  "writer_of_article =
     \<lparr> rel_Type = BelongsTo, rel_Model = VPtr (Writer 0 [] no_articles),
       rel_ForeignKey = ''writer_id'', rel_ReferenceKey = ''id'', rel_JoinTable = [],
       rel_JoinForeignKey = [], rel_JoinRefKey = [], rel_Preload = False \<rparr>"

definition tags_of_article :: Relationship where
  "tags_of_article =
     \<lparr> rel_Type = ManyToMany, rel_Model = VPtr (Tag 0 []),
       rel_ForeignKey = [], rel_ReferenceKey = ''id'', rel_JoinTable = ''article_tags'',
       rel_JoinForeignKey = ''article_id'', rel_JoinRefKey = ''tag_id'',
       rel_Preload = False \<rparr>"

text \<open>
  A storage that numbers the rows it inserts: the generated key is 7 plus the number of
  calls made before.
\<close>

definition serial_env :: env where
  "serial_env =
     (fixed_env (Inr (result_of 7 1)) (Inr no_rows) (Inl ErrNoRows))
       \<lparr> db_exec := (\<lambda>tr q args. Inr (result_of (7 + int (length tr)) 1)) \<rparr>"

section \<open>Evaluation rules\<close>

lemmas string_defs = dq_def bq_def itoa_def itoa_nat.simps digit_char_def replace_char_def

lemmas qb_defs = NewQueryBuilder_def qb_Select_def qb_Insert_def qb_Update_def qb_Delete_def
  qb_Where_def qb_Set_def qb_Build_def where_part_def

lemmas b_defs = NewBuilder_def b_Select_def b_Insert_def b_Update_def b_Delete_def
  b_Where_def b_Set_def b_Build_def where_part_def returning_part_def positions_def
  PostgresDialect_def MySQLDialect_def SQLiteDialect_def

lemmas model_defs = extractModelInfo_def IsExported_def is_upper_def tag_option_def
  HasPrefix_def TrimPrefix_def Let_def

lemmas env_defs = fixed_env_def result_of_def no_rows_def ExecContext_def QueryContext_def
  QueryRowContext_def BeginTx_def TxExecContext_def Commit_def Rollback_def

lemmas crud_defs = Create_def Find_def Update_def Delete_def exec_affected_def scanRow_def
  scanFields_def Scan_def set_generated_id_def CanSet_def Convert_def FieldByName_def

lemmas field_name_defs = toFieldName_def Title_def isSeparator_def upper_char_def
  lower_char_def is_digit_def is_lower_def is_upper_def

section \<open>Facts about the metadata\<close>

lemma enumerates_single: "enumerates kvs [x] \<Longrightarrow> kvs = [x]"
  by (simp add: enumerates_def)

lemma extract_User:
  "extractModelInfo (VPtr (User i u)) =
     Inr \<lparr> TableName = ''users'', PrimaryKey = ''id'',
           Fields =
             [\<lparr> fi_Name = ''ID'', fi_DBName = ''id'', fi_Type = TInt, fi_IsKey = True,
                fi_IsAuto = True, fi_Nullable = False, fi_Unique = False, fi_Index = False,
                fi_Size = 0, fi_Precision = 0, fi_Scale = 0 \<rparr>,
              \<lparr> fi_Name = ''Username'', fi_DBName = ''username'', fi_Type = TString,
                fi_IsKey = False, fi_IsAuto = False, fi_Nullable = False, fi_Unique = False,
                fi_Index = False, fi_Size = 0, fi_Precision = 0, fi_Scale = 0 \<rparr>] \<rparr>"
  by (simp add: User_def model_defs)

lemma find_field_in: "find_field n fs \<noteq> None \<longleftrightarrow> n \<in> f_name ` set fs"
  by (induction fs) auto

lemma tag_option_name: "fi_Name (fst (tag_option opt st)) = fi_Name (fst st)"
  by (cases st) (simp add: tag_option_def Let_def)

lemma tag_options_name: "fi_Name (fst (tag_options opts st)) = fi_Name (fst st)"
  by (induction opts arbitrary: st) (simp_all add: tag_option_name)

lemma process_fields_names:
  "fi \<in> set (Fields (process_fields fs info)) \<Longrightarrow>
   fi \<in> set (Fields info) \<or> fi_Name fi \<in> f_name ` set fs"
proof (induction fs arbitrary: info)
  case Nil
  then show ?case by simp
next
  case (Cons field rest)
  show ?case
  proof (cases "\<not> IsExported (f_name field) \<or> f_tag field = ''-''")
    case True
    then have "process_fields (field # rest) info = process_fields rest info" by auto
    with Cons show ?thesis by auto
  next
    case False
    obtain fieldInfo pk where tp:
      "tag_options (tl (split_on CHR '','' (f_tag field)))
         (\<lparr> fi_Name = f_name field,
            fi_DBName = (if hd (split_on CHR '','' (f_tag field)) \<noteq> []
                         then hd (split_on CHR '','' (f_tag field))
                         else toSnakeCase (f_name field)),
            fi_Type = f_type field, fi_IsKey = False, fi_IsAuto = False,
            fi_Nullable = False, fi_Unique = False, fi_Index = False,
            fi_Size = 0, fi_Precision = 0, fi_Scale = 0 \<rparr>, PrimaryKey info) = (fieldInfo, pk)"
      by (cases "tag_options (tl (split_on CHR '','' (f_tag field)))
         (\<lparr> fi_Name = f_name field,
            fi_DBName = (if hd (split_on CHR '','' (f_tag field)) \<noteq> []
                         then hd (split_on CHR '','' (f_tag field))
                         else toSnakeCase (f_name field)),
            fi_Type = f_type field, fi_IsKey = False, fi_IsAuto = False,
            fi_Nullable = False, fi_Unique = False, fi_Index = False,
            fi_Size = 0, fi_Precision = 0, fi_Scale = 0 \<rparr>, PrimaryKey info)") auto
    have nm: "fi_Name fieldInfo = f_name field"
      using tag_options_name [of "tl (split_on CHR '','' (f_tag field))"] tp
      by (metis fst_conv FieldInfo.select_convs(1))
    have step: "process_fields (field # rest) info =
                process_fields rest (info\<lparr> PrimaryKey := pk, Fields := Fields info @ [fieldInfo] \<rparr>)"
      using False tp by (simp add: Let_def)
    from Cons.IH [of "info\<lparr> PrimaryKey := pk, Fields := Fields info @ [fieldInfo] \<rparr>"]
         Cons.prems step nm
    show ?thesis by auto
  qed
qed

lemma extract_fields_found:
  assumes "extractModelInfo model = Inr info" and "fi \<in> set (Fields info)"
  shows "\<exists>f. FieldByName (deref model) (fi_Name fi) = Some f"
proof -
  from assms(1) obtain si fs where d: "deref model = VStruct si fs"
    by (auto simp: extractModelInfo_def split: gval.splits)
  with assms(1) obtain tn pk where
    "info = process_fields fs \<lparr> TableName = tn, PrimaryKey = pk, Fields = [] \<rparr>"
    by (auto simp: extractModelInfo_def Let_def split: prod.splits)
  with assms(2) have "fi_Name fi \<in> f_name ` set fs"
    using process_fields_names by fastforce
  then have "find_field (fi_Name fi) fs \<noteq> None" using find_field_in by blast
  then show ?thesis by (auto simp: FieldByName_def d)
qed

lemma update_set_loop_nil:
  assumes "\<forall>fi\<in>set fis. \<exists>f. FieldByName v (fi_Name fi) = Some f \<and> (fi_IsKey fi \<longrightarrow> f_val f = VNil)"
  shows "\<exists>qb'. update_set_loop v fis (qb, VNil) = Inr (qb', VNil)"
  using assms
proof (induction fis arbitrary: qb)
  case Nil
  then show ?case by simp
next
  case (Cons field rest)
  then obtain f where f: "FieldByName v (fi_Name field) = Some f"
    and k: "fi_IsKey field \<longrightarrow> f_val f = VNil" by auto
  from Cons have rest: "\<And>q. \<exists>qb'. update_set_loop v rest (q, VNil) = Inr (qb', VNil)" by auto
  show ?case using f k rest by (cases "fi_IsKey field") auto
qed

section \<open>The query builders\<close>

text \<open>
  A SELECT or a DELETE does not range over the \<open>values\<close> map: its text and arguments are
  the same for every enumeration.
\<close>

lemma qb_Build_select_delete_fixed:
  "qb_operation qb = ''SELECT'' \<or> qb_operation qb = ''DELETE'' \<Longrightarrow>
   qb_Build kvs1 qb = qb_Build kvs2 qb"
  by (elim disjE; simp add: qb_Build_def)

text \<open>
  Claim C1 (determinism of \<open>Build\<close>): two calls of \<open>Build()\<close> on the same builder state
  give the same SQL text and the same arguments in the same order, in particular for an
  INSERT or UPDATE whose pairs were added with \<open>Set\<close>. The code ranges over the Go map
  \<open>values\<close>, whose enumeration order the runtime varies. On the README's two-column insert,
  both orders below are enumerations of the same \<open>values\<close>, and \<open>Build\<close> returns a
  different text and a different argument list for each, on the root builder and on the
  dialect-aware builder under the postgres dialect: the code does not have the property.
\<close>

theorem Build_follows_map_order:
  "enumerates [(''username'', VStr ''janedoe''), (''email'', VStr ''jane@example.com'')]
     (qb_values readme_insert)
   \<and> enumerates [(''email'', VStr ''jane@example.com''), (''username'', VStr ''janedoe'')]
     (qb_values readme_insert)
   \<and> qb_Build [(''username'', VStr ''janedoe''), (''email'', VStr ''jane@example.com'')]
        readme_insert
       = (''INSERT INTO users (username, email) VALUES (?, ?)'',
          [VStr ''janedoe'', VStr ''jane@example.com''])
   \<and> qb_Build [(''email'', VStr ''jane@example.com''), (''username'', VStr ''janedoe'')]
        readme_insert
       = (''INSERT INTO users (email, username) VALUES (?, ?)'',
          [VStr ''jane@example.com'', VStr ''janedoe''])
   \<and> enumerates [(''username'', VStr ''janedoe''), (''email'', VStr ''jane@example.com'')]
     (b_values postgres_insert)
   \<and> enumerates [(''email'', VStr ''jane@example.com''), (''username'', VStr ''janedoe'')]
     (b_values postgres_insert)
   \<and> fst (b_Build [(''username'', VStr ''janedoe''), (''email'', VStr ''jane@example.com'')]
             postgres_insert)
       \<noteq> fst (b_Build [(''email'', VStr ''jane@example.com''), (''username'', VStr ''janedoe'')]
                 postgres_insert)
   \<and> snd (b_Build [(''username'', VStr ''janedoe''), (''email'', VStr ''jane@example.com'')]
             postgres_insert)
       \<noteq> snd (b_Build [(''email'', VStr ''jane@example.com''), (''username'', VStr ''janedoe'')]
                 postgres_insert)"
  by (simp add: readme_insert_def postgres_insert_def enumerates_def qb_defs b_defs string_defs)

section \<open>Update and Delete\<close>

text \<open>
  Claim C4: an \<open>Update\<close> or \<open>Delete\<close> whose statement executes successfully but affects
  zero rows returns \<open>ErrNotFound\<close>. Whenever the call ends with an executed statement whose
  result reports zero affected rows, the error returned is \<open>ErrNotFound\<close>.
\<close>

theorem zero_rows_affected_is_NotFound:
  assumes "op = Update \<or> op = Delete"
      and "op e model tr = (r, tr')"
      and "tr' = tr @ [EvExec q args (Inr res)]"
      and "RowsAffected res = Inr 0"
    shows "r = Some ErrNotFound"
  using assms
  by (auto simp: Update_def Delete_def exec_affected_def ExecContext_def Let_def
           split: sum.splits prod.splits if_splits)

theorem zero_rows_affected_is_NotFound_witness:
  "Update (fixed_env (Inr (result_of 0 0)) (Inr no_rows) (Inl ErrNoRows)) (VPtr (User 3 ''jdoe'')) []
     = (Some ErrNotFound,
        [] @ [EvExec ''UPDATE users SET username = ? WHERE id = ?'' [VStr ''jdoe'', VInt 3]
               (Inr (result_of 0 0))])
   \<and> Delete (fixed_env (Inr (result_of 0 0)) (Inr no_rows) (Inl ErrNoRows)) (VPtr (User 3 ''jdoe'')) []
     = (Some ErrNotFound,
        [] @ [EvExec ''DELETE FROM users WHERE id = ?'' [VInt 3] (Inr (result_of 0 0))])
   \<and> RowsAffected (result_of 0 0) = Inr 0"
proof -
  let ?e = "fixed_env (Inr (result_of 0 0)) (Inr no_rows) (Inl ErrNoRows)"
  let ?m = "VPtr (User 3 ''jdoe'')"
  let ?u = "[] @ [EvExec ''UPDATE users SET username = ? WHERE id = ?'' [VStr ''jdoe'', VInt 3]
                    (Inr (result_of 0 0))]"
  let ?d = "[] @ [EvExec ''DELETE FROM users WHERE id = ?'' [VInt 3] (Inr (result_of 0 0))]"
  have ra: "RowsAffected (result_of 0 0) = Inr 0"
    by (simp add: result_of_def)
  have u: "Update ?e ?m [] = (fst (Update ?e ?m []), ?u)"
    by (simp add: User_def crud_defs model_defs env_defs qb_defs update_set_loop.simps)
  have d: "Delete ?e ?m [] = (fst (Delete ?e ?m []), ?d)"
    by (simp add: User_def crud_defs model_defs env_defs qb_defs)
  have "fst (Update ?e ?m []) = Some ErrNotFound"
    using zero_rows_affected_is_NotFound [where op = Update, OF _ u refl ra] by simp
  moreover have "fst (Delete ?e ?m []) = Some ErrNotFound"
    using zero_rows_affected_is_NotFound [where op = Delete, OF _ d refl ra] by simp
  ultimately show ?thesis
    using u d ra by simp
qed

section \<open>Create and Find\<close>

text \<open>
  Claim C2, as the specification states it: for the record type of table \<open>users\<close> with
  the auto-increment key \<open>id\<close>, \<open>Create\<close> under the postgres dialect issues
  \<open>INSERT INTO "users" ("username") VALUES ($1)\<close>, and \<open>Find(record, 1)\<close> issues
  \<open>SELECT * FROM "users" WHERE "id" = $1\<close>. The connection builds its statements with the
  root package's builder, which knows no dialect: on a connection opened with the postgres
  driver the two statements are the unquoted texts with the placeholder \<open>?\<close>, which differ
  from the texts of the claim.
\<close>

theorem users_statements_counterexample:
  "snd (snd (Create (fixed_env (Inr (result_of 7 1)) (Inr no_rows) (Inl ErrNoRows))
                    (VPtr (User 0 ''jdoe'')) []))
     = [EvExec ''INSERT INTO users (username) VALUES (?)'' [VStr ''jdoe'']
          (Inr (result_of 7 1))]
   \<and> ''INSERT INTO users (username) VALUES (?)'' \<noteq> postgres_insert_users
   \<and> snd (snd (Find (fixed_env (Inr (result_of 7 1)) (Inr no_rows) (Inl ErrNoRows))
                    (VPtr (User 0 ''jdoe'')) (VInt 1) []))
     = [EvQueryRow ''SELECT * FROM users WHERE id = ?'' [VInt 1] (Inl ErrNoRows)]
   \<and> ''SELECT * FROM users WHERE id = ?'' \<noteq> postgres_select_users
   \<and> driver (fixed_env (Inr (result_of 7 1)) (Inr no_rows) (Inl ErrNoRows)) = ''postgres''"
  by (simp add: User_def crud_defs model_defs env_defs qb_defs postgres_insert_users_def
        postgres_select_users_def dq_def)

text \<open>
  Claim C2, amended: for that record type, whatever driver the connection was opened with,
  \<open>Create\<close> issues \<open>INSERT INTO users (username) VALUES (?)\<close> with the username as its
  only argument; when the statement fails the error is returned, otherwise the call
  succeeds and, when the driver reports a last-insert id, the record's \<open>ID\<close> holds it
  afterwards. \<open>Find(record, 1)\<close> issues \<open>SELECT * FROM users WHERE id = ?\<close> with argument
  1 and fails with \<open>ErrNotFound\<close> when no row matches. (The hypothesis says that the
  runtime enumerates the one-entry map \<open>values\<close> as that entry.)
\<close>

theorem Create_Find_users_statements:
  assumes "enumerates (map_range e tr [(''username'', VStr u)]) [(''username'', VStr u)]"
  shows "Create e (VPtr (User i u)) tr =
           (let r = db_exec e tr ''INSERT INTO users (username) VALUES (?)'' [VStr u];
                tr' = tr @ [EvExec ''INSERT INTO users (username) VALUES (?)'' [VStr u] r]
            in case r of
                 Inl err \<Rightarrow> (Some err, VPtr (User i u), tr')
               | Inr result \<Rightarrow>
                   (case LastInsertId result of
                      Inl err \<Rightarrow> (None, VPtr (User i u), tr')
                    | Inr n \<Rightarrow> (None, VPtr (User n u), tr')))
         \<and> snd (snd (Find e (VPtr (User i u)) (VInt 1) tr)) =
             tr @ [EvQueryRow ''SELECT * FROM users WHERE id = ?'' [VInt 1]
                    (db_query_row e tr ''SELECT * FROM users WHERE id = ?'' [VInt 1])]
         \<and> (db_query_row e tr ''SELECT * FROM users WHERE id = ?'' [VInt 1] = Inl ErrNoRows \<longrightarrow>
              fst (Find e (VPtr (User i u)) (VInt 1) tr) = Some ErrNotFound)"
proof -
  have kv: "map_range e tr [(''username'', VStr u)] = [(''username'', VStr u)]"
    using assms by (rule enumerates_single)
  have c: "Create e (VPtr (User i u)) tr =
           (let r = db_exec e tr ''INSERT INTO users (username) VALUES (?)'' [VStr u];
                tr' = tr @ [EvExec ''INSERT INTO users (username) VALUES (?)'' [VStr u] r]
            in case r of
                 Inl err \<Rightarrow> (Some err, VPtr (User i u), tr')
               | Inr result \<Rightarrow>
                   (case LastInsertId result of
                      Inl err \<Rightarrow> (None, VPtr (User i u), tr')
                    | Inr n \<Rightarrow> (None, VPtr (User n u), tr')))"
    unfolding Create_def extract_User
    by (simp add: kv User_def qb_defs ExecContext_def set_generated_id_def CanSet_def
          Convert_def FieldByName_def IsExported_def is_upper_def Let_def
          split: sum.splits)
  have f: "Find e (VPtr (User i u)) (VInt 1) tr =
            scanRow e (VPtr (User i u)) ''SELECT * FROM users WHERE id = ?'' [VInt 1] tr"
    unfolding Find_def extract_User by (simp add: qb_defs)
  have f1: "snd (snd (Find e (VPtr (User i u)) (VInt 1) tr)) =
             tr @ [EvQueryRow ''SELECT * FROM users WHERE id = ?'' [VInt 1]
                    (db_query_row e tr ''SELECT * FROM users WHERE id = ?'' [VInt 1])]"
    unfolding f
    by (simp add: scanRow_def QueryRowContext_def scanFields_def User_def Let_def
          split: sum.splits prod.splits)
  have f2: "db_query_row e tr ''SELECT * FROM users WHERE id = ?'' [VInt 1] = Inl ErrNoRows \<longrightarrow>
              fst (Find e (VPtr (User i u)) (VInt 1) tr) = Some ErrNotFound"
    unfolding f
    by (simp add: scanRow_def QueryRowContext_def scanFields_def User_def Let_def)
  show ?thesis using c f1 f2 by blast
qed

theorem Create_Find_users_statements_witness:
  "enumerates (map_range (fixed_env (Inr (result_of 7 1)) (Inr no_rows) (Inl ErrNoRows)) []
                 [(''username'', VStr ''jdoe'')]) [(''username'', VStr ''jdoe'')]
   \<and> Create (fixed_env (Inr (result_of 7 1)) (Inr no_rows) (Inl ErrNoRows))
              (VPtr (User 0 ''jdoe'')) []
       = (None, VPtr (User 7 ''jdoe''),
          [EvExec ''INSERT INTO users (username) VALUES (?)'' [VStr ''jdoe'']
             (Inr (result_of 7 1))])
   \<and> fst (Find (fixed_env (Inr (result_of 7 1)) (Inr no_rows) (Inl ErrNoRows))
                (VPtr (User 0 ''jdoe'')) (VInt 1) []) = Some ErrNotFound
   \<and> snd (snd (Find (fixed_env (Inr (result_of 7 1)) (Inr no_rows) (Inl ErrNoRows))
                (VPtr (User 0 ''jdoe'')) (VInt 1) []))
       = [EvQueryRow ''SELECT * FROM users WHERE id = ?'' [VInt 1] (Inl ErrNoRows)]"
proof -
  let ?e = "fixed_env (Inr (result_of 7 1)) (Inr no_rows) (Inl ErrNoRows)"
  have h: "enumerates (map_range ?e [] [(''username'', VStr ''jdoe'')])
             [(''username'', VStr ''jdoe'')]"
    by (simp add: fixed_env_def enumerates_def)
  show ?thesis
    using h Create_Find_users_statements [OF h, of 0]
    by (simp add: fixed_env_def result_of_def)
qed

section \<open>Update without a key value\<close>

text \<open>
  Claim C3, as the specification states it: for every record whose primary key field
  holds an absent value, \<open>Update\<close> fails with \<open>ErrNoID\<close> and issues no UPDATE statement.
  The record below has an optional key, \<open>ID *int64\<close>, that holds nil: \<open>Update\<close> compares
  the boxed field value with the nil interface, a typed nil pointer is not equal to it,
  and the UPDATE is issued with the nil pointer as the argument of \<open>WHERE id = ?\<close>.
\<close>

theorem Update_absent_key_counterexample:
  "Update (fixed_env (Inr (result_of 0 1)) (Inr no_rows) (Inl ErrNoRows))
          (VPtr (OptUser (VNilPtr TInt) ''jdoe'')) []
     = (None,
        [EvExec ''UPDATE users SET username = ? WHERE id = ?'' [VStr ''jdoe'', VNilPtr TInt]
           (Inr (result_of 0 1))])"
  by (simp add: OptUser_def crud_defs model_defs env_defs qb_defs)

text \<open>
  Claim C3, amended: \<open>ErrNoID\<close> means that no key value was found by the loop over the
  fields. For every record in which no field is marked as key, or every field marked as
  key holds the nil interface value, \<open>Update\<close> fails with \<open>ErrNoID\<close> and the trace is
  unchanged: no statement is issued.
\<close>

theorem Update_without_key_value:
  assumes "extractModelInfo model = Inr info"
      and "\<forall>fi\<in>set (Fields info). fi_IsKey fi \<longrightarrow>
             (\<forall>f. FieldByName (deref model) (fi_Name fi) = Some f \<longrightarrow> f_val f = VNil)"
    shows "Update e model tr = (Some ErrNoID, tr)"
proof -
  have "\<forall>fi\<in>set (Fields info). \<exists>f. FieldByName (deref model) (fi_Name fi) = Some f
          \<and> (fi_IsKey fi \<longrightarrow> f_val f = VNil)"
    using assms extract_fields_found by blast
  then obtain qb' where
    "update_set_loop (deref model) (Fields info)
       (qb_Update (NewQueryBuilder (TableName info)), VNil) = Inr (qb', VNil)"
    using update_set_loop_nil by blast
  then show ?thesis using assms(1) by (simp add: Update_def)
qed

theorem Update_without_key_value_witness:
  "extractModelInfo (VPtr (IfaceUser VNil ''jdoe''))
     = Inr \<lparr> TableName = ''users'', PrimaryKey = ''id'',
             Fields =
               [\<lparr> fi_Name = ''ID'', fi_DBName = ''id'', fi_Type = TIface, fi_IsKey = True,
                  fi_IsAuto = False, fi_Nullable = False, fi_Unique = False,
                  fi_Index = False, fi_Size = 0, fi_Precision = 0, fi_Scale = 0 \<rparr>,
                \<lparr> fi_Name = ''Username'', fi_DBName = ''username'', fi_Type = TString,
                  fi_IsKey = False, fi_IsAuto = False, fi_Nullable = False,
                  fi_Unique = False, fi_Index = False, fi_Size = 0, fi_Precision = 0,
                  fi_Scale = 0 \<rparr>] \<rparr>
   \<and> Update (fixed_env (Inr (result_of 0 1)) (Inr no_rows) (Inl ErrNoRows))
             (VPtr (IfaceUser VNil ''jdoe'')) [] = (Some ErrNoID, [])"
proof -
  let ?info = "\<lparr> TableName = ''users'', PrimaryKey = ''id'',
             Fields =
               [\<lparr> fi_Name = ''ID'', fi_DBName = ''id'', fi_Type = TIface, fi_IsKey = True,
                  fi_IsAuto = False, fi_Nullable = False, fi_Unique = False,
                  fi_Index = False, fi_Size = 0, fi_Precision = 0, fi_Scale = 0 \<rparr>,
                \<lparr> fi_Name = ''Username'', fi_DBName = ''username'', fi_Type = TString,
                  fi_IsKey = False, fi_IsAuto = False, fi_Nullable = False,
                  fi_Unique = False, fi_Index = False, fi_Size = 0, fi_Precision = 0,
                  fi_Scale = 0 \<rparr>] \<rparr>"
  have x: "extractModelInfo (VPtr (IfaceUser VNil ''jdoe'')) = Inr ?info"
    by (simp add: IfaceUser_def model_defs)
  have k: "\<forall>fi\<in>set (Fields ?info). fi_IsKey fi \<longrightarrow>
             (\<forall>f. FieldByName (deref (VPtr (IfaceUser VNil ''jdoe''))) (fi_Name fi) = Some f
                   \<longrightarrow> f_val f = VNil)"
    by (simp add: IfaceUser_def FieldByName_def)
  show ?thesis
    using x Update_without_key_value [OF x k] by simp
qed

section \<open>Transactions and migrations\<close>

lemmas migration_defs = MigrateUp_def MigrateDown_def CreateMigrationsTable_def
  GetPendingMigrations_def GetAppliedMigrations_def query_migrations_def scan_migration_def
  two_pending_def migration_env_def NewMigrationManager_def mark_applied_query_def
  mark_unapplied_query_def

lemma tx_calls_append: "tx_calls (xs @ ys) = tx_calls xs @ tx_calls ys"
  by (induction xs rule: tx_calls.induct) simp_all

lemma is_tx_ok_exec: "is_tx_ok ev \<Longrightarrow> is_tx_exec ev"
  by (cases ev) auto

lemma list_all_ok_exec: "list_all is_tx_ok evs \<Longrightarrow> list_all is_tx_exec evs"
  by (induction evs) (auto simp: is_tx_ok_exec)

lemma apply_migrations_ok:
  "apply_migrations e m migs tr = (None, tr') \<Longrightarrow>
   \<exists>body ts. tr' = tr @ body \<and> list_all is_tx_ok body \<and> length ts = length migs
             \<and> tx_calls body = planned (tableName m) (zip migs ts)"
proof (induction migs arbitrary: tr)
  case Nil
  then show ?case by (auto simp: planned_def)
next
  case (Cons mg rest)
  let ?tr1 = "tr @ [EvTxExec (mg_Up mg) [] (tx_exec e tr (mg_Up mg) [])]"
  let ?args = "[VTime (clock e ?tr1), VInt (mg_ID mg)]"
  let ?r2 = "tx_exec e ?tr1 (mark_applied_query (tableName m)) ?args"
  let ?tr2 = "?tr1 @ [EvTxExec (mark_applied_query (tableName m)) ?args ?r2]"
  from Cons.prems obtain res res' where
    r1: "tx_exec e tr (mg_Up mg) [] = Inr res" and r2: "?r2 = Inr res'"
    and rec: "apply_migrations e m rest ?tr2 = (None, tr')"
    by (auto simp: TxExecContext_def Let_def split: sum.splits)
  from Cons.IH [OF rec] obtain body ts where
    b: "tr' = ?tr2 @ body" "list_all is_tx_ok body" "length ts = length rest"
       "tx_calls body = planned (tableName m) (zip rest ts)"
    by blast
  let ?body = "[EvTxExec (mg_Up mg) [] (Inr res),
                EvTxExec (mark_applied_query (tableName m)) ?args (Inr res')] @ body"
  have "tr' = tr @ ?body" using b(1) r1 r2 by simp
  moreover have "list_all is_tx_ok ?body" using b(2) by simp
  moreover have "length (clock e ?tr1 # ts) = length (mg # rest)" using b(3) by simp
  moreover have "tx_calls ?body = planned (tableName m) (zip (mg # rest) (clock e ?tr1 # ts))"
    using b(4) by (simp add: planned_def)
  ultimately show ?case by blast
qed

lemma apply_migrations_failed:
  "apply_migrations e m migs tr = (Some err, tr') \<Longrightarrow>
   \<exists>done bad rest ts ok cause.
      migs = done @ bad # rest \<and> length ts = length done \<and> list_all is_tx_ok ok
      \<and> tx_calls ok = planned (tableName m) (zip done ts)
      \<and> (tr' = tr @ ok @ [EvTxExec (mg_Up bad) [] (Inl cause)]
           \<and> err = ErrWrap (''failed to apply migration '' @ mg_Name bad) cause
         \<or> (\<exists>res t.
               tr' = tr @ ok @ [EvTxExec (mg_Up bad) [] (Inr res),
                                EvTxExec (mark_applied_query (tableName m))
                                  [VTime t, VInt (mg_ID bad)] (Inl cause)]
               \<and> err = ErrWrap (''failed to mark migration '' @ mg_Name bad
                                  @ '' as applied'') cause))"
proof (induction migs arbitrary: tr)
  case Nil
  then show ?case by simp
next
  case (Cons mg rest)
  let ?tr1 = "tr @ [EvTxExec (mg_Up mg) [] (tx_exec e tr (mg_Up mg) [])]"
  let ?args = "[VTime (clock e ?tr1), VInt (mg_ID mg)]"
  let ?r2 = "tx_exec e ?tr1 (mark_applied_query (tableName m)) ?args"
  let ?tr2 = "?tr1 @ [EvTxExec (mark_applied_query (tableName m)) ?args ?r2]"
  show ?case
  proof (cases "tx_exec e tr (mg_Up mg) []")
    case (Inl cause)
    with Cons.prems have "err = ErrWrap (''failed to apply migration '' @ mg_Name mg) cause"
      and "tr' = tr @ [] @ [EvTxExec (mg_Up mg) [] (Inl cause)]"
      by (auto simp: TxExecContext_def Let_def)
    then show ?thesis
      by (intro exI [of _ "[]"] exI [of _ mg] exI [of _ rest] exI [of _ cause])
         (simp add: planned_def)
  next
    case r1: (Inr res)
    show ?thesis
    proof (cases ?r2)
      case (Inl cause)
      with r1 Cons.prems have
        "err = ErrWrap (''failed to mark migration '' @ mg_Name mg @ '' as applied'') cause"
        and "tr' = tr @ [] @ [EvTxExec (mg_Up mg) [] (Inr res),
                       EvTxExec (mark_applied_query (tableName m)) ?args (Inl cause)]"
        by (auto simp: TxExecContext_def Let_def)
      then show ?thesis
        by (intro exI [of _ "[]"] exI [of _ mg] exI [of _ rest] exI [of _ cause])
           (simp add: planned_def)
    next
      case r2: (Inr res')
      with r1 Cons.prems have rec: "apply_migrations e m rest ?tr2 = (Some err, tr')"
        by (auto simp: TxExecContext_def Let_def)
      from Cons.IH [OF rec] obtain dn bad rst ts ok cause where
        h: "rest = dn @ bad # rst" "length ts = length dn" "list_all is_tx_ok ok"
           "tx_calls ok = planned (tableName m) (zip dn ts)"
           "tr' = ?tr2 @ ok @ [EvTxExec (mg_Up bad) [] (Inl cause)]
              \<and> err = ErrWrap (''failed to apply migration '' @ mg_Name bad) cause
            \<or> (\<exists>res t.
                 tr' = ?tr2 @ ok @ [EvTxExec (mg_Up bad) [] (Inr res),
                                   EvTxExec (mark_applied_query (tableName m))
                                     [VTime t, VInt (mg_ID bad)] (Inl cause)]
                 \<and> err = ErrWrap (''failed to mark migration '' @ mg_Name bad
                                    @ '' as applied'') cause)"
        by blast
      let ?ok = "[EvTxExec (mg_Up mg) [] (Inr res),
                  EvTxExec (mark_applied_query (tableName m)) ?args (Inr res')] @ ok"
      have pre: "?tr2 = tr @ [EvTxExec (mg_Up mg) [] (Inr res),
                  EvTxExec (mark_applied_query (tableName m)) ?args (Inr res')]"
        using r1 r2 by simp
      have a: "mg # rest = (mg # dn) @ bad # rst" using h(1) by simp
      have b: "length (clock e ?tr1 # ts) = length (mg # dn)" using h(2) by simp
      have c: "list_all is_tx_ok ?ok" using h(3) by simp
      have d: "tx_calls ?ok = planned (tableName m) (zip (mg # dn) (clock e ?tr1 # ts))"
        using h(4) by (simp add: planned_def)
      have f: "tr' = tr @ ?ok @ [EvTxExec (mg_Up bad) [] (Inl cause)]
              \<and> err = ErrWrap (''failed to apply migration '' @ mg_Name bad) cause
            \<or> (\<exists>res t.
                 tr' = tr @ ?ok @ [EvTxExec (mg_Up bad) [] (Inr res),
                                   EvTxExec (mark_applied_query (tableName m))
                                     [VTime t, VInt (mg_ID bad)] (Inl cause)]
                 \<and> err = ErrWrap (''failed to mark migration '' @ mg_Name bad
                                    @ '' as applied'') cause)"
        using h(5) unfolding pre by auto
      show ?thesis
        using a b c d f by blast
    qed
  qed
qed

lemma foldl_tx_step_execs:
  "list_all is_tx_exec body \<Longrightarrow>
   \<exists>b'. foldl tx_step (Some b, kept) body = (Some b', kept)
        \<and> (list_all is_tx_ok body \<longrightarrow> b' = b @ tx_calls body)"
proof (induction body arbitrary: b)
  case Nil
  then show ?case by simp
next
  case (Cons ev body)
  then obtain q a r where ev: "ev = EvTxExec q a r" by (cases ev) auto
  show ?case
  proof (cases r)
    case (Inl x)
    with ev Cons show ?thesis by auto
  next
    case (Inr x)
    with ev Cons.prems Cons.IH [of "b @ [(q, a)]"] show ?thesis by auto
  qed
qed

lemma retained_append:
  "retained (tr @ evs) = snd (foldl tx_step (foldl tx_step (None, []) tr) evs)"
  by (simp add: retained_def)

lemma foldl_tx_step_kept: "\<exists>buf. foldl tx_step (None, []) tr = (buf, retained tr)"
  by (simp add: retained_def) (metis prod.collapse)

lemma retained_rolled_back:
  assumes "list_all is_tx_exec body"
  shows "retained (tr @ [EvBegin None] @ body @ [EvRollback rb]) = retained tr"
proof -
  obtain buf where s: "foldl tx_step (None, []) tr = (buf, retained tr)"
    using foldl_tx_step_kept by blast
  obtain b' where "foldl tx_step (Some [], retained tr) body = (Some b', retained tr)"
    using foldl_tx_step_execs [OF assms] by blast
  then show ?thesis by (simp add: retained_append s)
qed

lemma retained_committed:
  assumes "list_all is_tx_ok body"
  shows "retained (tr @ [EvBegin None] @ body @ [EvCommit None, EvRollback rb])
         = retained tr @ tx_calls body"
proof -
  obtain buf where s: "foldl tx_step (None, []) tr = (buf, retained tr)"
    using foldl_tx_step_kept by blast
  have "foldl tx_step (Some [], retained tr) body = (Some (tx_calls body), retained tr)"
    using foldl_tx_step_execs [OF list_all_ok_exec [OF assms], of "[]" "retained tr"] assms
    by auto
  then show ?thesis by (simp add: retained_append s)
qed

lemma retained_commit_failed:
  assumes "list_all is_tx_exec body"
  shows "retained (tr @ [EvBegin None] @ body @ [EvCommit (Some err), EvRollback rb])
         = retained tr"
proof -
  obtain buf where s: "foldl tx_step (None, []) tr = (buf, retained tr)"
    using foldl_tx_step_kept by blast
  obtain b' where "foldl tx_step (Some [], retained tr) body = (Some b', retained tr)"
    using foldl_tx_step_execs [OF assms] by blast
  then show ?thesis by (simp add: retained_append s)
qed

lemma GetPendingMigrations_rows:
  "GetPendingMigrations e m tr1 = (Inr migs, tr2) \<Longrightarrow>
   \<exists>rows. tr2 = tr1 @ [EvQuery (pending_query (tableName m)) [] (Inr rows)]
          \<and> scan_migrations (Scans rows) = Inr migs \<and> RowsErr rows = None"
  by (auto simp: GetPendingMigrations_def query_migrations_def QueryContext_def Let_def
           split: sum.splits option.splits)


lemma pending_query_order:
  "\<exists>pre. pending_query tn = pre @ ''WHERE applied_at IS NULL'' @ nl2 @ ''ORDER BY id ASC''"
  unfolding pending_query_def
  by (rule exI [of _ "''SELECT id, name, description, up, down, created_at, applied_at''
                        @ nl2 @ ''FROM '' @ tn @ nl2"]) simp

text \<open>
  Claim C5: \<open>MigrateUp\<close> loads the pending migrations in ascending order of id, runs
  every up script and the update that marks it applied inside one transaction, and on the
  failure of any statement aborts the transaction, so that nothing of the run is retained,
  and returns an error that names the offending migration.

  Once the ledger table is ensured, the pending migrations are read and the transaction
  has begun: the migrations are the rows the storage returned for the query that ends in
  \<open>WHERE applied_at IS NULL ORDER BY id ASC\<close>, in that order; between the one \<open>Begin\<close> and
  the end of the call the trace holds statements of that transaction only. When the call
  succeeds, these are the two statements of every migration in order, followed by a
  successful commit, and the storage retains them. When it fails, the storage retains
  what it retained before the transaction. Unless the commit itself failed, the list of
  migrations then splits at the offending one, \<open>bad\<close>: the statements before the failure
  are the two statements of every migration listed before \<open>bad\<close>, in order and all
  successful; the statement that failed is either the up script of \<open>bad\<close>, and the error
  is \<open>failed to apply migration\<close> with the name of \<open>bad\<close>, or, after that up script has
  succeeded, the update marking \<open>bad\<close> (by its id) as applied, and the error is
  \<open>failed to mark migration ... as applied\<close> with the name of \<open>bad\<close>; no statement of a
  later migration is issued, and the transaction is rolled back without a commit.
\<close>

theorem MigrateUp_single_transaction:
  assumes "CreateMigrationsTable e m tr = (None, tr1)"
      and "GetPendingMigrations e m tr1 = (Inr migs, tr2)"
      and "db_begin e tr2 = None"
      and "MigrateUp e m tr = (r, tr')"
  shows "(\<exists>rows pre. tr2 = tr1 @ [EvQuery (pending_query (tableName m)) [] (Inr rows)]
                 \<and> pending_query (tableName m)
                     = pre @ ''WHERE applied_at IS NULL'' @ nl2 @ ''ORDER BY id ASC''
                 \<and> scan_migrations (Scans rows) = Inr migs)
       \<and> (\<exists>body ending rb.
            tr' = tr2 @ [EvBegin None] @ body @ ending \<and> list_all is_tx_exec body
            \<and> (r = None \<longrightarrow>
                 ending = [EvCommit None, EvRollback rb] \<and> list_all is_tx_ok body
                 \<and> (\<exists>ts. length ts = length migs
                          \<and> tx_calls body = planned (tableName m) (zip migs ts))
                 \<and> retained tr' = retained tr2 @ tx_calls body)
            \<and> (\<forall>err. r = Some err \<longrightarrow>
                 retained tr' = retained tr2
                 \<and> (ending = [EvCommit (Some err), EvRollback rb]
                    \<or> ending = [EvRollback rb]
                      \<and> (\<exists>done bad rest ts ok cause.
                            migs = done @ bad # rest \<and> length ts = length done
                            \<and> list_all is_tx_ok ok
                            \<and> tx_calls ok = planned (tableName m) (zip done ts)
                            \<and> (body = ok @ [EvTxExec (mg_Up bad) [] (Inl cause)]
                                 \<and> err = ErrWrap (''failed to apply migration ''
                                                    @ mg_Name bad) cause
                               \<or> (\<exists>res t.
                                     body = ok @ [EvTxExec (mg_Up bad) [] (Inr res),
                                                  EvTxExec (mark_applied_query (tableName m))
                                                    [VTime t, VInt (mg_ID bad)] (Inl cause)]
                                     \<and> err = ErrWrap (''failed to mark migration ''
                                                @ mg_Name bad @ '' as applied'') cause))))))"
proof
  show "\<exists>rows pre. tr2 = tr1 @ [EvQuery (pending_query (tableName m)) [] (Inr rows)]
                 \<and> pending_query (tableName m)
                     = pre @ ''WHERE applied_at IS NULL'' @ nl2 @ ''ORDER BY id ASC''
                 \<and> scan_migrations (Scans rows) = Inr migs"
    using GetPendingMigrations_rows [OF assms(2)] pending_query_order [of "tableName m"]
    by blast
next
  let ?tr3 = "tr2 @ [EvBegin None]"
  let ?tn = "tableName m"
  let ?P = "\<lambda>err body. \<exists>done bad rest ts ok cause.
                            migs = done @ bad # rest \<and> length ts = length done
                            \<and> list_all is_tx_ok ok
                            \<and> tx_calls ok = planned ?tn (zip done ts)
                            \<and> (body = ok @ [EvTxExec (mg_Up bad) [] (Inl cause)]
                                 \<and> err = ErrWrap (''failed to apply migration ''
                                                    @ mg_Name bad) cause
                               \<or> (\<exists>res t.
                                     body = ok @ [EvTxExec (mg_Up bad) [] (Inr res),
                                                  EvTxExec (mark_applied_query ?tn)
                                                    [VTime t, VInt (mg_ID bad)] (Inl cause)]
                                     \<and> err = ErrWrap (''failed to mark migration ''
                                                @ mg_Name bad @ '' as applied'') cause))"
  obtain ra tr4 where loop: "apply_migrations e m migs ?tr3 = (ra, tr4)"
    by (cases "apply_migrations e m migs ?tr3") auto
  have "\<exists>body ending rb.
            tr' = tr2 @ [EvBegin None] @ body @ ending \<and> list_all is_tx_exec body
            \<and> (r = None \<longrightarrow>
                 ending = [EvCommit None, EvRollback rb] \<and> list_all is_tx_ok body
                 \<and> (\<exists>ts. length ts = length migs
                          \<and> tx_calls body = planned ?tn (zip migs ts))
                 \<and> retained tr' = retained tr2 @ tx_calls body)
            \<and> (\<forall>err. r = Some err \<longrightarrow>
                 retained tr' = retained tr2
                 \<and> (ending = [EvCommit (Some err), EvRollback rb]
                    \<or> ending = [EvRollback rb] \<and> ?P err body))"
  proof (cases ra)
    case None
    from apply_migrations_ok [OF loop [unfolded None]] obtain body ts where
      b: "tr4 = ?tr3 @ body" "list_all is_tx_ok body" "length ts = length migs"
         "tx_calls body = planned ?tn (zip migs ts)"
      by blast
    let ?c = "tx_commit e tr4"
    let ?rb = "tx_rollback e (tr4 @ [EvCommit ?c])"
    have res: "r = ?c" "tr' = tr2 @ [EvBegin None] @ body @ [EvCommit ?c, EvRollback ?rb]"
      using assms loop None b(1)
      by (auto simp: MigrateUp_def BeginTx_def Commit_def Rollback_def Let_def)
    have ex: "list_all is_tx_exec body" using b(2) by (rule list_all_ok_exec)
    show ?thesis
    proof (cases ?c)
      case None
      have "retained tr' = retained tr2 @ tx_calls body"
        unfolding res(2) None using retained_committed [OF b(2)] by simp
      then show ?thesis
        using res None b ex
        by (intro exI [of _ body] exI [of _ "[EvCommit None, EvRollback ?rb]"] exI [of _ ?rb])
           auto
    next
      case (Some cerr)
      have "retained tr' = retained tr2"
        unfolding res(2) Some using retained_commit_failed [OF ex] by simp
      then show ?thesis
        using res Some ex
        by (intro exI [of _ body] exI [of _ "[EvCommit (Some cerr), EvRollback ?rb]"]
              exI [of _ ?rb]) auto
    qed
  next
    case (Some err)
    from apply_migrations_failed [OF loop [unfolded Some]] obtain dn bad rst ts ok cause where
      h: "migs = dn @ bad # rst" "length ts = length dn" "list_all is_tx_ok ok"
         "tx_calls ok = planned ?tn (zip dn ts)"
         "tr4 = ?tr3 @ ok @ [EvTxExec (mg_Up bad) [] (Inl cause)]
            \<and> err = ErrWrap (''failed to apply migration '' @ mg_Name bad) cause
          \<or> (\<exists>res t.
               tr4 = ?tr3 @ ok @ [EvTxExec (mg_Up bad) [] (Inr res),
                                 EvTxExec (mark_applied_query ?tn)
                                   [VTime t, VInt (mg_ID bad)] (Inl cause)]
               \<and> err = ErrWrap (''failed to mark migration '' @ mg_Name bad
                                  @ '' as applied'') cause)"
      by blast
    obtain body where body: "tr4 = ?tr3 @ body" and last: "list_all is_tx_exec body"
      and shape: "body = ok @ [EvTxExec (mg_Up bad) [] (Inl cause)]
            \<and> err = ErrWrap (''failed to apply migration '' @ mg_Name bad) cause
          \<or> (\<exists>res t.
               body = ok @ [EvTxExec (mg_Up bad) [] (Inr res),
                            EvTxExec (mark_applied_query ?tn)
                              [VTime t, VInt (mg_ID bad)] (Inl cause)]
               \<and> err = ErrWrap (''failed to mark migration '' @ mg_Name bad
                                  @ '' as applied'') cause)"
      using h(5) list_all_ok_exec [OF h(3)] by auto
    let ?rb = "tx_rollback e tr4"
    have res: "r = Some err" "tr' = tr2 @ [EvBegin None] @ body @ [EvRollback ?rb]"
      using assms loop Some body
      by (auto simp: MigrateUp_def BeginTx_def Rollback_def Let_def)
    have kept: "retained tr' = retained tr2"
      unfolding res(2) using retained_rolled_back [OF last] by simp
    have P: "?P err body"
      using h(1,2,3,4) shape by blast
    show ?thesis
      using res kept last P
      by (intro exI [of _ body] exI [of _ "[EvRollback ?rb]"] exI [of _ ?rb]) simp
  qed
  then show "\<exists>body ending rb.
            tr' = tr2 @ [EvBegin None] @ body @ ending \<and> list_all is_tx_exec body
            \<and> (r = None \<longrightarrow>
                 ending = [EvCommit None, EvRollback rb] \<and> list_all is_tx_ok body
                 \<and> (\<exists>ts. length ts = length migs
                          \<and> tx_calls body = planned (tableName m) (zip migs ts))
                 \<and> retained tr' = retained tr2 @ tx_calls body)
            \<and> (\<forall>err. r = Some err \<longrightarrow>
                 retained tr' = retained tr2
                 \<and> (ending = [EvCommit (Some err), EvRollback rb]
                    \<or> ending = [EvRollback rb]
                      \<and> (\<exists>done bad rest ts ok cause.
                            migs = done @ bad # rest \<and> length ts = length done
                            \<and> list_all is_tx_ok ok
                            \<and> tx_calls ok = planned (tableName m) (zip done ts)
                            \<and> (body = ok @ [EvTxExec (mg_Up bad) [] (Inl cause)]
                                 \<and> err = ErrWrap (''failed to apply migration ''
                                                    @ mg_Name bad) cause
                               \<or> (\<exists>res t.
                                     body = ok @ [EvTxExec (mg_Up bad) [] (Inr res),
                                                  EvTxExec (mark_applied_query (tableName m))
                                                    [VTime t, VInt (mg_ID bad)] (Inl cause)]
                                     \<and> err = ErrWrap (''failed to mark migration ''
                                                @ mg_Name bad @ '' as applied'') cause)))))"
    by simp
qed

theorem MigrateUp_single_transaction_witness:
  "CreateMigrationsTable three_migrations_env (NewMigrationManager []) []
     = (None, [EvExec (create_table_query ''migrations'') [] (Inr (result_of 0 0))])
   \<and> GetPendingMigrations three_migrations_env (NewMigrationManager [])
         [EvExec (create_table_query ''migrations'') [] (Inr (result_of 0 0))]
     = (Inr [\<lparr> mg_ID = 1, mg_Name = ''create_users'', mg_Description = [],
               mg_Up = ''CREATE TABLE users (id INT)'', mg_Down = ''DROP TABLE users'',
               mg_CreatedAt = 10, mg_AppliedAt = None \<rparr>,
             \<lparr> mg_ID = 2, mg_Name = ''add_index'', mg_Description = [],
               mg_Up = ''CREATE INDEX'', mg_Down = ''DROP INDEX'',
               mg_CreatedAt = 20, mg_AppliedAt = None \<rparr>,
             \<lparr> mg_ID = 3, mg_Name = ''create_posts'', mg_Description = [],
               mg_Up = ''CREATE TABLE posts (id INT)'', mg_Down = ''DROP TABLE posts'',
               mg_CreatedAt = 30, mg_AppliedAt = None \<rparr>],
        [EvExec (create_table_query ''migrations'') [] (Inr (result_of 0 0)),
         EvQuery (pending_query ''migrations'') [] (Inr three_pending)])
   \<and> db_begin three_migrations_env
         [EvExec (create_table_query ''migrations'') [] (Inr (result_of 0 0)),
          EvQuery (pending_query ''migrations'') [] (Inr three_pending)] = None
   \<and> MigrateUp three_migrations_env (NewMigrationManager []) []
     = (Some (ErrWrap ''failed to apply migration add_index'' (ErrDriver ''syntax error'')),
        [EvExec (create_table_query ''migrations'') [] (Inr (result_of 0 0)),
         EvQuery (pending_query ''migrations'') [] (Inr three_pending),
         EvBegin None,
         EvTxExec ''CREATE TABLE users (id INT)'' [] (Inr (result_of 0 1)),
         EvTxExec (mark_applied_query ''migrations'') [VTime 4, VInt 1] (Inr (result_of 0 1)),
         EvTxExec ''CREATE INDEX'' [] (Inl (ErrDriver ''syntax error'')),
         EvRollback None])
   \<and> retained (snd (MigrateUp three_migrations_env (NewMigrationManager []) []))
     = [(create_table_query ''migrations'', [])]"
proof -
  let ?e = "three_migrations_env"
  let ?m = "NewMigrationManager []"
  let ?tr1 = "[EvExec (create_table_query ''migrations'') [] (Inr (result_of 0 0))]"
  let ?tr2 = "?tr1 @ [EvQuery (pending_query ''migrations'') [] (Inr three_pending)]"
  let ?migs = "[\<lparr> mg_ID = 1, mg_Name = ''create_users'', mg_Description = [],
               mg_Up = ''CREATE TABLE users (id INT)'', mg_Down = ''DROP TABLE users'',
               mg_CreatedAt = 10, mg_AppliedAt = None \<rparr>,
             \<lparr> mg_ID = 2, mg_Name = ''add_index'', mg_Description = [],
               mg_Up = ''CREATE INDEX'', mg_Down = ''DROP INDEX'',
               mg_CreatedAt = 20, mg_AppliedAt = None \<rparr>,
             \<lparr> mg_ID = 3, mg_Name = ''create_posts'', mg_Description = [],
               mg_Up = ''CREATE TABLE posts (id INT)'', mg_Down = ''DROP TABLE posts'',
               mg_CreatedAt = 30, mg_AppliedAt = None \<rparr>]"
  have h1: "CreateMigrationsTable ?e ?m [] = (None, ?tr1)"
    by (simp add: three_migrations_env_def migration_defs env_defs Let_def)
  have h2: "GetPendingMigrations ?e ?m ?tr1 = (Inr ?migs, ?tr2)"
    by (simp add: three_migrations_env_def three_pending_def migration_defs env_defs Let_def)
  have h3: "db_begin ?e ?tr2 = None"
    by (simp add: three_migrations_env_def migration_defs env_defs Let_def)
  have h4: "MigrateUp ?e ?m []
     = (Some (ErrWrap ''failed to apply migration add_index'' (ErrDriver ''syntax error'')),
        ?tr2 @ [EvBegin None,
         EvTxExec ''CREATE TABLE users (id INT)'' [] (Inr (result_of 0 1)),
         EvTxExec (mark_applied_query ''migrations'') [VTime 4, VInt 1] (Inr (result_of 0 1)),
         EvTxExec ''CREATE INDEX'' [] (Inl (ErrDriver ''syntax error'')),
         EvRollback None])"
    by (simp add: three_migrations_env_def three_pending_def migration_defs env_defs Let_def)
  have h5: "retained (snd (MigrateUp ?e ?m [])) = [(create_table_query ''migrations'', [])]"
    unfolding h4 by (simp add: retained_def result_of_def)
  show ?thesis
    using h1 h2 h3 h4 h5 MigrateUp_single_transaction [OF h1 h2 h3 h4] by simp
qed

text \<open>
  \<open>Connection.WithTransaction\<close> rolls back on an error return and on a panic of the
  function, and hands the error or the panic on; it commits when the function returns
  without error. \<open>MigrateDown\<close> rolls back whenever one of its two statements fails.
\<close>

lemma WithTransaction_rolls_back:
  assumes "db_begin e tr = None"
      and "fn (tr @ [EvBegin None]) = (out, tr2)"
      and "out \<noteq> Returned None"
    shows "WithTransaction e fn tr = (out, tr2 @ [EvRollback (tx_rollback e tr2)])"
proof (cases out)
  case (Returned r)
  with assms(3) obtain err where "r = Some err" by (cases r) auto
  with Returned assms show ?thesis
    by (simp add: WithTransaction_def BeginTx_def Rollback_def Let_def)
next
  case (Panicked p)
  with assms show ?thesis
    by (simp add: WithTransaction_def BeginTx_def Rollback_def Let_def)
qed

lemma WithTransaction_commits:
  assumes "db_begin e tr = None"
      and "fn (tr @ [EvBegin None]) = (Returned None, tr2)"
    shows "WithTransaction e fn tr
           = (Returned (tx_commit e tr2), tr2 @ [EvCommit (tx_commit e tr2)])"
  using assms by (simp add: WithTransaction_def BeginTx_def Commit_def Let_def)

lemma Executor_WithTransaction_panic:
  assumes "db_begin e tr = None"
      and "fn (tr @ [EvBegin None]) = (Panicked p, tr2)"
    shows "Executor_WithTransaction e fn tr = (Panicked p, tr2)"
  using assms by (simp add: Executor_WithTransaction_def BeginTx_def Let_def)

lemma MigrateDown_rolls_back:
  assumes "MigrateDown e m tr = (Some err, tr')"
      and "GetAppliedMigrations e m tr = (Inr (mg # others), tr1)"
      and "db_begin e tr1 = None"
    shows "\<exists>body end_events rb. tr' = tr1 @ [EvBegin None] @ body @ end_events
             \<and> list_all is_tx_exec body \<and> retained tr' = retained tr1
             \<and> (end_events = [EvRollback rb] \<or> end_events = [EvCommit (Some err), EvRollback rb])"
proof -
  let ?tr2 = "tr1 @ [EvBegin None]"
  let ?r3 = "tx_exec e ?tr2 (mg_Down mg) []"
  let ?ev3 = "EvTxExec (mg_Down mg) [] ?r3"
  let ?tr3 = "?tr2 @ [?ev3]"
  let ?r4 = "tx_exec e ?tr3 (mark_unapplied_query (tableName m)) [VInt (mg_ID mg)]"
  let ?ev4 = "EvTxExec (mark_unapplied_query (tableName m)) [VInt (mg_ID mg)] ?r4"
  let ?tr4 = "?tr3 @ [?ev4]"
  show ?thesis
  proof (cases ?r3)
    case (Inl c)
    then have t: "tr' = tr1 @ [EvBegin None] @ [?ev3] @ [EvRollback (tx_rollback e ?tr3)]"
      using assms by (simp add: MigrateDown_def BeginTx_def TxExecContext_def Rollback_def Let_def)
    have "retained tr' = retained tr1"
      unfolding t by (rule retained_rolled_back) simp
    with t show ?thesis
      by (intro exI [of _ "[?ev3]"] exI [of _ "[EvRollback (tx_rollback e ?tr3)]"]
            exI [of _ "tx_rollback e ?tr3"]) auto
  next
    case r3: (Inr res)
    show ?thesis
    proof (cases ?r4)
      case (Inl c)
      then have t: "tr' = tr1 @ [EvBegin None] @ [?ev3, ?ev4] @ [EvRollback (tx_rollback e ?tr4)]"
        using assms r3
        by (simp add: MigrateDown_def BeginTx_def TxExecContext_def Rollback_def Let_def)
      have "retained tr' = retained tr1"
        unfolding t by (rule retained_rolled_back) simp
      with t show ?thesis
        by (intro exI [of _ "[?ev3, ?ev4]"] exI [of _ "[EvRollback (tx_rollback e ?tr4)]"]
              exI [of _ "tx_rollback e ?tr4"]) auto
    next
      case r4: (Inr res')
      let ?c = "tx_commit e ?tr4"
      have c: "?c = Some err"
        and t: "tr' = tr1 @ [EvBegin None] @ [?ev3, ?ev4]
                  @ [EvCommit (Some err), EvRollback (tx_rollback e (?tr4 @ [EvCommit ?c]))]"
        using assms r3 r4
        by (auto simp: MigrateDown_def BeginTx_def TxExecContext_def Rollback_def Commit_def
              Let_def)
      have "retained tr' = retained tr1"
        unfolding t by (rule retained_commit_failed) simp
      with t show ?thesis
        by (intro exI [of _ "[?ev3, ?ev4]"]
              exI [of _ "[EvCommit (Some err), EvRollback (tx_rollback e (?tr4 @ [EvCommit ?c]))]"]
              exI [of _ "tx_rollback e (?tr4 @ [EvCommit ?c])"]) auto
    qed
  qed
qed

text \<open>
  Claim C6: every transactional block (\<open>MigrateUp\<close>, \<open>MigrateDown\<close>, any function run
  under \<open>WithTransaction\<close>) runs inside one transaction, and the rollback occurs on every
  exit path of the body, a panic included, before the error or panic reaches the caller.
  \<open>Connection.WithTransaction\<close> and the two migration functions do so (lemmas above and
  \<open>MigrateUp_single_transaction\<close>). \<open>Executor.WithTransaction\<close> of the query package does
  not: run on a function that executes a statement and panics, it begins the transaction
  and lets the panic through with no rollback; the trace ends in the statement. The same
  function under \<open>Connection.WithTransaction\<close> is rolled back.
\<close>

theorem Executor_WithTransaction_panic_without_rollback:
  "Executor_WithTransaction migration_env (panicking_fn migration_env) []
     = (Panicked ''boom'',
        [EvBegin None,
         EvTxExec ''INSERT INTO posts (title) VALUES (?)'' [VStr ''x''] (Inr (result_of 0 1))])
   \<and> WithTransaction migration_env (panicking_fn migration_env) []
     = (Panicked ''boom'',
        [EvBegin None,
         EvTxExec ''INSERT INTO posts (title) VALUES (?)'' [VStr ''x''] (Inr (result_of 0 1)),
         EvRollback None])"
  by (simp add: Executor_WithTransaction_def WithTransaction_def panicking_fn_def
        migration_env_def env_defs Let_def)

section \<open>Preloading\<close>

lemma preload_elems_structs:
  "list_all is_struct elems \<Longrightarrow>
   fst (snd (preload_elems e elems rels tr)) = elems
   \<and> fst (preload_elems e elems rels tr) = fst (preload_elems e (map VPtr elems) rels tr)
   \<and> snd (snd (preload_elems e elems rels tr))
       = snd (snd (preload_elems e (map VPtr elems) rels tr))"
proof (induction elems arbitrary: tr)
  case Nil
  then show ?case by simp
next
  case (Cons x xs)
  then obtain si fs where x: "x = VStruct si fs" by (cases x) auto
  obtain err copy' tr' where p: "preload_record e (VPtr x) rels tr = (err, copy', tr')"
    by (cases "preload_record e (VPtr x) rels tr") auto
  show ?case
  proof (cases err)
    case (Some a)
    with p x show ?thesis by simp
  next
    case None
    from Cons have xs: "list_all is_struct xs" by simp
    obtain err2 rest2 tr2 where q: "preload_elems e xs rels tr' = (err2, rest2, tr2)"
      by (cases "preload_elems e xs rels tr'") auto
    obtain err3 rest3 tr3 where r: "preload_elems e (map VPtr xs) rels tr' = (err3, rest3, tr3)"
      by (cases "preload_elems e (map VPtr xs) rels tr'") auto
    from Cons.IH [OF xs, of tr'] q r have "rest2 = xs" "err2 = err3" "tr2 = tr3" by simp_all
    with p x None q r show ?thesis by simp
  qed
qed

text \<open>
  Claim C10: when the source of \<open>Preload\<close> is a slice of structs held by value, or a
  pointer to one, the slice is the same after the call. The relationships are loaded all
  the same: the call returns the error and leaves the trace that it does on the slice of
  pointers to copies of the elements; what was loaded onto the copies is not written back.
\<close>

theorem Preload_slice_of_structs_unchanged:
  assumes "list_all is_struct elems"
      and "source = VSlice (TStruct n) elems \<or> source = VPtr (VSlice (TStruct n) elems)"
    shows "fst (snd (Preload e source rels tr)) = source
         \<and> fst (Preload e source rels tr)
             = fst (Preload e (VSlice (TPtr (TStruct n)) (map VPtr elems)) rels tr)
         \<and> snd (snd (Preload e source rels tr))
             = snd (snd (Preload e (VSlice (TPtr (TStruct n)) (map VPtr elems)) rels tr))"
proof -
  obtain err elems' tr' where p: "preload_elems e elems rels tr = (err, elems', tr')"
    by (cases "preload_elems e elems rels tr") auto
  obtain err2 elems2 tr2 where
    q: "preload_elems e (map VPtr elems) rels tr = (err2, elems2, tr2)"
    by (cases "preload_elems e (map VPtr elems) rels tr") auto
  from preload_elems_structs [OF assms(1), of e rels tr] p q
  have same: "elems' = elems" "err = err2" "tr' = tr2" by simp_all
  have ptrs: "Preload e (VSlice (TPtr (TStruct n)) (map VPtr elems)) rels tr
              = (err2, VSlice (TPtr (TStruct n)) elems2, tr2)"
    using q by (simp add: Preload_def static_type_def)
  from assms(2) show ?thesis
  proof
    assume "source = VSlice (TStruct n) elems"
    then have "Preload e source rels tr = (err, source, tr')"
      using p same by (simp add: Preload_def static_type_def)
    with ptrs same show ?thesis by simp
  next
    assume "source = VPtr (VSlice (TStruct n) elems)"
    then have "Preload e source rels tr = (err, source, tr')"
      using p same by (simp add: Preload_def static_type_def)
    with ptrs same show ?thesis by simp
  qed
qed

theorem Preload_slice_of_structs_unchanged_witness:
  "list_all is_struct [Author 1 ''ann'' no_posts]
   \<and> Preload (fixed_env (Inr (result_of 7 1)) (Inr one_post) (Inl ErrNoRows))
        (VPtr (VSlice (TStruct ''Author'') [Author 1 ''ann'' no_posts]))
        [(''Posts'', posts_of_author)] []
     = (None, VPtr (VSlice (TStruct ''Author'') [Author 1 ''ann'' no_posts]),
        [EvQuery ''SELECT * FROM posts WHERE author_id = ?'' [VInt 1] (Inr one_post)])"
proof -
  let ?e = "fixed_env (Inr (result_of 7 1)) (Inr one_post) (Inl ErrNoRows)"
  let ?src = "VPtr (VSlice (TStruct ''Author'') [Author 1 ''ann'' no_posts])"
  let ?rels = "[(''Posts'', posts_of_author)]"
  have s: "list_all is_struct [Author 1 ''ann'' no_posts]"
    by (simp add: Author_def)
  have unchanged: "fst (snd (Preload ?e ?src ?rels [])) = ?src"
    using Preload_slice_of_structs_unchanged [OF s, of ?src "''Author''"] by simp
  have rest: "fst (Preload ?e ?src ?rels []) = None
              \<and> snd (snd (Preload ?e ?src ?rels []))
                  = [EvQuery ''SELECT * FROM posts WHERE author_id = ?'' [VInt 1] (Inr one_post)]"
    by (simp add: Preload_def preload_record_def preloadHasMany_def preload_prelude_def
          collect_many_def scan_cells_def new_related_def Interface_def assignable_def
          validateRelationship_def posts_of_author_def Author_def Post_def no_posts_def
          no_author_def no_tags_def one_post_def static_type_def HasMany_def HasOne_def
          BelongsTo_def ManyToMany_def toFieldName_def Title_def isSeparator_def
          upper_char_def lower_char_def is_digit_def is_lower_def EqualFold_def ToLower_def
          CanSet_def Convert_def FieldByName_def model_defs env_defs qb_defs)
  show ?thesis
    using s unchanged rest by (simp add: prod_eq_iff)
qed

lemma find_field_set_field:
  "find_field n fs = Some f \<Longrightarrow>
   find_field n (set_field n x fs) = Some (Field (f_name f) (f_type f) (f_tag f) x)"
  by (induction fs) (auto split: if_splits)

lemma find_field_set_other:
  "n \<noteq> k \<Longrightarrow> find_field n (set_field k x fs) = find_field n fs"
  by (induction fs) auto

lemma FieldByName_with_field:
  assumes "FieldByName (deref source) n = Some f"
      and "source = VPtr v \<or> source = v"
      and "\<not> is_ptr v"
    shows "FieldByName (deref (with_field n x source)) n
           = Some (Field (f_name f) (f_type f) (f_tag f) x)"
proof -
  from assms obtain si fs where v: "v = VStruct si fs" and ff: "find_field n fs = Some f"
    by (cases v) (auto simp: FieldByName_def split: option.splits)
  from assms(2) v ff show ?thesis
    by (auto simp: FieldByName_def find_field_set_field)
qed

text \<open>
  Claim C7, as the specification states it: for every source record, preloading a
  \<open>HasMany\<close> relationship with zero matching child rows succeeds without error and leaves
  the destination field an empty collection, never a nil one.

  It fails on two records. An author passed by value: the query is sent and returns no
  row, then \<open>field.CanSet()\<close> refuses the destination, the call returns
  \<open>field Posts is not settable\<close> and \<open>Posts\<close> is still the nil slice. A writer whose key
  is in the field \<open>ID\<close>: the key is looked up under \<open>toFieldName("id")\<close>, which is \<open>Id\<close>,
  so the call returns \<open>primary key field id not found in source model\<close> before any query
  and \<open>Articles\<close> is still the nil slice.
\<close>

theorem preloadHasMany_zero_rows_counterexample:
  "preloadHasMany (fixed_env (Inr (result_of 7 1)) (Inr no_rows) (Inl ErrNoRows))
     (Author 1 ''ann'' no_posts) ''Posts'' posts_of_author []
     = (Some (ErrNew ''field Posts is not settable''), Author 1 ''ann'' no_posts,
        [EvQuery ''SELECT * FROM posts WHERE author_id = ?'' [VInt 1] (Inr no_rows)])
   \<and> Scans no_rows = []
   \<and> preloadHasMany (fixed_env (Inr (result_of 7 1)) (Inr no_rows) (Inl ErrNoRows))
       (VPtr (Writer 1 ''ann'' no_articles)) ''Articles'' articles_of_writer []
     = (Some (ErrNew ''primary key field id not found in source model''),
        VPtr (Writer 1 ''ann'' no_articles), [])"
  by (simp add: preloadHasMany_def preload_prelude_def collect_many_def new_related_def
        Interface_def not_settable_def key_not_found_def posts_of_author_def
        articles_of_writer_def Author_def Post_def Writer_def Article_def no_posts_def
        no_author_def no_tags_def no_writer_def no_articles_def static_type_def
        CanSet_def FieldByName_def field_name_defs model_defs env_defs qb_defs)

text \<open>
  Claim C7, amended: for a source record passed by pointer, whose key is in the exported
  field named \<open>toFieldName\<close> of the key column and whose destination is an exported field of
  slice type, with a relationship that names a related struct type: when the storage
  answers the query \<open>SELECT * FROM related WHERE foreign_key = ?\<close> (one argument, the
  source's key) with readable columns, no row and no iteration error, \<open>preloadHasMany\<close>
  sends this one query, returns no error, and the destination field afterwards holds the
  empty, non-nil slice.
\<close>

theorem preloadHasMany_zero_rows:
  assumes "source = VPtr (VStruct si fs)"
      and "extractModelInfo source = Inr info"
      and "find_field (toFieldName (PrimaryKey info)) fs = Some pkField"
      and "IsExported (f_name pkField)"
      and "new_related e (rel_Model rel) = Inr (relType, relZero)"
      and "extractModelInfo (VPtr relZero) = Inr relInfo"
      and "find_field field fs = Some f"
      and "f_type f = TSlice elemT"
      and "IsExported field"
      and "q = ''SELECT * FROM '' @ TableName relInfo @ '' WHERE '' @ rel_ForeignKey rel
                @ '' = ?''"
      and "db_query e tr q [f_val pkField] = Inr rows"
      and "Columns rows = Inr columns"
      and "Scans rows = []"
      and "RowsErr rows = None"
    shows "\<exists>source' g.
             preloadHasMany e source field rel tr
               = (None, source', tr @ [EvQuery q [f_val pkField] (Inr rows)])
           \<and> FieldByName (deref source') field = Some g
           \<and> f_val g = VSlice elemT [] \<and> \<not> value_is_nil (f_val g)"
proof -
  let ?source' = "VPtr (VStruct si (set_field field (VSlice elemT []) fs))"
  let ?g = "Field (f_name f) (f_type f) (f_tag f) (VSlice elemT [])"
  have prelude: "preload_prelude e source rel = Inr (f_val pkField, relType, relZero, relInfo)"
    using assms(1-6) by (simp add: preload_prelude_def Interface_def)
  have build: "qb_Build kvs (qb_Where (rel_ForeignKey rel @ '' = ?'') [f_val pkField]
                  (qb_Select [] (NewQueryBuilder (TableName relInfo))))
               = (q, [f_val pkField])" for kvs
    unfolding assms(10) by (simp add: qb_defs)
  have collect: "collect_many e source field relZero relInfo rows = (None, ?source')"
    using assms(1,7,8,9,12,13,14)
    by (simp add: collect_many_def FieldByName_def CanSet_def)
  have run: "preloadHasMany e source field rel tr
               = (None, ?source', tr @ [EvQuery q [f_val pkField] (Inr rows)])"
    by (simp add: preloadHasMany_def prelude build QueryContext_def assms(11) collect Let_def)
  have fld: "FieldByName (deref ?source') field = Some ?g"
    using find_field_set_field [OF assms(7)] by (simp add: FieldByName_def)
  show ?thesis
    using run fld by (intro exI [of _ ?source'] exI [of _ ?g]) simp
qed

theorem preloadHasMany_zero_rows_witness:
  "preloadHasMany (fixed_env (Inr (result_of 7 1)) (Inr no_rows) (Inl ErrNoRows))
     (VPtr (Author 1 ''ann'' no_posts)) ''Posts'' posts_of_author []
     = (None, VPtr (Author 1 ''ann'' (VSlice (TStruct ''Post'') [])),
        [EvQuery ''SELECT * FROM posts WHERE author_id = ?'' [VInt 1] (Inr no_rows)])
   \<and> Scans no_rows = [] \<and> RowsErr no_rows = None
   \<and> VSlice (TStruct ''Post'') [] \<noteq> no_posts"
proof -
  let ?e = "fixed_env (Inr (result_of 7 1)) (Inr no_rows) (Inl ErrNoRows)"
  let ?si = "SInfo ''Author'' (Some (True, ''authors'', ''id''))"
  let ?fs = "[Field ''Id'' TInt ''id,pk,auto'' (VInt 1),
              Field ''Name'' TString ''name'' (VStr ''ann''),
              Field ''Posts'' (TSlice (TStruct ''Post'')) ''-'' no_posts]"
  let ?src = "VPtr (Author 1 ''ann'' no_posts)"
  let ?pk = "Field ''Id'' TInt ''id,pk,auto'' (VInt 1)"
  let ?f = "Field ''Posts'' (TSlice (TStruct ''Post'')) ''-'' no_posts"
  let ?q = "''SELECT * FROM posts WHERE author_id = ?''"
  have h1: "?src = VPtr (VStruct ?si ?fs)"
    by (simp add: Author_def)
  have "\<exists>info. extractModelInfo ?src = Inr info \<and> PrimaryKey info = ''id''"
    by (simp add: Author_def model_defs)
  then obtain info where h2: "extractModelInfo ?src = Inr info" and pk: "PrimaryKey info = ''id''"
    by blast
  have h3: "find_field (toFieldName (PrimaryKey info)) ?fs = Some ?pk"
    unfolding pk by (simp add: field_name_defs)
  have h4: "IsExported (f_name ?pk)"
    by (simp add: model_defs)
  have "\<exists>relType relZero relInfo.
          new_related ?e (rel_Model posts_of_author) = Inr (relType, relZero)
          \<and> extractModelInfo (VPtr relZero) = Inr relInfo \<and> TableName relInfo = ''posts''"
    by (simp add: new_related_def posts_of_author_def Post_def no_author_def no_tags_def
          static_type_def model_defs)
  then obtain relType relZero relInfo where
    h5: "new_related ?e (rel_Model posts_of_author) = Inr (relType, relZero)"
    and h6: "extractModelInfo (VPtr relZero) = Inr relInfo"
    and tn: "TableName relInfo = ''posts''"
    by blast
  have h7: "find_field ''Posts'' ?fs = Some ?f"
    by simp
  have h8: "f_type ?f = TSlice (TStruct ''Post'')"
    by simp
  have h9: "IsExported ''Posts''"
    by (simp add: model_defs)
  have h10: "?q = ''SELECT * FROM '' @ TableName relInfo @ '' WHERE ''
                   @ rel_ForeignKey posts_of_author @ '' = ?''"
    unfolding tn by (simp add: posts_of_author_def)
  have h11: "db_query ?e [] ?q [f_val ?pk] = Inr no_rows"
    by (simp add: env_defs)
  have h12: "Columns no_rows = Inr [''id'']"
    by (simp add: no_rows_def)
  have h13: "Scans no_rows = []"
    by (simp add: no_rows_def)
  have h14: "RowsErr no_rows = None"
    by (simp add: no_rows_def)
  from preloadHasMany_zero_rows [OF h1 h2 h3 h4 h5 h6 h7 h8 h9 h10 h11 h12 h13 h14]
  obtain source' g where
    r: "preloadHasMany ?e ?src ''Posts'' posts_of_author []
          = (None, source', [] @ [EvQuery ?q [f_val ?pk] (Inr no_rows)])"
    by blast
  have s: "source' = VPtr (Author 1 ''ann'' (VSlice (TStruct ''Post'') []))"
    using r
    by (simp add: preloadHasMany_def preload_prelude_def collect_many_def new_related_def
          Interface_def posts_of_author_def Author_def Post_def no_posts_def
          no_author_def no_tags_def static_type_def
          CanSet_def FieldByName_def field_name_defs model_defs env_defs qb_defs)
  show ?thesis
    using r s h13 h14 by (simp add: no_posts_def)
qed

section \<open>Nested deletion\<close>

lemma exec_affected_extends:
  "\<exists>s. snd (exec_affected e q a tr) = tr @ s"
  by (simp add: exec_affected_def ExecContext_def Let_def split: sum.splits)

lemma Delete_extends:
  "\<exists>s. snd (Delete e model tr) = tr @ s"
proof -
  have "snd (Delete e model tr) = tr \<or> (\<exists>q a. Delete e model tr = exec_affected e q a tr)"
    by (simp add: Delete_def Let_def split: sum.splits prod.splits) blast
  then show ?thesis using exec_affected_extends by (metis append_Nil2)
qed

lemma delete_related_extends:
  "\<exists>s. snd (delete_related e rel ids tr) = tr @ s"
  by (simp add: delete_related_def ExecContext_def Let_def split: sum.splits prod.splits)

lemma nestedDeleteChildren_extends:
  "\<exists>s. snd (nestedDeleteChildren e source field rel opts tr) = tr @ s"
  by (simp add: nestedDeleteChildren_def ExecContext_def Let_def
           split: sum.splits prod.splits option.splits)

lemma nestedDeleteManyToMany_extends:
  "\<exists>s. snd (nestedDeleteManyToMany e source field rel opts tr) = tr @ s"
proof -
  have r: "\<And>ids t. \<exists>s. snd (delete_related e rel ids (tr @ t)) = tr @ s"
    using delete_related_extends [of e rel _ "tr @ _"] by (metis append.assoc)
  show ?thesis
    using r
    by (simp add: nestedDeleteManyToMany_def ExecContext_def QueryContext_def Let_def
             split: sum.splits prod.splits option.splits)
qed

lemma delete_rels_extends:
  "\<exists>s. snd (delete_rels e model rels opts tr) = tr @ s"
proof (induction rels arbitrary: tr)
  case Nil
  show ?case by simp
next
  case (Cons p rels)
  obtain field rel where p: "p = (field, rel)" by (cases p) auto
  define step where
    "step = (if rel_Type rel = HasOne then nestedDeleteHasOne e model field rel opts tr
             else if rel_Type rel = HasMany then nestedDeleteHasMany e model field rel opts tr
             else if rel_Type rel = ManyToMany
                  then nestedDeleteManyToMany e model field rel opts tr
             else (None, tr))"
  have "\<exists>s. snd step = tr @ s"
    using nestedDeleteChildren_extends [of e model field rel opts tr]
          nestedDeleteManyToMany_extends [of e model field rel opts tr]
    by (simp add: step_def nestedDeleteHasOne_def nestedDeleteHasMany_def)
  then obtain s where s: "snd step = tr @ s" by blast
  obtain s' where s': "snd (delete_rels e model rels opts (tr @ s)) = (tr @ s) @ s'"
    using Cons.IH by blast
  have "delete_rels e model (p # rels) opts tr =
          (case step of (Some err, tr') \<Rightarrow> (Some err, tr')
           | (None, tr') \<Rightarrow> delete_rels e model rels opts tr')"
    by (simp add: p step_def)
  with s s' show ?case
    by (cases step) (auto split: option.splits)
qed

lemma delete_rels_append:
  "delete_rels e model (xs @ ys) opts tr =
     (case delete_rels e model xs opts tr of
        (Some err, tr') \<Rightarrow> (Some err, tr')
      | (None, tr') \<Rightarrow> delete_rels e model ys opts tr')"
proof (induction xs arbitrary: tr)
  case Nil
  show ?case by simp
next
  case (Cons p xs)
  obtain field rel where p: "p = (field, rel)" by (cases p) auto
  define step where
    "step = (if rel_Type rel = HasOne then nestedDeleteHasOne e model field rel opts tr
             else if rel_Type rel = HasMany then nestedDeleteHasMany e model field rel opts tr
             else if rel_Type rel = ManyToMany
                  then nestedDeleteManyToMany e model field rel opts tr
             else (None, tr))"
  have unfold: "\<And>rest. delete_rels e model (p # rest) opts tr =
          (case step of (Some err, tr') \<Rightarrow> (Some err, tr')
           | (None, tr') \<Rightarrow> delete_rels e model rest opts tr')"
    by (simp add: p step_def)
  obtain r t where st: "step = (r, t)" by (cases step) auto
  show ?case
    using Cons.IH [of t] unfolding append_Cons unfold st
    by (cases r) simp_all
qed

lemma nestedDeleteManyToMany_join_first:
  assumes "extractModelInfo model = Inr info"
      and "FieldByName (deref model) (toFieldName (PrimaryKey info)) = Some pkField"
      and "IsExported (f_name pkField)"
    shows "\<exists>err rest. nestedDeleteManyToMany e model field rel opts tr
             = (err, tr @ EvExec (delete_join_query rel) [f_val pkField]
                          (db_exec e tr (delete_join_query rel) [f_val pkField]) # rest)
           \<and> ((\<exists>res. db_exec e tr (delete_join_query rel) [f_val pkField] = Inr res)
                \<longrightarrow> (err = None \<or> rest \<noteq> [] \<or> AutoDelete opts)
                  \<and> (AutoDelete opts \<longrightarrow>
                       (\<exists>rows rest'. rest = EvQuery (select_ids_query rel) [f_val pkField] rows
                                            # rest'))
                  \<and> (\<not> AutoDelete opts \<longrightarrow> err = None \<and> rest = []))
           \<and> ((\<exists>x. db_exec e tr (delete_join_query rel) [f_val pkField] = Inl x)
                \<longrightarrow> err \<noteq> None \<and> rest = [])"
proof -
  let ?q = "delete_join_query rel"
  let ?pk = "f_val pkField"
  let ?t1 = "tr @ [EvExec ?q [?pk] (db_exec e tr ?q [?pk])]"
  let ?t2 = "?t1 @ [EvQuery (select_ids_query rel) [?pk]
                      (db_query e ?t1 (select_ids_query rel) [?pk])]"
  have r: "\<And>ids. \<exists>s. snd (delete_related e rel ids ?t2) = ?t2 @ s"
    using delete_related_extends by blast
  show ?thesis
  proof (cases "db_exec e tr ?q [?pk]")
    case (Inl x)
    then show ?thesis using assms
      by (simp add: nestedDeleteManyToMany_def Interface_def ExecContext_def Let_def)
  next
    case (Inr res)
    show ?thesis
    proof (cases "AutoDelete opts")
      case False
      then show ?thesis using assms Inr
        by (simp add: nestedDeleteManyToMany_def Interface_def ExecContext_def Let_def)
    next
      case True
      show ?thesis
      proof (cases "db_query e ?t1 (select_ids_query rel) [?pk]")
        case (Inl x)
        then show ?thesis using assms Inr True
          by (simp add: nestedDeleteManyToMany_def Interface_def ExecContext_def
                QueryContext_def Let_def)
      next
        case q: (Inr rows)
        show ?thesis
        proof (cases "scan_ids (Scans rows)")
          case (Inl x)
          then show ?thesis using assms Inr True q
            by (simp add: nestedDeleteManyToMany_def Interface_def ExecContext_def
                  QueryContext_def Let_def)
        next
          case ids: (Inr ids)
          obtain s where s: "snd (delete_related e rel ids ?t2) = ?t2 @ s"
            using r by blast
          have "nestedDeleteManyToMany e model field rel opts tr
                  = delete_related e rel ids ?t2"
            using assms Inr True q ids
            by (simp add: nestedDeleteManyToMany_def Interface_def ExecContext_def
                  QueryContext_def Let_def)
          then have "nestedDeleteManyToMany e model field rel opts tr
                  = (fst (delete_related e rel ids ?t2), ?t2 @ s)"
            using s by (metis prod.collapse)
          then show ?thesis using Inr True q
            by simp
        qed
      qed
    qed
  qed
qed

text \<open>
  Claim C9, as the specification states it: every call to \<open>DeleteNested\<close> with a
  \<open>ManyToMany\<close> relationship deletes the join rows of the parent's key, whatever the
  options say, and under \<open>AutoDelete\<close> selects the related ids only after that delete.

  It fails on an article whose key is in the field \<open>ID\<close>: \<open>nestedDeleteManyToMany\<close> looks
  the key up under \<open>toFieldName("id")\<close>, which is \<open>Id\<close>, returns
  \<open>primary key field id not found in source model\<close>, and \<open>DeleteNested\<close> returns that error
  with no statement sent: neither the join rows nor the article are deleted.
\<close>

theorem DeleteNested_ManyToMany_counterexample:
  "DeleteNested (fixed_env (Inr (result_of 7 1)) (Inr no_rows) (Inl ErrNoRows))
     (VPtr (Article 3 ''Hello'' 0 no_writer no_tags)) [(''Tags'', tags_of_article)]
     DefaultNestedOption []
   = (Some (ErrNew ''primary key field id not found in source model''), [])"
  by (simp add: DeleteNested_def nestedDeleteManyToMany_def key_not_found_def
        tags_of_article_def Article_def no_writer_def no_tags_def
        HasMany_def HasOne_def BelongsTo_def ManyToMany_def DefaultNestedOption_def
        FieldByName_def field_name_defs model_defs env_defs)

text \<open>
  Claim C9, amended: when the loop of \<open>DeleteNested\<close> reaches a \<open>ManyToMany\<close>
  relationship (the relationships enumerated before it returned no error, leaving the
  trace \<open>tr1\<close>) and the parent's key is in the exported field named \<open>toFieldName\<close> of the
  key column, then, for every value of the options, the next call to the storage is the
  statement \<open>DELETE FROM join_table WHERE join_foreign_key = ?\<close> with the parent's key as
  its only argument. When that statement succeeds and \<open>AutoDelete\<close> is set, the call that
  follows it is the query \<open>SELECT join_ref_key FROM join_table WHERE join_foreign_key = ?\<close>
  with the same key.
\<close>

theorem DeleteNested_ManyToMany_deletes_join_rows_first:
  assumes "rel_range e tr relationships = pre @ (field, rel) # post"
      and "rel_Type rel = ManyToMany"
      and "delete_rels e model pre opts tr = (None, tr1)"
      and "extractModelInfo model = Inr info"
      and "FieldByName (deref model) (toFieldName (PrimaryKey info)) = Some pkField"
      and "IsExported (f_name pkField)"
    shows "\<exists>err rest.
             DeleteNested e model relationships opts tr
               = (err, tr1 @ EvExec (delete_join_query rel) [f_val pkField]
                              (db_exec e tr1 (delete_join_query rel) [f_val pkField]) # rest)
           \<and> (AutoDelete opts
                \<and> (\<exists>res. db_exec e tr1 (delete_join_query rel) [f_val pkField] = Inr res)
               \<longrightarrow> (\<exists>rows rest'. rest = EvQuery (select_ids_query rel) [f_val pkField] rows
                                          # rest'))"
proof -
  let ?q = "delete_join_query rel"
  let ?pk = "f_val pkField"
  let ?ev = "EvExec ?q [?pk] (db_exec e tr1 ?q [?pk])"
  obtain err1 rest1 where
    m: "nestedDeleteManyToMany e model field rel opts tr1 = (err1, tr1 @ ?ev # rest1)"
    and a: "(\<exists>res. db_exec e tr1 ?q [?pk] = Inr res) \<longrightarrow>
              (AutoDelete opts \<longrightarrow>
                 (\<exists>rows rest'. rest1 = EvQuery (select_ids_query rel) [?pk] rows # rest'))"
    using nestedDeleteManyToMany_join_first [OF assms(4,5,6), of e field rel opts tr1]
    by blast
  have kinds: "rel_Type rel \<noteq> HasOne" "rel_Type rel \<noteq> HasMany"
    using assms(2) by (simp_all add: ManyToMany_def HasOne_def HasMany_def)
  have step: "delete_rels e model ((field, rel) # post) opts tr1 =
          (case err1 of Some x \<Rightarrow> (Some x, tr1 @ ?ev # rest1)
           | None \<Rightarrow> delete_rels e model post opts (tr1 @ ?ev # rest1))"
    using m kinds assms(2) by (simp split: option.splits)
  have loop: "delete_rels e model (rel_range e tr relationships) opts tr =
          delete_rels e model ((field, rel) # post) opts tr1"
    unfolding assms(1) delete_rels_append assms(3) by simp
  obtain s where s: "snd (delete_rels e model post opts (tr1 @ ?ev # rest1))
                     = (tr1 @ ?ev # rest1) @ s"
    using delete_rels_extends by blast
  obtain s' where s': "snd (Delete e model ((tr1 @ ?ev # rest1) @ s))
                     = ((tr1 @ ?ev # rest1) @ s) @ s'"
    using Delete_extends by blast
  have "\<exists>err s2. DeleteNested e model relationships opts tr
                   = (err, tr1 @ ?ev # rest1 @ s2)"
  proof (cases err1)
    case (Some x)
    then show ?thesis
      unfolding DeleteNested_def loop step by simp
  next
    case None
    obtain r t where d: "delete_rels e model post opts (tr1 @ ?ev # rest1) = (r, t)"
      by (meson surj_pair)
    with s have t: "t = (tr1 @ ?ev # rest1) @ s" by simp
    show ?thesis
    proof (cases r)
      case (Some x)
      then show ?thesis
        unfolding DeleteNested_def loop step using None d t by simp
    next
      case n: None
      have "DeleteNested e model relationships opts tr
              = Delete e model ((tr1 @ ?ev # rest1) @ s)"
        unfolding DeleteNested_def loop step using None d t n by simp
      then have "DeleteNested e model relationships opts tr
              = (fst (Delete e model ((tr1 @ ?ev # rest1) @ s)),
                 tr1 @ ?ev # rest1 @ (s @ s'))"
        using s' by (metis append.assoc append_Cons prod.collapse)
      then show ?thesis by blast
    qed
  qed
  then obtain err s2 where
    d: "DeleteNested e model relationships opts tr = (err, tr1 @ ?ev # rest1 @ s2)"
    by blast
  show ?thesis
  proof (intro exI [of _ err] exI [of _ "rest1 @ s2"] conjI impI)
    show "DeleteNested e model relationships opts tr = (err, tr1 @ ?ev # rest1 @ s2)"
      by (rule d)
  next
    assume "AutoDelete opts \<and> (\<exists>res. db_exec e tr1 ?q [?pk] = Inr res)"
    with a obtain rows rest' where
      "rest1 = EvQuery (select_ids_query rel) [?pk] rows # rest'"
      by blast
    then show "\<exists>rows rest'. rest1 @ s2 = EvQuery (select_ids_query rel) [?pk] rows # rest'"
      by simp
  qed
qed

theorem DeleteNested_ManyToMany_deletes_join_rows_first_witness:
  "rel_Type tags_of_post = ManyToMany
   \<and> DeleteNested (fixed_env (Inr (result_of 7 1)) (Inr no_rows) (Inl ErrNoRows))
        (VPtr (Post 3 ''Hello'' 0 no_author no_tags)) [(''Tags'', tags_of_post)]
        (DefaultNestedOption \<lparr> AutoDelete := True, NullifyOnDelete := True \<rparr>) []
     = (None,
        [EvExec ''DELETE FROM post_tags WHERE post_id = ?'' [VInt 3] (Inr (result_of 7 1)),
         EvQuery ''SELECT tag_id FROM post_tags WHERE post_id = ?'' [VInt 3] (Inr no_rows),
         EvExec ''DELETE FROM posts WHERE id = ?'' [VInt 3] (Inr (result_of 7 1))])"
proof -
  let ?e = "fixed_env (Inr (result_of 7 1)) (Inr no_rows) (Inl ErrNoRows)"
  let ?m = "VPtr (Post 3 ''Hello'' 0 no_author no_tags)"
  let ?rels = "[(''Tags'', tags_of_post)]"
  let ?opts = "DefaultNestedOption \<lparr> AutoDelete := True, NullifyOnDelete := True \<rparr>"
  let ?pk = "Field ''Id'' TInt ''id,pk,auto'' (VInt 3)"
  have h1: "rel_range ?e [] ?rels = [] @ (''Tags'', tags_of_post) # []"
    by (simp add: env_defs)
  have h2: "rel_Type tags_of_post = ManyToMany"
    by (simp add: tags_of_post_def)
  have h3: "delete_rels ?e ?m [] ?opts [] = (None, [])"
    by simp
  have "\<exists>info. extractModelInfo ?m = Inr info \<and> PrimaryKey info = ''id''"
    by (simp add: Post_def model_defs)
  then obtain info where h4: "extractModelInfo ?m = Inr info" and pk: "PrimaryKey info = ''id''"
    by blast
  have h5: "FieldByName (deref ?m) (toFieldName (PrimaryKey info)) = Some ?pk"
    unfolding pk
    by (simp add: Post_def FieldByName_def toFieldName_def Title_def isSeparator_def
          upper_char_def lower_char_def is_digit_def is_lower_def model_defs)
  have h6: "IsExported (f_name ?pk)"
    by (simp add: model_defs)
  have run: "DeleteNested ?e ?m ?rels ?opts []
     = (None,
        [EvExec ''DELETE FROM post_tags WHERE post_id = ?'' [VInt 3] (Inr (result_of 7 1)),
         EvQuery ''SELECT tag_id FROM post_tags WHERE post_id = ?'' [VInt 3] (Inr no_rows),
         EvExec ''DELETE FROM posts WHERE id = ?'' [VInt 3] (Inr (result_of 7 1))])"
    by (simp add: DeleteNested_def nestedDeleteManyToMany_def delete_related_def
          delete_join_query_def select_ids_query_def Interface_def Delete_def
          exec_affected_def result_of_def no_rows_def
          tags_of_post_def Post_def no_author_def no_tags_def
          HasMany_def HasOne_def BelongsTo_def ManyToMany_def DefaultNestedOption_def
          toFieldName_def Title_def isSeparator_def
          upper_char_def lower_char_def is_digit_def is_lower_def
          FieldByName_def model_defs env_defs qb_defs)
  show ?thesis
    using h2 run DeleteNested_ManyToMany_deletes_join_rows_first [OF h1 h2 h3 h4 h5 h6]
    by simp
qed

section \<open>Nested creation\<close>

lemma Create_ok_event:
  assumes "Create e model tr = (None, model', tr')"
  shows "\<exists>q a r. tr' = tr @ [EvExec q a r]"
proof -
  have "snd (snd (Create e model tr)) = tr \<and> fst (Create e model tr) \<noteq> None
        \<or> (\<exists>q a r. snd (snd (Create e model tr)) = tr @ [EvExec q a r])"
    by (simp add: Create_def ExecContext_def Let_def split: sum.splits prod.splits)
  with assms show ?thesis by auto
qed

lemma create_rels_append:
  "create_rels e model (xs @ ys) opts tr =
     (case create_rels e model xs opts tr of
        (Some err, model', tr') \<Rightarrow> (Some err, model', tr')
      | (None, model', tr') \<Rightarrow> create_rels e model' ys opts tr')"
proof (induction xs arbitrary: model tr)
  case Nil
  show ?case by simp
next
  case (Cons p xs)
  obtain field rel where p: "p = (field, rel)" by (cases p) auto
  show ?case
  proof (cases "AutoSave opts")
    case False
    then show ?thesis using Cons.IH [of model tr] by (simp add: p)
  next
    case True
    define step where
      "step = (if rel_Type rel = HasOne then nestedCreateHasOne e model field rel opts tr
               else if rel_Type rel = BelongsTo
                    then nestedCreateBelongsTo e model field rel opts tr
               else if rel_Type rel = HasMany
                    then nestedCreateHasMany e model field rel opts tr
               else if rel_Type rel = ManyToMany
                    then nestedCreateManyToMany e model field rel opts tr
               else (Some (unsupported_relationship (rel_Type rel)), model, tr))"
    have unfold: "\<And>rest. create_rels e model (p # rest) opts tr =
            (case step of (Some err, model', tr') \<Rightarrow> (Some err, model', tr')
             | (None, model', tr') \<Rightarrow> create_rels e model' rest opts tr')"
      using True by (simp add: p step_def)
    obtain r m t where st: "step = (r, m, t)" by (cases step) auto
    show ?thesis
      using Cons.IH [of m t] unfolding append_Cons unfold st
      by (cases r) simp_all
  qed
qed

lemma FieldByName_with_field_other:
  assumes "n \<noteq> k"
  shows "FieldByName (deref (with_field k x source)) n = FieldByName (deref source) n"
proof (cases source)
  case (VPtr v)
  then show ?thesis using assms
    by (cases v) (simp_all add: FieldByName_def find_field_set_other)
next
  case (VStruct si fs)
  then show ?thesis using assms
    by (simp add: FieldByName_def find_field_set_other)
qed simp_all

lemma CanSet_with_field:
  "CanSet (with_field k x source) n = CanSet source n"
proof (cases source)
  case (VPtr v)
  then show ?thesis by (cases v) (simp_all add: CanSet_def)
qed (simp_all add: CanSet_def)

lemma nestedCreateBelongsTo_steps:
  assumes fv: "FieldByName (deref source) field = Some fieldValue"
      and ft: "f_type fieldValue = TPtr t" "f_val fieldValue = VPtr c"
              "IsExported (f_name fieldValue)"
      and cr: "Create e (VPtr c) tr = (None, child', tr1)"
      and ri: "extractModelInfo child' = Inr relInfo"
      and pk: "FieldByName (deref child') (toFieldName (PrimaryKey relInfo)) = Some pkField"
      and fk: "FieldByName (deref source) (toFieldName (rel_ForeignKey rel)) = Some fkField"
              "toFieldName (rel_ForeignKey rel) \<noteq> field"
              "CanSet source (toFieldName (rel_ForeignKey rel))"
              "f_type fkField = f_type pkField"
    shows "nestedCreateBelongsTo e source field rel opts tr =
             (fst (Update e (with_field (toFieldName (rel_ForeignKey rel)) (f_val pkField)
                               (with_field field child' source)) tr1),
              with_field (toFieldName (rel_ForeignKey rel)) (f_val pkField)
                (with_field field child' source),
              snd (Update e (with_field (toFieldName (rel_ForeignKey rel)) (f_val pkField)
                               (with_field field child' source)) tr1))"
proof -
  let ?fk = "toFieldName (rel_ForeignKey rel)"
  let ?s1 = "with_field field child' source"
  have a: "field_of (deref source) field = Inr (Some fieldValue)"
    using fv by (auto simp: field_of_def FieldByName_def split: option.splits)
  have b: "IsNil fieldValue = Inr False"
    using ft by (simp add: IsNil_def)
  have c: "Interface fieldValue = Inr (VPtr c)"
    using ft by (simp add: Interface_def)
  have d: "Elem fieldValue child' = Inr (deref child')"
    using ft by (simp add: Elem_def)
  have f: "field_of (deref child') (toFieldName (PrimaryKey relInfo)) = Inr (Some pkField)"
    using pk by (auto simp: field_of_def FieldByName_def split: option.splits)
  have g: "set_foreign_key ?s1 ?fk pkField = Inr (with_field ?fk (f_val pkField) ?s1)"
    using fk by (simp add: set_foreign_key_def FieldByName_with_field_other CanSet_with_field)
  show ?thesis
    by (simp add: nestedCreateBelongsTo_def a b c cr d ri f g Let_def split: prod.splits)
qed

lemma with_field_keeps_others:
  assumes "n \<noteq> k" and "n \<noteq> k'"
  shows "FieldByName (deref (with_field k x (with_field k' x' source))) n
         = FieldByName (deref source) n"
  using assms by (simp add: FieldByName_with_field_other)

text \<open>
  Claim C8, as the specification states it: in \<open>CreateNested\<close>, for every \<open>BelongsTo\<close>
  relationship with auto-save on and a non-nil child field, the child is created first,
  then the child's key is copied into the parent's foreign key field, then the parent is
  updated to persist that key.

  It fails on two records. An entry whose foreign key field is named \<open>AuthorID\<close>: the
  field is looked up under \<open>toFieldName("author_id")\<close>, which is \<open>AuthorId\<close>, the copy is
  skipped without error, and the update that follows the author's insert writes
  \<open>author_id = 0\<close> although the author's key is 8. An article whose writer has the key in
  the field \<open>ID\<close>: after the writer's insert the call returns
  \<open>primary key field id not found in related model\<close>; nothing is copied and the article
  is not updated.
\<close>

theorem CreateNested_BelongsTo_counterexample:
  "CreateNested serial_env
     (VPtr (Entry 0 ''Hello'' 0 (VPtr (Author 0 ''ann'' no_posts))))
     [(''Author'', author_of_post)] DefaultNestedOption []
   = (None, VPtr (Entry 7 ''Hello'' 0 (VPtr (Author 8 ''ann'' no_posts))),
      [EvExec ''INSERT INTO entries (title, author_id) VALUES (?, ?)''
         [VStr ''Hello'', VInt 0] (Inr (result_of 7 1)),
       EvExec ''INSERT INTO authors (name) VALUES (?)'' [VStr ''ann'']
         (Inr (result_of 8 1)),
       EvExec ''UPDATE entries SET title = ?, author_id = ? WHERE id = ?''
         [VStr ''Hello'', VInt 0, VInt 7] (Inr (result_of 9 1))])
   \<and> CreateNested serial_env
       (VPtr (Article 0 ''Hello'' 0 (VPtr (Writer 0 ''ann'' no_articles)) no_tags))
       [(''Writer'', writer_of_article)] DefaultNestedOption []
   = (Some (ErrNew ''primary key field id not found in related model''),
      VPtr (Article 7 ''Hello'' 0 (VPtr (Writer 8 ''ann'' no_articles)) no_tags),
      [EvExec ''INSERT INTO articles (title, writer_id) VALUES (?, ?)''
         [VStr ''Hello'', VInt 0] (Inr (result_of 7 1)),
       EvExec ''INSERT INTO writers (name) VALUES (?)'' [VStr ''ann'']
         (Inr (result_of 8 1))])"
  by (simp add: CreateNested_def nestedCreateBelongsTo_def set_foreign_key_def field_of_def
        IsNil_def Elem_def Interface_def key_not_found_def serial_env_def
        author_of_post_def writer_of_article_def Entry_def Author_def Article_def Writer_def
        no_posts_def no_articles_def no_tags_def
        HasMany_def HasOne_def BelongsTo_def ManyToMany_def DefaultNestedOption_def
        crud_defs field_name_defs model_defs env_defs qb_defs)

text \<open>
  Claim C8, amended: in \<open>CreateNested\<close>, after the record's own insert, when the loop
  reaches a \<open>BelongsTo\<close> relationship with auto-save on (the relationships enumerated
  before it returned no error, leaving the parent \<open>model2\<close> and the trace \<open>tr2\<close>) whose
  field holds a non-nil pointer, and the child's creation succeeds, the child's key is in
  the field named \<open>toFieldName\<close> of its key column, and the parent, passed by pointer, has
  an exported field named \<open>toFieldName\<close> of the relationship's foreign key, of the key's
  type and other than the relationship's field: then the child's insert is the one call
  added to \<open>tr2\<close>; the parent the relationship returns holds the created child in the
  relationship's field and the child's key in the foreign key field, and is otherwise the
  parent as it was; and the result of \<open>CreateNested\<close> is that of \<open>Update\<close> on this parent
  in the world after the child's insert: its error ends the call, otherwise the loop goes
  on with the remaining relationships.
\<close>

theorem CreateNested_BelongsTo_child_then_key_then_update:
  assumes "Create e model tr = (None, model1, tr1)"
      and "rel_range e tr1 relationships = pre @ (field, rel) # post"
      and "AutoSave opts"
      and "rel_Type rel = BelongsTo"
      and "create_rels e model1 pre opts tr1 = (None, model2, tr2)"
      and "FieldByName (deref model2) field = Some fieldValue"
      and "f_type fieldValue = TPtr t"
      and "f_val fieldValue = VPtr c"
      and "IsExported (f_name fieldValue)"
      and "Create e (VPtr c) tr2 = (None, child', tr3)"
      and "extractModelInfo child' = Inr relInfo"
      and "FieldByName (deref child') (toFieldName (PrimaryKey relInfo)) = Some pkField"
      and "FieldByName (deref model2) (toFieldName (rel_ForeignKey rel)) = Some fkField"
      and "toFieldName (rel_ForeignKey rel) \<noteq> field"
      and "CanSet model2 (toFieldName (rel_ForeignKey rel))"
      and "f_type fkField = f_type pkField"
    shows "\<exists>parent q a r.
             tr3 = tr2 @ [EvExec q a r]
           \<and> nestedCreateBelongsTo e model2 field rel opts tr2
               = (fst (Update e parent tr3), parent, snd (Update e parent tr3))
           \<and> (\<exists>g. FieldByName (deref parent) field = Some g \<and> f_val g = child')
           \<and> (\<exists>g. FieldByName (deref parent) (toFieldName (rel_ForeignKey rel)) = Some g
                   \<and> f_val g = f_val pkField)
           \<and> (\<forall>n. n \<noteq> field \<and> n \<noteq> toFieldName (rel_ForeignKey rel)
                   \<longrightarrow> FieldByName (deref parent) n = FieldByName (deref model2) n)
           \<and> CreateNested e model relationships opts tr =
                (case Update e parent tr3 of
                   (Some err, tr4) \<Rightarrow> (Some err, parent, tr4)
                 | (None, tr4) \<Rightarrow> create_rels e parent post opts tr4)"
proof -
  let ?fk = "toFieldName (rel_ForeignKey rel)"
  let ?s1 = "with_field field child' model2"
  let ?parent = "with_field ?fk (f_val pkField) ?s1"
  obtain q a r where ev: "tr3 = tr2 @ [EvExec q a r]"
    using Create_ok_event [OF assms(10)] by blast
  from assms(15) obtain v where v: "model2 = VPtr v"
    by (auto simp: CanSet_def split: gval.splits)
  with assms(6) have np: "\<not> is_ptr v"
    by (cases v) (auto simp: FieldByName_def)
  have f1: "FieldByName (deref ?s1) field
              = Some (Field (f_name fieldValue) (f_type fieldValue) (f_tag fieldValue) child')"
    using FieldByName_with_field [OF assms(6) _ np] v by simp
  have "FieldByName (deref ?parent) field = FieldByName (deref ?s1) field"
    using assms(14) by (simp add: FieldByName_with_field_other)
  with f1 have c2: "\<exists>g. FieldByName (deref ?parent) field = Some g \<and> f_val g = child'"
    by simp
  have s1: "?s1 = VPtr (deref ?s1)" "\<not> is_ptr (deref ?s1)"
    using v np by (cases v; simp)+
  have f2: "FieldByName (deref ?s1) ?fk = Some fkField"
    using assms(13,14) by (simp add: FieldByName_with_field_other)
  have "FieldByName (deref ?parent) ?fk
          = Some (Field (f_name fkField) (f_type fkField) (f_tag fkField) (f_val pkField))"
    using FieldByName_with_field [OF f2 _ s1(2)] s1(1) by simp
  then have c3: "\<exists>g. FieldByName (deref ?parent) ?fk = Some g \<and> f_val g = f_val pkField"
    by simp
  have c4: "\<forall>n. n \<noteq> field \<and> n \<noteq> ?fk
              \<longrightarrow> FieldByName (deref ?parent) n = FieldByName (deref model2) n"
    by (simp add: with_field_keeps_others)
  have kinds: "rel_Type rel \<noteq> HasOne"
    using assms(4) by (simp add: BelongsTo_def HasOne_def)
  have step: "nestedCreateBelongsTo e model2 field rel opts tr2
                = (fst (Update e ?parent tr3), ?parent, snd (Update e ?parent tr3))"
    by (rule nestedCreateBelongsTo_steps [OF assms(6,7,8,9,10,11,12,13,14,15,16)])
  have loop: "create_rels e model1 (rel_range e tr1 relationships) opts tr1
                = create_rels e model2 ((field, rel) # post) opts tr2"
    unfolding assms(2) create_rels_append assms(5) by simp
  have "create_rels e model2 ((field, rel) # post) opts tr2 =
          (case Update e ?parent tr3 of
             (Some err, tr4) \<Rightarrow> (Some err, ?parent, tr4)
           | (None, tr4) \<Rightarrow> create_rels e ?parent post opts tr4)"
    using assms(3,4) kinds step
    by (cases "Update e ?parent tr3") (simp split: option.splits)
  then have c5: "CreateNested e model relationships opts tr =
              (case Update e ?parent tr3 of
                 (Some err, tr4) \<Rightarrow> (Some err, ?parent, tr4)
               | (None, tr4) \<Rightarrow> create_rels e ?parent post opts tr4)"
    unfolding CreateNested_def assms(1) using loop by simp
  show ?thesis
    using ev step c2 c3 c4 c5
    by (intro exI [of _ ?parent] exI [of _ q] exI [of _ a] exI [of _ r] conjI)
qed

theorem CreateNested_BelongsTo_child_then_key_then_update_witness:
  "AutoSave DefaultNestedOption \<and> rel_Type author_of_post = BelongsTo
   \<and> CreateNested serial_env
        (VPtr (Post 0 ''Hello'' 0 (VPtr (Author 0 ''ann'' no_posts)) no_tags))
        [(''Author'', author_of_post)] DefaultNestedOption []
     = (None, VPtr (Post 7 ''Hello'' 8 (VPtr (Author 8 ''ann'' no_posts)) no_tags),
        [EvExec ''INSERT INTO posts (title, author_id) VALUES (?, ?)''
           [VStr ''Hello'', VInt 0] (Inr (result_of 7 1)),
         EvExec ''INSERT INTO authors (name) VALUES (?)'' [VStr ''ann'']
           (Inr (result_of 8 1)),
         EvExec ''UPDATE posts SET title = ?, author_id = ? WHERE id = ?''
           [VStr ''Hello'', VInt 8, VInt 7] (Inr (result_of 9 1))])"
proof -
  let ?e = "serial_env"
  let ?a0 = "Author 0 ''ann'' no_posts"
  let ?a8 = "Author 8 ''ann'' no_posts"
  let ?m = "VPtr (Post 0 ''Hello'' 0 (VPtr ?a0) no_tags)"
  let ?m1 = "VPtr (Post 7 ''Hello'' 0 (VPtr ?a0) no_tags)"
  let ?final = "VPtr (Post 7 ''Hello'' 8 (VPtr ?a8) no_tags)"
  let ?rels = "[(''Author'', author_of_post)]"
  let ?ev1 = "EvExec ''INSERT INTO posts (title, author_id) VALUES (?, ?)''
                [VStr ''Hello'', VInt 0] (Inr (result_of 7 1))"
  let ?ev2 = "EvExec ''INSERT INTO authors (name) VALUES (?)'' [VStr ''ann'']
                (Inr (result_of 8 1))"
  let ?ev3 = "EvExec ''UPDATE posts SET title = ?, author_id = ? WHERE id = ?''
                [VStr ''Hello'', VInt 8, VInt 7] (Inr (result_of 9 1))"
  let ?fv = "Field ''Author'' (TPtr (TStruct ''Author'')) ''-'' (VPtr ?a0)"
  let ?pk = "Field ''Id'' TInt ''id,pk,auto'' (VInt 8)"
  let ?fkf = "Field ''AuthorId'' TInt ''author_id'' (VInt 0)"
  have fk: "toFieldName (rel_ForeignKey author_of_post) = ''AuthorId''"
    by (simp add: author_of_post_def field_name_defs string_defs)
  have idn: "toFieldName ''id'' = ''Id''"
    by (simp add: field_name_defs string_defs)
  have h1: "Create ?e ?m [] = (None, ?m1, [?ev1])"
    by (simp add: serial_env_def Post_def Author_def no_posts_def no_tags_def
          crud_defs model_defs env_defs qb_defs)
  have h2: "rel_range ?e [?ev1] ?rels = [] @ (''Author'', author_of_post) # []"
    by (simp add: serial_env_def env_defs)
  have h3: "AutoSave DefaultNestedOption"
    by (simp add: DefaultNestedOption_def)
  have h4: "rel_Type author_of_post = BelongsTo"
    by (simp add: author_of_post_def)
  have h5: "create_rels ?e ?m1 [] DefaultNestedOption [?ev1] = (None, ?m1, [?ev1])"
    by simp
  have h6: "FieldByName (deref ?m1) ''Author'' = Some ?fv"
    by (simp add: FieldByName_def Post_def)
  have h7: "f_type ?fv = TPtr (TStruct ''Author'')"
    by simp
  have h8: "f_val ?fv = VPtr ?a0"
    by simp
  have h9: "IsExported (f_name ?fv)"
    by (simp add: model_defs)
  have h10: "Create ?e (VPtr ?a0) [?ev1] = (None, VPtr ?a8, [?ev1, ?ev2])"
    by (simp add: serial_env_def Author_def no_posts_def crud_defs model_defs env_defs qb_defs)
  have "\<exists>info. extractModelInfo (VPtr ?a8) = Inr info \<and> PrimaryKey info = ''id''"
    by (simp add: Author_def model_defs)
  then obtain info where h11: "extractModelInfo (VPtr ?a8) = Inr info"
    and pk: "PrimaryKey info = ''id''"
    by blast
  have h12: "FieldByName (deref (VPtr ?a8)) (toFieldName (PrimaryKey info)) = Some ?pk"
    unfolding pk idn by (simp add: FieldByName_def Author_def)
  have h13: "FieldByName (deref ?m1) (toFieldName (rel_ForeignKey author_of_post)) = Some ?fkf"
    unfolding fk by (simp add: FieldByName_def Post_def)
  have h14: "toFieldName (rel_ForeignKey author_of_post) \<noteq> ''Author''"
    unfolding fk by simp
  have h15: "CanSet ?m1 (toFieldName (rel_ForeignKey author_of_post))"
    unfolding fk by (simp add: CanSet_def model_defs)
  have h16: "f_type ?fkf = f_type ?pk"
    by simp
  from CreateNested_BelongsTo_child_then_key_then_update
         [OF h1 h2 h3 h4 h5 h6 h7 h8 h9 h10 h11 h12 h13 h14 h15 h16]
  obtain parent where
    p: "nestedCreateBelongsTo ?e ?m1 ''Author'' author_of_post DefaultNestedOption [?ev1]
          = (fst (Update ?e parent [?ev1, ?ev2]), parent, snd (Update ?e parent [?ev1, ?ev2]))"
    and c: "CreateNested ?e ?m ?rels DefaultNestedOption [] =
              (case Update ?e parent [?ev1, ?ev2] of
                 (Some err, tr4) \<Rightarrow> (Some err, parent, tr4)
               | (None, tr4) \<Rightarrow> create_rels ?e parent [] DefaultNestedOption tr4)"
    by auto
  have "fst (snd (nestedCreateBelongsTo ?e ?m1 ''Author'' author_of_post
                    DefaultNestedOption [?ev1])) = ?final"
    by (simp add: nestedCreateBelongsTo_def set_foreign_key_def field_of_def
          IsNil_def Elem_def Interface_def serial_env_def
          author_of_post_def Post_def Author_def no_posts_def no_tags_def
          crud_defs field_name_defs model_defs env_defs qb_defs)
  with p have parent: "parent = ?final"
    by simp
  have upd: "Update ?e ?final [?ev1, ?ev2] = (None, [?ev1, ?ev2, ?ev3])"
    by (simp add: serial_env_def Post_def Author_def no_posts_def no_tags_def
          crud_defs model_defs env_defs qb_defs)
  have "CreateNested ?e ?m ?rels DefaultNestedOption [] = (None, ?final, [?ev1, ?ev2, ?ev3])"
    using c unfolding parent by (simp add: upd)
  with h3 h4 show ?thesis by simp
qed

end
